(* ===== verification/Prelude.thy ===== *)
theory Prelude
  imports Complex_Main
begin

section \<open>Shared vocabulary of the model\<close>

text \<open>
  The JavaScript semantics that several components of \<^verbatim>\<open>src/neck-care/script.js\<close>
  rely on, written once:
  \<^item> a JS \<^verbatim>\<open>Set\<close> iterates in insertion order (and \<^verbatim>\<open>Array.from\<close> of it, which
    \<^verbatim>\<open>saveProgress\<close> writes, keeps that order), so it is a duplicate-free list
    that \<open>js_set_add\<close> extends at the end;
  \<^item> \<^verbatim>\<open>new Set(array)\<close> keeps the first occurrence of each element
    (\<open>js_set_of\<close>), unlike HOL's \<open>remdups\<close>, which keeps the last;
  \<^item> an exception is a value of \<open>js_error\<close>;
  \<^item> a numeric comparison against a missing target field (\<^verbatim>\<open>undefined\<close>, here
    \<open>None\<close>) is \<^verbatim>\<open>false\<close> in both directions (\<open>js_less\<close>, \<open>js_geq\<close>).
  The collection \<open>model_simps\<close> gathers the equations component proofs unfold.
\<close>

named_theorems model_simps "equations the component proofs unfold"

text \<open>The one JS exception the modelled code can raise: a \<^verbatim>\<open>TypeError\<close>, from reading a
  property of \<^verbatim>\<open>null\<close> or \<^verbatim>\<open>undefined\<close> or calling something that is not a
  function. Fallible code returns \<open>js_error + 'a\<close>.\<close>

datatype js_error = TypeError

definition js_set_add :: "'a list \<Rightarrow> 'a \<Rightarrow> 'a list" where
  "js_set_add xs x = (if x \<in> set xs then xs else xs @ [x])"

definition js_set_of :: "'a list \<Rightarrow> 'a list" where
  "js_set_of xs = foldl js_set_add [] xs"

definition js_less :: "nat \<Rightarrow> nat option \<Rightarrow> bool" where
  "js_less n t = (case t of None \<Rightarrow> False | Some m \<Rightarrow> n < m)"

definition js_geq :: "nat \<Rightarrow> nat option \<Rightarrow> bool" where
  "js_geq n t = (case t of None \<Rightarrow> False | Some m \<Rightarrow> m \<le> n)"

declare js_less_def [model_simps] js_geq_def [model_simps]

subsection \<open>Insertion-ordered sets\<close>

lemma set_js_set_add [simp]: "set (js_set_add xs x) = insert x (set xs)"
  by (auto simp: js_set_add_def)

lemma distinct_js_set_add [simp]: "distinct (js_set_add xs x) = distinct xs"
  by (auto simp: js_set_add_def)

lemma js_set_add_present [simp]: "x \<in> set xs \<Longrightarrow> js_set_add xs x = xs"
  by (simp add: js_set_add_def)

lemma js_set_add_absent: "x \<notin> set xs \<Longrightarrow> js_set_add xs x = xs @ [x]"
  by (simp add: js_set_add_def)

lemma js_set_add_idem [simp]: "js_set_add (js_set_add xs x) x = js_set_add xs x"
  by simp

lemma length_js_set_add: "length (js_set_add xs x) = (if x \<in> set xs then length xs else Suc (length xs))"
  by (simp add: js_set_add_def)

lemma foldl_js_set_add_distinct: "distinct ys \<Longrightarrow> distinct (foldl js_set_add ys xs)"
  by (induction xs arbitrary: ys) auto

lemma set_foldl_js_set_add: "set (foldl js_set_add ys xs) = set ys \<union> set xs"
  by (induction xs arbitrary: ys) auto

lemma foldl_js_set_add_subset: "set xs \<subseteq> set ys \<Longrightarrow> foldl js_set_add ys xs = ys"
  by (induction xs arbitrary: ys) auto

lemma distinct_js_set_of [simp]: "distinct (js_set_of xs)"
  by (simp add: js_set_of_def foldl_js_set_add_distinct)

lemma set_js_set_of [simp]: "set (js_set_of xs) = set xs"
  by (simp add: js_set_of_def set_foldl_js_set_add)

lemma foldl_js_set_add_distinct_id: "distinct xs \<Longrightarrow> set xs \<inter> set ys = {} \<Longrightarrow> foldl js_set_add ys xs = ys @ xs"
  by (induction xs arbitrary: ys) (auto simp: js_set_add_absent)

lemma js_set_of_distinct [simp]: "distinct xs \<Longrightarrow> js_set_of xs = xs"
  by (simp add: js_set_of_def foldl_js_set_add_distinct_id)

subsection \<open>Comparisons against optional targets\<close>

lemma js_less_Some [simp]: "js_less n (Some m) = (n < m)"
  and js_less_None [simp]: "js_less n None = False"
  and js_geq_Some [simp]: "js_geq n (Some m) = (m \<le> n)"
  and js_geq_None [simp]: "js_geq n None = False"
  by (simp_all add: js_less_def js_geq_def)

lemma filter_upt_single: "i < n \<Longrightarrow> filter (\<lambda>j. j = i) [0..<n] = [i]"
proof (induction n)
  case (Suc n)
  then show ?case by (cases "i = n") (auto simp: filter_empty_conv)
qed simp

lemma dropWhile_Cons_length: "dropWhile P xs = y # ys \<Longrightarrow> length ys < length xs"
  by (metis Suc_le_lessD length_Cons length_dropWhile_le)

end
