(* ===== verification/Catalog.thy ===== *)
theory Catalog
  imports Prelude
begin

section \<open>The routine catalog\<close>

text \<open>
  \<^verbatim>\<open>const routine\<close> (\<^verbatim>\<open>script.js\<close>, lines 2--123): nine exercise definitions in
  a fixed order. Each entry keeps the source's fields: \<^verbatim>\<open>id\<close>, the text that
  \<^verbatim>\<open>renderExercise\<close> and \<^verbatim>\<open>renderStepList\<close> write into the page
  (\<^verbatim>\<open>category\<close>, \<^verbatim>\<open>title\<close>, \<^verbatim>\<open>note\<close>, \<^verbatim>\<open>instructions\<close>,
  \<^verbatim>\<open>caution\<close>), \<^verbatim>\<open>mode\<close> and \<^verbatim>\<open>targets\<close>. The five text fields of an entry
  are grouped in one \<open>exercise_text\<close> value, a definition of its own per exercise, so
  that proofs about the handlers, which never read the text, do not unfold it.
  \<^verbatim>\<open>targets\<close> is a JS object whose fields are present or absent; an absent field
  reads as \<^verbatim>\<open>undefined\<close>, here \<open>None\<close>.

  Page text is kept as its UTF-8 encoding: a HOL \<open>char\<close> is one byte, so each
  non-ASCII character of the catalog and of the templates is the list of its UTF-8
  bytes. Concatenation, the only operation the page text undergoes, commutes with the
  encoding, and the encoding is injective, so equal strings here are equal JS strings.
\<close>

definition nb_hyphen :: string where
  "nb_hyphen = [CHR 0xE2, CHR 0x80, CHR 0x91]"

definition en_dash :: string where
  "en_dash = [CHR 0xE2, CHR 0x80, CHR 0x93]"

definition em_dash :: string where
  "em_dash = [CHR 0xE2, CHR 0x80, CHR 0x94]"

definition rsquo :: string where
  "rsquo = [CHR 0xE2, CHR 0x80, CHR 0x99]"

definition ldquo :: string where
  "ldquo = [CHR 0xE2, CHR 0x80, CHR 0x9C]"

definition rdquo :: string where
  "rdquo = [CHR 0xE2, CHR 0x80, CHR 0x9D]"

definition times_sign :: string where
  "times_sign = [CHR 0xC3, CHR 0x97]"

datatype mode = Timer | HoldReps | HoldSets | RepsSets

record targets =
  durationSec :: "nat option"
  reps :: "nat option"
  sets :: "nat option"
  holdSec :: "nat option"

record exercise_text =
  ex_category :: string
  ex_title :: string
  ex_note :: string
  ex_instructions :: "string list"
  ex_caution :: string

record exercise =
  ex_id :: string
  ex_text :: exercise_text
  mode :: mode
  targets :: targets

definition text_posture_breath :: exercise_text where
  "text_posture_breath =
    \<lparr>ex_category = ''Reset posture & breath'',
     ex_title = ''Reset posture & breath'',
     ex_note = ''Sit tall, ribs down; slow diaphragmatic breaths'' @ em_dash @ ''helps offload the SCM/upper traps that overwork when we'' @ rsquo @ ''re tense. (General posture guidance; see muscle overview.)'',
     ex_instructions = [
      ''Sit tall with a neutral spine. Gently draw ribs down (avoid flaring).'',
      ''Place one hand on the belly and one on the lower ribs. Inhale through the nose letting the belly and lower ribs expand.'',
      ''Exhale slowly. Relax the neck and jaw. Shoulders stay heavy.''],
     ex_caution = []\<rparr>"

definition text_chin_tucks :: exercise_text where
  "text_chin_tucks =
    \<lparr>ex_category = ''Mobility & stretch'',
     ex_title = ''Chin tucks (cervical retraction)'',
     ex_note = ''Glide your head straight back (double'' @ nb_hyphen @ ''chin). Hold 5 sec '' @ times_sign @ '' 10.'',
     ex_instructions = [
      ''Keep the eyes level. Glide the head straight back without tilting up or down.'',
      ''Hold the end position briefly; then return to neutral and repeat.''],
     ex_caution = ''Move gently; no sharp pain or dizziness.''\<rparr>"

definition text_levator_stretch_left :: exercise_text where
  "text_levator_stretch_left =
    \<lparr>ex_category = ''Mobility & stretch'',
     ex_title = ''Levator scapulae stretch (left side)'',
     ex_note = ''Look down toward your right armpit; gently pull the back of your head forward/down with the right hand. Hold 30 sec '' @ times_sign @ '' 3.'',
     ex_instructions = [
      ''Sit tall. Turn nose toward the right armpit (diagonal down).'',
      ''Place right hand on the back of the head and gently guide forward/down.'',
      ''Keep the left shoulder relaxed and down. Avoid shrugging.''],
     ex_caution = ''Gentle stretch only; avoid nerve'' @ nb_hyphen @ ''like pain or tingling.''\<rparr>"

definition text_upper_trap_stretch_right :: exercise_text where
  "text_upper_trap_stretch_right =
    \<lparr>ex_category = ''Mobility & stretch'',
     ex_title = ''Upper trapezius stretch'',
     ex_note = ''Ear toward right shoulder; gentle overpressure with right hand. Hold 30 sec '' @ times_sign @ '' 3.'',
     ex_instructions = [
      ''Sit tall. Gently side'' @ nb_hyphen @ ''bend head to the right (ear toward shoulder).'',
      ''Use right hand for very light overpressure. Left shoulder stays heavy.''],
     ex_caution = ''No forcing; avoid compressing the side of the neck.''\<rparr>"

definition text_scm_stretch_left :: exercise_text where
  "text_scm_stretch_left =
    \<lparr>ex_category = ''Mobility & stretch'',
     ex_title = ''SCM stretch (left SCM)'',
     ex_note = ''Side'' @ nb_hyphen @ ''bend head to the right, rotate left, slight lift of chin; VERY gentle'' @ em_dash @ ''no front'' @ nb_hyphen @ ''of'' @ nb_hyphen @ ''neck pressure. Hold 20'' @ en_dash @ ''30 sec '' @ times_sign @ '' 3.'',
     ex_instructions = [
      ''Side'' @ nb_hyphen @ ''bend head to the right (ear toward right shoulder).'',
      ''Rotate the head to the left and slightly lift the chin to feel a gentle stretch.'',
      ''Keep pressure minimal; avoid pressing into the front of the neck.''],
     ex_caution = ''Very gentle. No front'' @ nb_hyphen @ ''of'' @ nb_hyphen @ ''neck pressure. Stop if any lightheadedness.''\<rparr>"

definition text_scap_retraction :: exercise_text where
  "text_scap_retraction =
    \<lparr>ex_category = ''Activate what stabilizes'',
     ex_title = ''Scapular retraction'',
     ex_note = ''Squeeze shoulder blades '' @ ldquo @ ''down and back'' @ rdquo @ '' (don'' @ rsquo @ ''t shrug). 2 sets '' @ times_sign @ '' 10.'',
     ex_instructions = [
      ''Stand or sit tall. Draw shoulder blades down and back as if tucking into back pockets.'',
      ''Avoid shrugging. Hold briefly, then release and repeat.''],
     ex_caution = []\<rparr>"

definition text_wall_slides_or_rows :: exercise_text where
  "text_wall_slides_or_rows =
    \<lparr>ex_category = ''Activate what stabilizes'',
     ex_title = ''Wall slides or gentle band rows'',
     ex_note = ''Choose either. Helps unload the neck long'' @ nb_hyphen @ ''term. Aim for 2 sets '' @ times_sign @ '' 10 if time allows (~3 min total for this block).'',
     ex_instructions = [
      ''Wall slides: forearms on wall, slide arms up keeping ribs down and neck relaxed.'',
      ''OR Band rows: light band, elbows glide back keeping shoulder blades down and back.''],
     ex_caution = ''Keep the neck relaxed. If symptoms increase, reduce range or stop.''\<rparr>"

definition text_ball_on_wall :: exercise_text where
  "text_ball_on_wall =
    \<lparr>ex_category = ''Gentle self'' @ nb_hyphen @ ''release'',
     ex_title = ''Ball on wall (upper trapezius/levator '' @ en_dash @ '' left)'',
     ex_note = ''Lean your left upper'' @ nb_hyphen @ ''back/neck corner onto a tennis/lacrosse ball; slow small rolls. 60 sec.'',
     ex_instructions = [
      ''Place ball at the upper trapezius/levator area on the left.'',
      ''Lean into a wall and make slow, small rolls or sustained pressure on tender spots.''],
     ex_caution = ''Avoid pressing hard on the side/front of the neck (carotid area).''\<rparr>"

definition text_suboccipital_release :: exercise_text where
  "text_suboccipital_release =
    \<lparr>ex_category = ''Gentle self'' @ nb_hyphen @ ''release'',
     ex_title = ''Suboccipital release'',
     ex_note = ''Lie on two taped tennis balls ('' @ ldquo @ ''peanut'' @ rdquo @ '') under the skull base for ~2 mins.'',
     ex_instructions = [
      ''Lie on your back with the peanut under the skull base (not on the neck).'',
      ''Let the head rest and breathe slowly. You can make tiny nodding motions.''],
     ex_caution = ''No direct pressure on the throat or carotid area.''\<rparr>"

definition no_targets :: targets where
  "no_targets = \<lparr>durationSec = None, reps = None, sets = None, holdSec = None\<rparr>"

definition routine :: "exercise list" where
  "routine = [
    \<lparr>ex_id = ''posture-breath'', ex_text = text_posture_breath, mode = Timer, targets = no_targets\<lparr>durationSec := Some 120\<rparr>\<rparr>,
    \<lparr>ex_id = ''chin-tucks'', ex_text = text_chin_tucks, mode = HoldReps, targets = no_targets\<lparr>reps := Some 10, holdSec := Some 5\<rparr>\<rparr>,
    \<lparr>ex_id = ''levator-stretch-left'', ex_text = text_levator_stretch_left, mode = HoldSets,
       targets = no_targets\<lparr>sets := Some 3, holdSec := Some 30\<rparr>\<rparr>,
    \<lparr>ex_id = ''upper-trap-stretch-right'', ex_text = text_upper_trap_stretch_right, mode = HoldSets,
       targets = no_targets\<lparr>sets := Some 3, holdSec := Some 30\<rparr>\<rparr>,
    \<lparr>ex_id = ''scm-stretch-left'', ex_text = text_scm_stretch_left, mode = HoldSets,
       targets = no_targets\<lparr>sets := Some 3, holdSec := Some 25\<rparr>\<rparr>,
    \<lparr>ex_id = ''scap-retraction'', ex_text = text_scap_retraction, mode = RepsSets, targets = no_targets\<lparr>sets := Some 2, reps := Some 10\<rparr>\<rparr>,
    \<lparr>ex_id = ''wall-slides-or-rows'', ex_text = text_wall_slides_or_rows, mode = RepsSets,
       targets = no_targets\<lparr>sets := Some 2, reps := Some 10\<rparr>\<rparr>,
    \<lparr>ex_id = ''ball-on-wall'', ex_text = text_ball_on_wall, mode = Timer, targets = no_targets\<lparr>durationSec := Some 60\<rparr>\<rparr>,
    \<lparr>ex_id = ''suboccipital-release'', ex_text = text_suboccipital_release, mode = Timer, targets = no_targets\<lparr>durationSec := Some 120\<rparr>\<rparr>
  ]"

text \<open>
  The spec's catalog invariant: the targets present are exactly those the mode needs,
  and each is positive; the ids are unique.
\<close>

fun targets_fit :: "mode \<Rightarrow> targets \<Rightarrow> bool" where
  "targets_fit Timer t = (t = no_targets\<lparr>durationSec := durationSec t\<rparr> \<and> durationSec t \<noteq> None)"
| "targets_fit HoldReps t = (t = no_targets\<lparr>reps := reps t, holdSec := holdSec t\<rparr> \<and>
     reps t \<noteq> None \<and> holdSec t \<noteq> None)"
| "targets_fit HoldSets t = (t = no_targets\<lparr>sets := sets t, holdSec := holdSec t\<rparr> \<and>
     sets t \<noteq> None \<and> holdSec t \<noteq> None)"
| "targets_fit RepsSets t = (t = no_targets\<lparr>sets := sets t, reps := reps t\<rparr> \<and>
     sets t \<noteq> None \<and> reps t \<noteq> None)"

definition targets_positive :: "targets \<Rightarrow> bool" where
  "targets_positive t =
     (\<forall>f \<in> {durationSec, reps, sets, holdSec}. case f t of None \<Rightarrow> True | Some n \<Rightarrow> 0 < n)"

definition exercise_ok :: "exercise \<Rightarrow> bool" where
  "exercise_ok e = (targets_fit (mode e) (targets e) \<and> targets_positive (targets e))"

definition catalog_ok :: "exercise list \<Rightarrow> bool" where
  "catalog_ok es = (es \<noteq> [] \<and> distinct (map ex_id es) \<and> list_all exercise_ok es)"

abbreviation n_steps :: nat where
  "n_steps \<equiv> length routine"

lemmas utf8_chars = nb_hyphen_def en_dash_def em_dash_def rsquo_def ldquo_def rdquo_def times_sign_def

lemmas exercise_texts = text_posture_breath_def text_chin_tucks_def text_levator_stretch_left_def
  text_upper_trap_stretch_right_def text_scm_stretch_left_def text_scap_retraction_def
  text_wall_slides_or_rows_def text_ball_on_wall_def text_suboccipital_release_def

lemma length_routine [simp]: "length routine = 9"
  by (simp add: routine_def)

text \<open>Selectors of the entries, for the proofs that look one exercise up.\<close>

lemma routine_nth [model_simps]:
  "routine ! 0 = \<lparr>ex_id = ''posture-breath'', ex_text = text_posture_breath, mode = Timer, targets = no_targets\<lparr>durationSec := Some 120\<rparr>\<rparr>"
  "routine ! 1 = \<lparr>ex_id = ''chin-tucks'', ex_text = text_chin_tucks, mode = HoldReps, targets = no_targets\<lparr>reps := Some 10, holdSec := Some 5\<rparr>\<rparr>"
  "routine ! 2 = \<lparr>ex_id = ''levator-stretch-left'', ex_text = text_levator_stretch_left, mode = HoldSets,
       targets = no_targets\<lparr>sets := Some 3, holdSec := Some 30\<rparr>\<rparr>"
  "routine ! 8 = \<lparr>ex_id = ''suboccipital-release'', ex_text = text_suboccipital_release, mode = Timer, targets = no_targets\<lparr>durationSec := Some 120\<rparr>\<rparr>"
  by (simp_all add: routine_def)

text \<open>
  The catalog is well formed: it is not empty, its ids are distinct, and every
  exercise carries exactly the targets its mode reads, each positive.
\<close>

lemma routine_ok: "catalog_ok routine"
  by (simp add: catalog_ok_def routine_def exercise_ok_def targets_positive_def no_targets_def)

end
