(* ===== verification/Js_Number.thy ===== *)
theory Js_Number
  imports Prelude
begin

section \<open>JavaScript numbers on the countdown's lattice\<close>

text \<open>
  \<^verbatim>\<open>CountdownTimer\<close> keeps \<^verbatim>\<open>this.remaining\<close> as a JS number (an IEEE-754
  binary64 double) and subtracts the literal \<^verbatim>\<open>0.1\<close> on every tick. The literal
  is the double \<open>3602879701896397 / 2^55\<close>, so every value a countdown takes when it
  starts from a whole number of seconds is a multiple of \<open>2^-56\<close>. A JS number is
  therefore modelled as the integer \<open>R\<close> that stands for \<open>R / 2^56\<close>
  (\<open>js_value\<close>). On this lattice IEEE subtraction is the exact difference rounded to
  53 significant bits, to nearest with ties to even (\<open>rne53\<close>): a difference of
  magnitude below \<open>2^53\<close> units is representable as it is. The exponent range plays
  no part for the values involved (at most \<open>2^49\<close> seconds, far from overflow; the
  smallest non-zero difference is \<open>2^-56\<close>, far above the subnormal range).
\<close>

type_synonym js_num = int

definition js_value :: "js_num \<Rightarrow> real" where
  "js_value r = real_of_int r / 2 ^ 56"

fun nbits :: "nat \<Rightarrow> nat" where
  "nbits n = (if n = 0 then 0 else Suc (nbits (n div 2)))"

text \<open>\<open>round_mag x\<close>: the magnitude \<open>x\<close> rounded to 53 significant bits.\<close>

definition round_mag :: "nat \<Rightarrow> nat" where
  "round_mag x =
     (if x < 2 ^ 53 then x
      else let k = nbits x - 53; q = x div 2 ^ k; r = x mod 2 ^ k; h = 2 ^ (k - 1)
           in (if h < r \<or> (r = h \<and> odd q) then q + 1 else q) * 2 ^ k)"

definition rne53 :: "int \<Rightarrow> js_num" where
  "rne53 x = (if x < 0 then - int (round_mag (nat (- x))) else int (round_mag (nat x)))"

definition js_sub :: "js_num \<Rightarrow> js_num \<Rightarrow> js_num" where
  "js_sub a b = rne53 (a - b)"

text \<open>The literal \<^verbatim>\<open>0.1\<close>, the whole seconds of a target, and \<^verbatim>\<open>Math.floor\<close>.\<close>

definition tenth :: js_num where
  "tenth = 7205759403792794"

definition js_of_nat :: "nat \<Rightarrow> js_num" where
  "js_of_nat n = int n * 2 ^ 56"

definition js_floor :: "js_num \<Rightarrow> int" where
  "js_floor r = r div 2 ^ 56"

text \<open>The doubles of the lattice: at most 53 significant bits.\<close>

definition is_double :: "js_num \<Rightarrow> bool" where
  "is_double r = (nat \<bar>r\<bar> < 2 ^ 53 \<or> 2 ^ (nbits (nat \<bar>r\<bar>) - 53) dvd nat \<bar>r\<bar>)"

text \<open>How much one tick takes off at least, below \<open>2^105\<close> units.\<close>

definition tick_drop :: int where
  "tick_drop = tenth - 2 ^ 51"

declare nbits.simps [simp del]

text \<open>The equations that evaluate the model on closed numerals.\<close>

lemmas js_eval = nbits.simps round_mag_def rne53_def js_sub_def tenth_def js_of_nat_def

subsection \<open>Bit length\<close>

lemma nbits_0 [simp]: "nbits 0 = 0"
  by (simp add: nbits.simps)

lemma nbits_pos: "0 < n \<Longrightarrow> nbits n = Suc (nbits (n div 2))"
  by (simp add: nbits.simps)

lemma nbits_less: "n < 2 ^ nbits n"
proof (induction n rule: nbits.induct)
  case (1 n)
  show ?case
  proof (cases "n = 0")
    case False
    with "1.IH" have "n div 2 < 2 ^ nbits (n div 2)" by simp
    with False show ?thesis by (simp add: nbits_pos)
  qed simp
qed

lemma nbits_ge: "0 < n \<Longrightarrow> 2 ^ (nbits n - 1) \<le> n"
proof (induction n rule: nbits.induct)
  case (1 n)
  show ?case
  proof (cases "n div 2 = 0")
    case True
    with "1.prems" show ?thesis by (simp add: nbits_pos)
  next
    case False
    with "1.IH" "1.prems" have "2 ^ (nbits (n div 2) - 1) \<le> n div 2" by simp
    moreover from False have "0 < nbits (n div 2)" by (simp add: nbits_pos)
    ultimately show ?thesis using "1.prems"
      by (simp add: nbits_pos) (metis Suc_pred power_Suc div_times_less_eq_dividend le_trans
          mult_le_mono2 mult.commute)
  qed
qed

lemma nbits_le: "n < 2 ^ m \<Longrightarrow> nbits n \<le> m"
proof (cases "n = 0")
  case False
  assume "n < 2 ^ m"
  with nbits_ge [of n] False have "2 ^ (nbits n - 1) < (2::nat) ^ m"
    by (meson le_less_trans not_gr0)
  then have "nbits n - 1 < m" by simp
  then show ?thesis by simp
qed simp

lemma nbits_ge_iff: "2 ^ m \<le> n \<Longrightarrow> m < nbits n"
  using nbits_less [of n] by (metis le_less_trans not_le power_increasing_iff one_less_numeral_iff
      semiring_norm(76))

lemma nbits_eq: "2 ^ m \<le> n \<Longrightarrow> n < 2 ^ Suc m \<Longrightarrow> nbits n = Suc m"
  using nbits_ge_iff [of m n] nbits_le [of n "Suc m"] by simp

subsection \<open>Rounding to 53 bits\<close>

lemma round_mag_small [simp]: "x < 2 ^ 53 \<Longrightarrow> round_mag x = x"
  by (simp add: round_mag_def)

lemma round_mag_big:
  assumes "2 ^ 53 \<le> x"
  defines "k \<equiv> nbits x - 53"
  shows "1 \<le> k" and "2 ^ 52 \<le> x div 2 ^ k" and "x div 2 ^ k < 2 ^ 53"
proof -
  from \<open>2 ^ 53 \<le> x\<close> have n: "53 < nbits x" by (rule nbits_ge_iff)
  then show "1 \<le> k" by (simp add: k_def)
  have "2 ^ (nbits x - 1) \<le> x" using assms by (intro nbits_ge) simp
  moreover from n have "nbits x - 1 = 52 + k" by (simp add: k_def)
  ultimately have "2 ^ 52 * 2 ^ k \<le> x" by (simp add: power_add)
  then show "2 ^ 52 \<le> x div 2 ^ k" by (simp add: less_eq_div_iff_mult_less_eq)
  have "x < 2 ^ nbits x" by (rule nbits_less)
  moreover from n have "nbits x = 53 + k" by (simp add: k_def)
  ultimately have "x < 2 ^ 53 * 2 ^ k" by (simp add: power_add)
  then show "x div 2 ^ k < 2 ^ 53" by (simp add: div_less_iff_less_mult)
qed

lemma round_mag_upper: "round_mag x \<le> x + 2 ^ (nbits x - 54)"
proof (cases "x < 2 ^ 53")
  case False
  define k where "k = nbits x - 53"
  define q where "q = x div 2 ^ k"
  define r where "r = x mod 2 ^ k"
  define h where "h = (2::nat) ^ (k - 1)"
  from False have "1 \<le> k" unfolding k_def by (intro round_mag_big) simp
  then obtain j where j: "k = Suc j" by (cases k) auto
  then have two_h: "2 ^ k = 2 * h" by (simp add: h_def)
  have hk: "nbits x - 54 = k - 1" by (simp add: k_def)
  have x: "x = q * 2 ^ k + r" by (simp add: q_def r_def div_mult_mod_eq)
  have rm: "round_mag x = (if h < r \<or> (r = h \<and> odd q) then q + 1 else q) * 2 ^ k"
    using False by (simp add: round_mag_def Let_def k_def q_def r_def h_def)
  show ?thesis
  proof (cases "h < r \<or> (r = h \<and> odd q)")
    case True
    then have "h \<le> r" by auto
    with rm True x two_h hk show ?thesis by (simp add: h_def algebra_simps)
  next
    case False
    with rm x show ?thesis by simp
  qed
qed simp

lemma rne53_exact: "\<bar>x\<bar> < 2 ^ 53 \<Longrightarrow> rne53 x = x"
  by (auto simp: rne53_def nat_less_iff)

lemma rne53_nonneg: "0 \<le> x \<Longrightarrow> 0 \<le> rne53 x"
  by (simp add: rne53_def)

lemma tick_drop_pos: "0 < tick_drop"
  by (simp add: tick_drop_def tenth_def)

text \<open>One tick takes at least \<open>tick_drop\<close> units off a positive value below
  \<open>2^105\<close> units (\<open>2^49\<close> seconds): the rounding error is then at most \<open>2^51\<close>.\<close>

lemma js_sub_tenth_le:
  assumes "0 < r" and "r \<le> 2 ^ 105"
  shows "js_sub r tenth \<le> r - tick_drop"
proof (cases "r - tenth < 0")
  case True
  with assms have "\<bar>r - tenth\<bar> < 2 ^ 53" by (simp add: tenth_def)
  then show ?thesis by (simp add: js_sub_def rne53_exact tick_drop_def)
next
  case False
  define x where "x = nat (r - tenth)"
  from False assms have "x < 2 ^ 105" by (simp add: x_def tenth_def nat_less_iff)
  then have "nbits x - 54 \<le> 51" using nbits_le [of x 105] by simp
  then have "round_mag x \<le> x + 2 ^ 51"
    using round_mag_upper [of x] by (meson add_left_mono order_trans power_increasing one_le_numeral)
  then have "int (round_mag x) \<le> r - tenth + 2 ^ 51" using False by (simp add: x_def)
  with False show ?thesis by (simp add: js_sub_def rne53_def x_def tick_drop_def)
qed

text \<open>Every rounded result is a double of the lattice.\<close>

lemma round_mag_double:
  "round_mag x < 2 ^ 53 \<or> 2 ^ (nbits (round_mag x) - 53) dvd round_mag x"
proof (cases "x < 2 ^ 53")
  case False
  define k where "k = nbits x - 53"
  define q where "q = x div 2 ^ k"
  define q' where "q' = (if 2 ^ (k - 1) < x mod 2 ^ k \<or> (x mod 2 ^ k = 2 ^ (k - 1) \<and> odd q) then q + 1 else q)"
  have y: "round_mag x = q' * 2 ^ k"
    using False by (simp add: round_mag_def Let_def k_def q_def q'_def)
  have "q < 2 ^ 53" using round_mag_big(3) [of x] False by (simp add: k_def q_def)
  then have q'_le: "q' \<le> 2 ^ 53" by (simp add: q'_def)
  show ?thesis
  proof (cases "q' = 2 ^ 53")
    case True
    then have yk: "round_mag x = 2 ^ (53 + k)" using y by (simp add: power_add)
    have "nbits (round_mag x) \<le> 54 + k" unfolding yk by (rule nbits_le) simp
    then have "(2::nat) ^ (nbits (round_mag x) - 53) dvd 2 ^ (53 + k)" by (intro le_imp_power_dvd) simp
    then show ?thesis using yk by simp
  next
    case False
    with q'_le have "q' * 2 ^ k < 2 ^ 53 * 2 ^ k" by simp
    then have "nbits (round_mag x) \<le> 53 + k" using y by (intro nbits_le) (simp add: power_add)
    then have "(2::nat) ^ (nbits (round_mag x) - 53) dvd 2 ^ k" by (intro le_imp_power_dvd) simp
    then show ?thesis using y by simp
  qed
qed simp

lemma rne53_double: "is_double (rne53 x)"
proof -
  have "nat \<bar>rne53 x\<bar> = round_mag (nat \<bar>x\<bar>)" by (simp add: rne53_def)
  then show ?thesis using round_mag_double [of "nat \<bar>x\<bar>"] by (simp only: is_double_def)
qed

end
