(* ===== verification/Countdown.thy ===== *)
theory Countdown
  imports Js_Number
begin

section \<open>The countdown primitive\<close>

text \<open>
  \<^verbatim>\<open>class CountdownTimer\<close> (\<^verbatim>\<open>script.js\<close>, lines 159--191). Its state is the
  handle of the recurring schedule (\<^verbatim>\<open>this.interval\<close>: set or \<^verbatim>\<open>null\<close>) and the
  remaining time; its two callbacks are the output of each operation, in the order it
  calls them (\<open>tick_out\<close>), so that the session decides what they do. An operation
  returns the new timer and the callbacks it invoked. The interval callback
  (\<open>timer_tick\<close>) only runs while the schedule is set; \<open>tick_run n\<close> lets it fire up
  to \<open>n\<close> times and stops early once the timer has cleared its schedule.
\<close>

record countdown =
  interval :: bool
  remaining :: js_num

datatype tick_out = OnTick js_num | OnDone

definition new_countdown :: countdown where
  "new_countdown = \<lparr>interval = False, remaining = 0\<rparr>"

definition timer_start :: "js_num option \<Rightarrow> countdown \<Rightarrow> countdown \<times> tick_out list" where
  "timer_start secs t =
     (let r = (case secs of Some s \<Rightarrow> s | None \<Rightarrow> remaining t)
      in (\<lparr>interval = True, remaining = r\<rparr>, [OnTick r]))"

definition timer_tick :: "countdown \<Rightarrow> countdown \<times> tick_out list" where
  "timer_tick t =
     (let r = js_sub (remaining t) tenth
      in if r \<le> 0 then (\<lparr>interval = False, remaining = 0\<rparr>, [OnTick 0, OnDone])
         else (t\<lparr>remaining := r\<rparr>, [OnTick r]))"

definition timer_pause :: "countdown \<Rightarrow> countdown" where
  "timer_pause t = t\<lparr>interval := False\<rparr>"

definition timer_reset :: "countdown \<Rightarrow> countdown \<times> tick_out list" where
  "timer_reset t = ((timer_pause t)\<lparr>remaining := 0\<rparr>, [OnTick 0])"

fun tick_run :: "nat \<Rightarrow> countdown \<Rightarrow> countdown \<times> tick_out list" where
  "tick_run n t =
     (if n = 0 \<or> \<not> interval t then (t, [])
      else let (t1, o1) = timer_tick t; (t2, o2) = tick_run (n - 1) t1 in (t2, o1 @ o2))"

text \<open>
  The number of interval firings a countdown from \<open>r\<close> takes until it calls
  \<^verbatim>\<open>onDone\<close>. The loop need not end (above \<open>2^105\<close> units a tick can round back to
  the same value), so it is a partial function: \<open>None\<close> is a countdown that never ends.
\<close>

partial_function (option) countdown_len :: "js_num \<Rightarrow> nat option" where
  "countdown_len r =
     (let r' = js_sub r tenth
      in if r' \<le> 0 then Some 1 else Option.bind (countdown_len r') (\<lambda>n. Some (Suc n)))"

abbreviation running :: "js_num \<Rightarrow> countdown" where
  "running r \<equiv> \<lparr>interval = True, remaining = r\<rparr>"

abbreviation stopped :: countdown where
  "stopped \<equiv> \<lparr>interval = False, remaining = 0\<rparr>"

declare tick_run.simps [simp del]

lemmas countdown_defs [model_simps] = timer_start_def timer_tick_def timer_pause_def timer_reset_def

subsection \<open>Single operations\<close>

lemma tick_run_idle [simp]: "\<not> interval t \<Longrightarrow> tick_run n t = (t, [])"
  by (simp add: tick_run.simps)

lemma tick_run_zero [simp]: "tick_run 0 t = (t, [])"
  by (simp add: tick_run.simps)

lemma tick_run_Suc:
  "interval t \<Longrightarrow> tick_run (Suc n) t =
     (let (t1, o1) = timer_tick t; (t2, o2) = tick_run n t1 in (t2, o1 @ o2))"
  by (simp add: tick_run.simps [of "Suc n"])

lemma timer_tick_done:
  "js_sub r tenth \<le> 0 \<Longrightarrow> timer_tick (running r) = (stopped, [OnTick 0, OnDone])"
  by (simp add: timer_tick_def)

lemma timer_tick_continue:
  "\<not> js_sub r tenth \<le> 0 \<Longrightarrow> timer_tick (running r) = (running (js_sub r tenth), [OnTick (js_sub r tenth)])"
  by (simp add: timer_tick_def Let_def)

lemma countdown_len_step:
  "countdown_len r = Some n \<Longrightarrow>
     (js_sub r tenth \<le> 0 \<and> n = 1) \<or>
     (\<not> js_sub r tenth \<le> 0 \<and> (\<exists>m. n = Suc m \<and> countdown_len (js_sub r tenth) = Some m))"
  by (subst (asm) countdown_len.simps) (auto simp: Let_def bind_eq_Some_conv split: if_splits)

lemma countdown_len_done: "js_sub r tenth \<le> 0 \<Longrightarrow> countdown_len r = Some 1"
  by (subst countdown_len.simps) (simp add: Let_def)

lemma countdown_len_continue:
  "\<not> js_sub r tenth \<le> 0 \<Longrightarrow> countdown_len r = Option.bind (countdown_len (js_sub r tenth)) (\<lambda>n. Some (Suc n))"
  by (subst countdown_len.simps) (simp add: Let_def)

lemma js_sub_zero_tenth: "js_sub 0 tenth \<le> 0"
  by (simp add: js_sub_def rne53_exact tenth_def)

lemma tick_run_add:
  "tick_run (n + k) t = (let (t1, o1) = tick_run n t; (t2, o2) = tick_run k t1 in (t2, o1 @ o2))"
proof (induction n arbitrary: t)
  case (Suc n)
  show ?case
  proof (cases "interval t")
    case True
    then show ?thesis
      using Suc.IH [of "fst (timer_tick t)"]
      by (simp add: tick_run_Suc [of t] tick_run_Suc [of t "n + k"] split_def Let_def)
  qed simp
qed simp

subsection \<open>A whole countdown\<close>

text \<open>Below \<open>2^105\<close> units every countdown ends, after at most one tick per
  \<open>tick_drop\<close> units of its start value, plus one.\<close>

lemma countdown_len_defined:
  assumes "0 \<le> r" and "r \<le> 2 ^ 105"
  shows "\<exists>n. countdown_len r = Some n \<and> n \<le> nat (r div tick_drop) + 1"
  using assms
proof (induction "nat r" arbitrary: r rule: less_induct)
  case less
  show ?case
  proof (cases "js_sub r tenth \<le> 0")
    case True
    then show ?thesis by (simp add: countdown_len_done)
  next
    case False
    define r' where "r' = js_sub r tenth"
    from False have "r \<noteq> 0" using js_sub_zero_tenth by auto
    with less.prems have "0 < r" by simp
    with less.prems have le: "r' \<le> r - tick_drop" unfolding r'_def by (intro js_sub_tenth_le)
    from False have pos: "0 < r'" by (simp add: r'_def)
    with le tick_drop_pos have "nat r' < nat r" by simp
    moreover from le pos tick_drop_pos less.prems have "0 \<le> r'" "r' \<le> 2 ^ 105" by simp_all
    ultimately obtain m where m: "countdown_len r' = Some m" "m \<le> nat (r' div tick_drop) + 1"
      using less.hyps by blast
    have "r' div tick_drop \<le> (r - tick_drop) div tick_drop"
      using le tick_drop_pos by (simp add: zdiv_mono1)
    also have "\<dots> = r div tick_drop - 1"
      using div_add_self2 [of tick_drop "r - tick_drop"] tick_drop_pos by simp
    finally have lt: "r' div tick_drop < r div tick_drop" by simp
    have "0 \<le> r' div tick_drop" using pos tick_drop_pos by (simp add: pos_imp_zdiv_nonneg_iff)
    with lt have "nat (r' div tick_drop) + 1 \<le> nat (r div tick_drop)"
      by (simp add: Suc_le_eq nat_less_eq_zless)
    with m False show ?thesis by (simp add: countdown_len_continue r'_def)
  qed
qed

text \<open>A countdown of length \<open>n\<close> shows \<open>n - 1\<close> positive values, then \<open>0\<close>, then calls
  \<^verbatim>\<open>onDone\<close>, and has cleared its schedule.\<close>

lemma countdown_len_run:
  "countdown_len r = Some n \<Longrightarrow>
     \<exists>vs. tick_run n (running r) = (stopped, map OnTick vs @ [OnTick 0, OnDone]) \<and>
          length vs = n - 1 \<and> (\<forall>v\<in>set vs. 0 < v)"
proof (induction n arbitrary: r)
  case 0
  then show ?case using countdown_len_step [of r 0] by simp
next
  case (Suc n)
  from countdown_len_step [OF Suc.prems] show ?case
  proof (elim disjE conjE exE)
    assume "js_sub r tenth \<le> 0" and "Suc n = 1"
    then show ?thesis by (simp add: tick_run_Suc timer_tick_done)
  next
    fix m assume nd: "\<not> js_sub r tenth \<le> 0" and "Suc n = Suc m"
      and "countdown_len (js_sub r tenth) = Some m"
    then obtain vs where vs: "tick_run n (running (js_sub r tenth)) = (stopped, map OnTick vs @ [OnTick 0, OnDone])"
      "length vs = n - 1" "\<forall>v\<in>set vs. 0 < v"
      using Suc.IH by auto
    have "n \<noteq> 0" using \<open>countdown_len (js_sub r tenth) = Some m\<close> \<open>Suc n = Suc m\<close>
      countdown_len_step [of "js_sub r tenth" 0] by auto
    with nd vs show ?thesis
      by (intro exI [of _ "js_sub r tenth # vs"]) (simp add: tick_run_Suc timer_tick_continue)
  qed
qed

lemma countdown_len_pos: "countdown_len r = Some n \<Longrightarrow> 0 < n"
  using countdown_len_step [of r n] by auto

text \<open>Before its last tick a countdown is still scheduled and has not called
  \<^verbatim>\<open>onDone\<close>.\<close>

lemma countdown_before_done:
  "countdown_len r = Some n \<Longrightarrow> m < n \<Longrightarrow>
     \<exists>r'. fst (tick_run m (running r)) = running r' \<and> OnDone \<notin> set (snd (tick_run m (running r)))"
proof (induction m arbitrary: r n)
  case (Suc m)
  from countdown_len_step [OF Suc.prems(1)] Suc.prems(2) obtain k where
    nd: "\<not> js_sub r tenth \<le> 0" and k: "n = Suc k" "countdown_len (js_sub r tenth) = Some k"
    by auto
  with Suc.prems(2) Suc.IH [of "js_sub r tenth" k] show ?case
    by (auto simp: tick_run_Suc timer_tick_continue split_def)
qed auto

lemma tick_run_stopped_more:
  assumes "tick_run n t = (stopped, os)" and "n \<le> m"
  shows "tick_run m t = (stopped, os)"
proof -
  have "tick_run (n + (m - n)) t = (stopped, os)"
    using assms(1) by (simp add: tick_run_add)
  with assms(2) show ?thesis by simp
qed

text \<open>The countdown of the 5 second holds, evaluated in the kernel.\<close>

lemma countdown_len_five: "countdown_len (js_of_nat 5) = Some 51"
  by (simp add: countdown_len_done countdown_len_continue js_eval)

subsection \<open>Properties of the countdown\<close>

text \<open>
  C1. A running countdown started at a value from 0 up to \<open>2^105\<close> units (\<open>2^49\<close>
  seconds) stops: after at most \<open>r div tick_drop + 1\<close> ticks it has shown some
  values, then 0, then called \<^verbatim>\<open>onDone\<close> once and cleared its schedule, and no
  further tick changes anything, so \<^verbatim>\<open>onDone\<close> is called exactly once.
\<close>

theorem countdown_finishes:
  assumes "0 \<le> r" and "r \<le> 2 ^ 105"
  shows "\<exists>n \<le> nat (r div tick_drop) + 1. \<exists>vs.
           tick_run n (running r) = (stopped, map OnTick vs @ [OnTick 0, OnDone]) \<and>
           (\<forall>m \<ge> n. tick_run m (running r) = tick_run n (running r))"
proof -
  obtain n where n: "countdown_len r = Some n" "n \<le> nat (r div tick_drop) + 1"
    using countdown_len_defined [OF assms] by blast
  from countdown_len_run [OF n(1)] obtain vs
    where vs: "tick_run n (running r) = (stopped, map OnTick vs @ [OnTick 0, OnDone])"
    by blast
  have all: "\<forall>m \<ge> n. tick_run m (running r) = tick_run n (running r)"
  proof (intro allI impI)
    fix m :: nat
    assume "n \<le> m"
    from tick_run_stopped_more [OF vs this] vs
    show "tick_run m (running r) = tick_run n (running r)" by simp
  qed
  show ?thesis
    by (rule exI [of _ n], intro conjI exI [of _ vs]) (fact n(2), fact vs, fact all)
qed

theorem countdown_finishes_witness:
  "0 \<le> js_of_nat 5 \<and> js_of_nat 5 \<le> 2 ^ 105 \<and>
   (\<exists>n \<le> nat (js_of_nat 5 div tick_drop) + 1. \<exists>vs.
      tick_run n (running (js_of_nat 5)) = (stopped, map OnTick vs @ [OnTick 0, OnDone]) \<and>
      (\<forall>m \<ge> n. tick_run m (running (js_of_nat 5)) = tick_run n (running (js_of_nat 5))))"
proof -
  have h: "0 \<le> js_of_nat 5" "js_of_nat 5 \<le> 2 ^ 105" by (simp_all add: js_of_nat_def)
  show ?thesis using h countdown_finishes [OF h] by blast
qed

text \<open>
  The fixed step drifts (the finding on the extra tick): a 5 second countdown (the hold of \<^verbatim>\<open>chin-tucks\<close>) calls
  \<^verbatim>\<open>onDone\<close> only on the 51st tick, after showing 50 positive values (the last is
  \<open>74 * 2^-56\<close> seconds, left over because \<^verbatim>\<open>0.1\<close> is not exact in binary).
\<close>

lemma five_second_countdown:
  "countdown_len (js_of_nat 5) = Some 51 \<and>
   (\<exists>vs. tick_run 51 (running (js_of_nat 5)) = (stopped, map OnTick vs @ [OnTick 0, OnDone]) \<and>
         length vs = 50 \<and> list_all (\<lambda>v. 0 < v) vs)"
  using countdown_len_run [OF countdown_len_five] countdown_len_five by (simp add: list_all_iff)

text \<open>
  The spec's example ``\<^verbatim>\<open>start(10)\<close>, then after 10 simulated ticks the remaining
  time is 0 and \<^verbatim>\<open>onDone\<close> has fired'' does not hold of the code: 10 ticks of 0.1 s
  take one second off, leaving the double 9.000000000000004 (\<open>648518346341351680 *
  2^-56\<close>), still scheduled and without \<^verbatim>\<open>onDone\<close>.
\<close>

lemma ten_ticks_from_ten:
  "tick_run 10 (fst (timer_start (Some (js_of_nat 10)) new_countdown)) =
     (running 648518346341351680,
      map OnTick [713370180975486592, 706164421571693824, 698958662167901056, 691752902764108288,
                  684547143360315520, 677341383956522752, 670135624552729984, 662929865148937216,
                  655724105745144448, 648518346341351680])"
  by (simp add: tick_run.simps timer_tick_def timer_start_def new_countdown_def js_eval Let_def)

text \<open>
  C4. Pausing a countdown that has not finished and starting it again without an
  argument resumes it exactly: the resumed timer shows the paused value once and then
  runs as the uninterrupted countdown would have.
\<close>

theorem pause_resume_equiv:
  assumes "countdown_len r = Some n" and "k < n"
  shows "let (t1, o1) = tick_run k (running r);
             (t2, o2) = timer_start None (timer_pause t1)
         in t2 = t1 \<and> o2 = [OnTick (remaining t1)] \<and>
            tick_run m t2 = (fst (tick_run (k + m) (running r)), drop (length o1) (snd (tick_run (k + m) (running r))))"
proof -
  obtain r' where r': "fst (tick_run k (running r)) = running r'"
    using countdown_before_done [OF assms] by blast
  obtain o1 where o1: "tick_run k (running r) = (running r', o1)"
    using r' by (cases "tick_run k (running r)") simp
  have "tick_run (k + m) (running r) = (fst (tick_run m (running r')), o1 @ snd (tick_run m (running r')))"
    using o1 by (simp add: tick_run_add split_def Let_def)
  then show ?thesis using o1 by (simp add: timer_start_def timer_pause_def)
qed

theorem pause_resume_equiv_witness:
  "countdown_len (js_of_nat 1) = Some 11 \<and> (3::nat) < 11 \<and>
   (let (t1, o1) = tick_run 3 (running (js_of_nat 1));
        (t2, o2) = timer_start None (timer_pause t1)
    in t2 = t1 \<and> o2 = [OnTick (remaining t1)] \<and>
       tick_run 2 t2 = (fst (tick_run (3 + 2) (running (js_of_nat 1))),
                        drop (length o1) (snd (tick_run (3 + 2) (running (js_of_nat 1))))))"
proof -
  have h: "countdown_len (js_of_nat 1) = Some 11"
    by (simp add: countdown_len_done countdown_len_continue js_eval)
  show ?thesis using pause_resume_equiv [OF h, of 3 2] h by simp
qed

end
