(* ===== verification/Format.thy ===== *)
theory Format
  imports Js_Number
begin

section \<open>The time display: \<^verbatim>\<open>fmt\<close>\<close>

text \<open>
  \<^verbatim>\<open>fmt(secTotal)\<close> (\<^verbatim>\<open>script.js\<close>, lines 138--142) prints a number of seconds as
  \<^verbatim>\<open>MM:SS\<close>: \<^verbatim>\<open>Math.floor(secTotal / 60)\<close> and \<^verbatim>\<open>Math.floor(secTotal % 60)\<close>,
  each through \<^verbatim>\<open>String\<close> and \<^verbatim>\<open>padStart(2,'0')\<close>.
  \<^item> \<^verbatim>\<open>/\<close> is IEEE division: the exact quotient rounded to 53 significant bits,
    to nearest with ties to even. A lattice value \<open>R\<close> (that is \<open>R / 2^56\<close> seconds)
    divided by 60 is \<open>R * 2^64 / 60\<close> units of \<open>2^-120\<close>, and for \<open>R \<noteq> 0\<close> that
    quotient is at least \<open>2^58\<close> units, so its rounding to 53 bits is an integer
    number of units: \<open>round_div\<close> rounds a quotient of naturals that way and
    \<open>js_div60\<close> applies it with the sign.
  \<^item> \<^verbatim>\<open>%\<close> on doubles is exact (the result of \<^verbatim>\<open>fmod\<close> is representable): it
    keeps the dividend's sign, \<open>js_mod60\<close>.
  \<^item> \<^verbatim>\<open>Math.floor\<close> of a value in units of \<open>2^-e\<close> is \<open>div 2^e\<close> (floor division).
  \<^item> \<^verbatim>\<open>String\<close> of an integer-valued number below \<open>10^21\<close> is its decimal digits with a
    leading \<^verbatim>\<open>-\<close> when negative (\<open>js_string_int\<close>); \<^verbatim>\<open>String(-0)\<close> is
    \<^verbatim>\<open>"0"\<close>, as here.
  The main lemma, \<open>fmt_floor\<close>, shows that the rounding of the division never
  moves the floor: \<^verbatim>\<open>fmt\<close> shows the whole seconds of its argument as minutes and
  seconds, as the spec's presentation contract says.
\<close>

definition round_div :: "nat \<Rightarrow> nat \<Rightarrow> nat" where
  "round_div a b =
     (let k = nbits (a div b) - 53; d = b * 2 ^ k; q = a div d; r = a mod d
      in (if d < 2 * r \<or> (2 * r = d \<and> odd q) then q + 1 else q) * 2 ^ k)"

definition js_div60 :: "js_num \<Rightarrow> int" where
  "js_div60 r =
     (if r < 0 then - int (round_div (nat (- r) * 2 ^ 64) 60) else int (round_div (nat r * 2 ^ 64) 60))"

definition js_mod60 :: "js_num \<Rightarrow> js_num" where
  "js_mod60 r = (if r < 0 then - int (nat (- r) mod (60 * 2 ^ 56)) else r mod (60 * 2 ^ 56))"

definition digit_chr :: "nat \<Rightarrow> char" where
  "digit_chr d = ''0123456789'' ! d"

fun digits :: "nat \<Rightarrow> string" where
  "digits n = (if n < 10 then [digit_chr n] else digits (n div 10) @ [digit_chr (n mod 10)])"

definition js_string_int :: "int \<Rightarrow> string" where
  "js_string_int i = (if i < 0 then ''-'' @ digits (nat (- i)) else digits (nat i))"

definition pad_start2 :: "string \<Rightarrow> string" where
  "pad_start2 xs = replicate (2 - length xs) (CHR ''0'') @ xs"

definition fmt :: "js_num \<Rightarrow> string" where
  "fmt r =
     (let m = js_div60 r div 2 ^ 120; s = js_mod60 r div 2 ^ 56
      in pad_start2 (js_string_int m) @ '':'' @ pad_start2 (js_string_int s))"

text \<open>The characters \<^verbatim>\<open>String\<close> prints for a whole number.\<close>

definition decimal_chars :: "char set" where
  "decimal_chars = set ''0123456789''"

declare digits.simps [simp del]

lemma digits_zero [simp]: "digits 0 = ''0''"
  by (simp add: digits.simps digit_chr_def)

subsection \<open>Rounded division keeps the floor\<close>

lemma round_div_eq:
  "round_div a b =
     (if b * 2 ^ k < 2 * (a mod (b * 2 ^ k)) \<or> (2 * (a mod (b * 2 ^ k)) = b * 2 ^ k \<and> odd (a div (b * 2 ^ k)))
      then a div (b * 2 ^ k) + 1 else a div (b * 2 ^ k)) * 2 ^ k"
  if "k = nbits (a div b) - 53"
  using that by (simp add: round_div_def Let_def)

lemma round_up_bound:
  fixes a d :: nat
  assumes "d \<le> 2 * (a mod d)"
  shows "2 * ((a div d + 1) * d) \<le> 2 * a + d"
proof -
  have "a div d * d + a mod d = a" by simp
  moreover have "(a div d + 1) * d = a div d * d + d" by simp
  ultimately show ?thesis using assms by linarith
qed

lemma round_div_bounds:
  assumes k: "k = nbits (a div b) - 53"
  shows "a div (b * 2 ^ k) * 2 ^ k \<le> round_div a b" and "2 * (b * round_div a b) \<le> 2 * a + b * 2 ^ k"
proof -
  let ?d = "b * 2 ^ k"
  show "a div ?d * 2 ^ k \<le> round_div a b" by (simp add: round_div_eq [OF k])
  have "a div ?d * ?d \<le> a" by simp
  then have "2 * (a div ?d * ?d) \<le> 2 * a + ?d" by linarith
  moreover have "2 * ((a div ?d + 1) * ?d) \<le> 2 * a + ?d" if "?d \<le> 2 * (a mod ?d)"
    using round_up_bound [OF that] .
  ultimately have "2 * ((if ?d < 2 * (a mod ?d) \<or> (2 * (a mod ?d) = ?d \<and> odd (a div ?d))
      then a div ?d + 1 else a div ?d) * ?d) \<le> 2 * a + ?d"
    by auto
  then show "2 * (b * round_div a b) \<le> 2 * a + ?d"
    by (simp only: round_div_eq [OF k] mult.assoc mult.commute mult.left_commute)
qed

lemma round_div_floor:
  assumes b: "0 < b" and k: "k = nbits (a div b) - 53" and dvd: "2 ^ k dvd U"
    and lo: "K * U * b \<le> a" and hi: "2 * a + b * 2 ^ k < 2 * b * ((K + 1) * U)"
  shows "round_div a b div U = K"
proof -
  obtain m where m: "U = 2 ^ k * m" using dvd by (auto elim: dvdE)
  have "K * m * (b * 2 ^ k) \<le> a" using lo m by (simp add: ac_simps)
  then have "K * m \<le> a div (b * 2 ^ k)" using b by (simp add: less_eq_div_iff_mult_less_eq)
  then have "K * m * 2 ^ k \<le> a div (b * 2 ^ k) * 2 ^ k" by (rule mult_right_mono) simp
  also have "\<dots> \<le> round_div a b" by (rule round_div_bounds(1) [OF k])
  finally have lower: "K * U \<le> round_div a b" using m by (simp add: ac_simps)
  have "b * round_div a b < b * ((K + 1) * U)"
    using round_div_bounds(2) [OF k] hi by linarith
  then have upper: "round_div a b < (K + 1) * U" by simp
  show ?thesis
  proof (rule div_nat_eqI)
    show "U * K \<le> round_div a b" using lower by (simp add: ac_simps)
    show "round_div a b < U * Suc K" using upper by (simp add: ac_simps)
  qed
qed

lemma div60_bits:
  "nbits (R * 2 ^ 64 div 60) \<le> nbits R + 59"
proof (rule nbits_le)
  have "R * 2 ^ 64 div 60 \<le> R * 2 ^ 64 div 32" by (rule div_le_mono2) simp_all
  also have "\<dots> = R * 2 ^ 59" by simp
  also have "\<dots> < 2 ^ nbits R * 2 ^ 59" using nbits_less [of R] by simp
  finally show "R * 2 ^ 64 div 60 < 2 ^ (nbits R + 59)" by (simp add: power_add)
qed

lemma div60_gap:
  fixes R G k :: nat
  assumes "R \<le> 2 ^ 105" and dbl: "R < 2 ^ 53 \<or> 2 ^ (nbits R - 53) dvd R"
    and G: "0 < G" "2 ^ (nbits R - 53) dvd R \<Longrightarrow> 2 ^ (nbits R - 53) dvd G" and k: "k \<le> nbits R + 6"
  shows "60 * 2 ^ k < 2 ^ 65 * G"
proof (cases "R < 2 ^ 53")
  case True
  then have "nbits R \<le> 53" by (rule nbits_le)
  with k have "k \<le> 59" by simp
  then have "(2::nat) ^ k \<le> 2 ^ 59" by (rule power_increasing) simp
  then have "60 * 2 ^ k \<le> 60 * (2::nat) ^ 59" by simp
  also have "\<dots> < 2 ^ 65 * 1" by simp
  also have "\<dots> \<le> 2 ^ 65 * G" using G(1) by simp
  finally show ?thesis .
next
  case False
  then have n: "53 < nbits R" using nbits_ge_iff [of 53 R] by simp
  with False dbl have "2 ^ (nbits R - 53) \<le> G" using G by (simp add: dvd_imp_le)
  have "(2::nat) ^ k \<le> 2 ^ (nbits R + 6)" using k by (rule power_increasing) simp
  then have "60 * 2 ^ k \<le> 60 * (2::nat) ^ (nbits R + 6)" by simp
  also have "\<dots> < 64 * 2 ^ (nbits R + 6)" by simp
  also have "\<dots> = 2 ^ 65 * 2 ^ (nbits R - 53)"
  proof -
    have "nbits R + 6 + 6 = 65 + (nbits R - 53)" using n by simp
    then have "(2::nat) ^ (nbits R + 6 + 6) = 2 ^ (65 + (nbits R - 53))" by (rule arg_cong)
    then show ?thesis by (simp only: power_add) simp
  qed
  also have "\<dots> \<le> 2 ^ 65 * G" using \<open>2 ^ (nbits R - 53) \<le> G\<close> by simp
  finally show ?thesis .
qed

lemma div60_floor_nat:
  assumes R: "R \<le> 2 ^ 105" and dbl: "R < 2 ^ 53 \<or> 2 ^ (nbits R - 53) dvd R"
  shows "round_div (R * 2 ^ 64) 60 div 2 ^ 120 = R div (60 * 2 ^ 56)"
proof (rule round_div_floor)
  define k where "k = nbits (R * 2 ^ 64 div 60) - 53"
  define K where "K = R div (60 * 2 ^ 56)"
  have "R < 2 ^ 106" using R by simp
  then have nR: "nbits R \<le> 106" by (rule nbits_le)
  have kR: "k \<le> nbits R + 6" using div60_bits [of R] by (simp add: k_def)
  show "k = nbits (R * 2 ^ 64 div 60) - 53" by (simp add: k_def)
  show "2 ^ k dvd (2::nat) ^ 120" by (rule le_imp_power_dvd) (use kR nR in simp)
  have KD: "K * (60 * 2 ^ 56) \<le> R" by (simp add: K_def)
  then show "K * 2 ^ 120 * 60 \<le> R * 2 ^ 64" by simp
  have RK: "R < (K + 1) * (60 * 2 ^ 56)"
    by (simp add: K_def)
  define G where "G = (K + 1) * (60 * 2 ^ 56) - R"
  have G: "0 < G" using RK by (simp add: G_def)
  have Gd: "2 ^ (nbits R - 53) dvd G" if "2 ^ (nbits R - 53) dvd R"
  proof -
    have "(2::nat) ^ (nbits R - 53) dvd 2 ^ 56" by (rule le_imp_power_dvd) (use nR in simp)
    moreover have "(2::nat) ^ 56 dvd (K + 1) * (60 * 2 ^ 56)"
      by (simp only: mult.assoc [symmetric]) (rule dvd_triv_right)
    ultimately have "(2::nat) ^ (nbits R - 53) dvd (K + 1) * (60 * 2 ^ 56)" by (rule dvd_trans)
    then show ?thesis using that by (simp add: G_def dvd_diff_nat)
  qed
  have "60 * 2 ^ k < 2 ^ 65 * G" by (rule div60_gap [OF R dbl G Gd kR])
  moreover have "2 ^ 65 * G + 2 * (R * 2 ^ 64) = 2 * 60 * ((K + 1) * 2 ^ 120)"
    using RK by (simp add: G_def algebra_simps)
  ultimately show "2 * (R * 2 ^ 64) + 60 * 2 ^ k < 2 * 60 * ((R div (60 * 2 ^ 56) + 1) * 2 ^ 120)"
    by (simp add: K_def)
qed simp

lemma js_div60_floor:
  assumes "0 \<le> r" "is_double r" "r \<le> 2 ^ 105"
  shows "js_div60 r div 2 ^ 120 = js_floor r div 60"
proof -
  obtain R where r: "r = int R" using assms(1) by (metis nonneg_eq_int)
  have R: "R \<le> 2 ^ 105" using assms(3) r by simp
  have dbl: "R < 2 ^ 53 \<or> 2 ^ (nbits R - 53) dvd R" using assms(2) r by (simp add: is_double_def)
  have "js_div60 r div 2 ^ 120 = int (round_div (R * 2 ^ 64) 60 div 2 ^ 120)"
    by (simp add: js_div60_def r zdiv_int)
  also have "\<dots> = int (R div (60 * 2 ^ 56))" by (simp only: div60_floor_nat [OF R dbl])
  also have "\<dots> = js_floor r div 60" by (simp add: js_floor_def r zdiv_int div_mult2_eq mult.commute)
  finally show ?thesis .
qed

lemma js_mod60_floor:
  assumes "0 \<le> r"
  shows "js_mod60 r div 2 ^ 56 = js_floor r mod 60"
proof -
  have "js_mod60 r = r mod (2 ^ 56 * 60)" using assms by (simp add: js_mod60_def mult.commute)
  also have "\<dots> = 2 ^ 56 * (r div 2 ^ 56 mod 60) + r mod 2 ^ 56" by (rule zmod_zmult2_eq) simp
  finally have "js_mod60 r div 2 ^ 56 = (r mod 2 ^ 56 + (r div 2 ^ 56 mod 60) * 2 ^ 56) div 2 ^ 56"
    by (simp add: ac_simps)
  also have "\<dots> = r div 2 ^ 56 mod 60" by (subst div_mult_self1) simp_all
  finally show ?thesis by (simp add: js_floor_def)
qed

lemma pad_digits:
  "m < 100 \<Longrightarrow> pad_start2 (digits m) = [digit_chr (m div 10), digit_chr (m mod 10)]"
  by (cases "m < 10") (simp_all add: pad_start2_def digits.simps digit_chr_def)

lemma js_of_nat_double: "n < 2 ^ 53 \<Longrightarrow> is_double (js_of_nat n)"
proof -
  assume n: "n < 2 ^ 53"
  have "n * 2 ^ 56 < (2::nat) ^ 53 * 2 ^ 56" using n by simp
  then have "nbits (n * 2 ^ 56) \<le> 109" by (intro nbits_le) (simp add: power_add [symmetric])
  then have "(2::nat) ^ (nbits (n * 2 ^ 56) - 53) dvd 2 ^ 56" by (intro le_imp_power_dvd) simp
  then have "(2::nat) ^ (nbits (n * 2 ^ 56) - 53) dvd n * 2 ^ 56" by (rule dvd_mult)
  then show ?thesis by (simp add: is_double_def js_of_nat_def nat_mult_distrib)
qed

lemma fmt_mmss:
  assumes "0 \<le> r" and "is_double r" and "r \<le> 2 ^ 105" and "nat (js_floor r) < 6000"
  defines "n \<equiv> nat (js_floor r)"
  shows "fmt r = [digit_chr (n div 600), digit_chr (n div 60 mod 10), CHR '':'', digit_chr (n mod 60 div 10), digit_chr (n mod 10)]"
proof -
  have f: "0 \<le> js_floor r" using assms(1) by (simp add: js_floor_def)
  then have "\<not> js_floor r div 60 < 0" "\<not> js_floor r mod 60 < 0" by simp_all
  then have "fmt r = pad_start2 (digits (n div 60)) @ '':'' @ pad_start2 (digits (n mod 60))"
    using js_div60_floor [OF assms(1-3)] js_mod60_floor [OF assms(1)]
    by (simp add: fmt_def Let_def js_string_int_def nat_div_distrib nat_mod_distrib n_def)
  moreover have "n div 60 < 100" using assms(4) by (simp add: n_def)
  moreover have "n div 60 div 10 = n div 600" using div_mult2_eq [of n 60 10, symmetric] by simp
  moreover have "n mod 60 mod 10 = n mod 10" by (rule mod_mod_cancel) simp
  ultimately show ?thesis using pad_digits [of "n mod 60"] by (simp add: pad_digits)
qed

lemma fmt_zero: "fmt 0 = ''00:00''"
  by (simp add: fmt_def js_div60_def round_div_def js_mod60_def js_string_int_def pad_start2_def Let_def
      digit_chr_def nbits.simps)

lemma set_digits: "set (digits n) \<subseteq> decimal_chars"
proof (induction n rule: digits.induct)
  case (1 n)
  have "digit_chr d \<in> decimal_chars" if "d < 10" for d
    using that nth_mem [of d "''0123456789''"] by (simp add: digit_chr_def decimal_chars_def)
  with 1 show ?case by (subst digits.simps) auto
qed

lemma digits_nonempty: "digits n \<noteq> []"
  by (subst digits.simps) simp

lemma set_pad_start2: "set (pad_start2 xs) \<subseteq> insert (CHR ''0'') (set xs)"
  by (auto simp: pad_start2_def)

lemma set_js_string_int: "set (js_string_int i) \<subseteq> insert (CHR ''-'') decimal_chars"
  by (auto simp: js_string_int_def dest: set_digits [THEN subsetD])

lemma zero_decimal: "CHR ''0'' \<in> decimal_chars"
  by (simp add: decimal_chars_def)

lemma set_fmt: "set (fmt x) \<subseteq> insert (CHR '':'') (insert (CHR ''-'') decimal_chars)"
proof -
  have p: "set (pad_start2 (js_string_int i)) \<subseteq> insert (CHR '':'') (insert (CHR ''-'') decimal_chars)" for i
    using set_pad_start2 [of "js_string_int i"] set_js_string_int [of i] zero_decimal by blast
  show ?thesis
    unfolding fmt_def Let_def set_append list.set
    using p [of "js_div60 x div 2 ^ 120"] p [of "js_mod60 x div 2 ^ 56"] by blast
qed

lemma f_N_not_decimal: "CHR ''f'' \<notin> decimal_chars" "CHR ''N'' \<notin> decimal_chars"
  by (simp_all add: decimal_chars_def)

lemma target_chars:
  "CHR ''f'' \<notin> set (digits n)" "CHR ''N'' \<notin> set (digits n)"
  "CHR ''f'' \<notin> set (fmt x)" "CHR ''N'' \<notin> set (fmt x)"
  using set_digits [of n] set_fmt [of x] f_N_not_decimal by auto

text \<open>
  C18. The time display shows whole seconds as \<^verbatim>\<open>MM:SS\<close>: for every non-negative
  double up to \<open>2^49\<close> seconds, \<^verbatim>\<open>fmt\<close> prints the floor of the seconds divided by
  60 and the floor of the seconds modulo 60, each padded to two digits. The IEEE
  rounding of \<^verbatim>\<open>secTotal / 60\<close> never carries the minutes over to the next value.
\<close>

theorem fmt_floor:
  assumes "0 \<le> r" and "is_double r" and "r \<le> 2 ^ 105"
  shows "fmt r = pad_start2 (digits (nat (js_floor r) div 60)) @ '':'' @ pad_start2 (digits (nat (js_floor r) mod 60))"
proof -
  have f: "0 \<le> js_floor r" using assms(1) by (simp add: js_floor_def)
  then have "\<not> js_floor r div 60 < 0" "\<not> js_floor r mod 60 < 0" by simp_all
  then show ?thesis
    using js_div60_floor [OF assms] js_mod60_floor [OF assms(1)]
    by (simp add: fmt_def Let_def js_string_int_def nat_div_distrib nat_mod_distrib)
qed

theorem fmt_floor_witness:
  "fmt 648518346341351680 = ''00:09''"
proof -
  have "is_double 648518346341351680" by (simp add: is_double_def nbits.simps)
  then show ?thesis using fmt_floor [of 648518346341351680]
    by (simp add: js_floor_def pad_start2_def digits.simps digit_chr_def)
qed

text \<open>
  C19. A whole number of seconds below 100 minutes is displayed in exactly the form
  \<^verbatim>\<open>MM:SS\<close>: two minute digits, a colon, two second digits.
\<close>

theorem fmt_whole_seconds:
  assumes "n < 6000"
  shows "fmt (js_of_nat n) =
           [digit_chr (n div 600), digit_chr (n div 60 mod 10), CHR '':'', digit_chr (n mod 60 div 10), digit_chr (n mod 10)]"
proof -
  have d: "is_double (js_of_nat n)" using assms by (intro js_of_nat_double) simp
  have b: "js_of_nat n \<le> 2 ^ 105" using assms by (simp add: js_of_nat_def)
  have fl: "nat (js_floor (js_of_nat n)) = n" by (simp add: js_floor_def js_of_nat_def)
  show ?thesis using fmt_mmss [OF _ d b] fl assms by (simp add: js_of_nat_def)
qed

theorem fmt_whole_seconds_witness: "fmt (js_of_nat 120) = ''02:00''"
  using fmt_whole_seconds [of 120] by (simp add: digit_chr_def)

end
