(* ===== verification/Session_State.thy ===== *)
theory Session_State
  imports Catalog Countdown Format
begin

section \<open>The session state\<close>

text \<open>
  \<^verbatim>\<open>const state\<close> (\<^verbatim>\<open>script.js\<close>, lines 126--134) together with the parts of the
  page and of the browser that the handlers write and later read back.
  \<^item> \<^verbatim>\<open>state.timer\<close> is a reference to a \<^verbatim>\<open>CountdownTimer\<close> object.
    \<^verbatim>\<open>renderExercise\<close> allocates a new one on every call, and an old object keeps
    running if nobody paused it. So the objects live in a heap (\<open>timers\<close>, in
    allocation order) and \<open>timer\<close> is the address \<^verbatim>\<open>state.timer\<close> holds. Each object
    also records the exercise its \<^verbatim>\<open>onDone\<close> closure captured (\<open>ex_at\<close>, an index
    into \<open>routine\<close>).
  \<^item> \<open>pending\<close> holds the \<^verbatim>\<open>setTimeout\<close> callbacks of the hold loops that have not run
    yet: each has a delay and the argument it will pass to \<^verbatim>\<open>state.timer.start\<close>,
    read from the closure's \<^verbatim>\<open>ex\<close>.
  \<^item> \<open>display\<close> is the number shown in \<^verbatim>\<open>#timer-display\<close>: the page shows
    \<^verbatim>\<open>fmt(display)\<close>, and the literal \<^verbatim>\<open>'00:00'\<close> of \<^verbatim>\<open>cleanupTimers\<close> is
    \<^verbatim>\<open>fmt(0)\<close>.
  \<^item> \<open>tones\<close> logs the \<^verbatim>\<open>beep(duration, frequency)\<close> calls.
  \<^item> \<open>saved\<close> and \<open>saved_theme\<close> are the two \<^verbatim>\<open>localStorage\<close> keys.
  \<^item> The rest of the page the handlers write: \<open>rep_text\<close> and \<open>set_text\<close> are the
    \<^verbatim>\<open>textContent\<close> of \<^verbatim>\<open>#rep-count\<close> and \<^verbatim>\<open>#set-count\<close>. What
    \<^verbatim>\<open>renderExercise\<close> and \<^verbatim>\<open>renderStepList\<close> write is a function of the catalog
    and of the state they read, so the model keeps what they read: \<open>panel_at\<close> is the
    index \<^verbatim>\<open>renderExercise\<close> looked up, and \<open>list_cur\<close> and \<open>list_done\<close> are
    \<^verbatim>\<open>state.currentIndex\<close> and \<^verbatim>\<open>state.completed\<close> as \<^verbatim>\<open>renderStepList\<close> last
    saw them. The theories \<open>Exercise_Panel\<close> and \<open>Step_List\<close> compute the text from
    them.
  \<^item> The counters \<^verbatim>\<open>repsDone\<close> and \<^verbatim>\<open>setsDone\<close> are JS numbers that only move by
    one and never go below 0 (\<^verbatim>\<open>Math.max(0, n - 1)\<close> is \<open>nat\<close> subtraction). They are
    exact while below \<open>2^53\<close>, so they are \<open>nat\<close>.
\<close>

record timer_obj =
  clock :: countdown
  ex_at :: nat

text \<open>The stored progress as \<^verbatim>\<open>loadProgress\<close> reads it back: \<^verbatim>\<open>saved.completed\<close>
  when it is an array of ids, \<^verbatim>\<open>saved.currentIndex\<close> when it is an integer.\<close>

record progress =
  p_completed :: "string list option"
  p_index :: "int option"

record session =
  currentIndex :: nat
  completed :: "string list"
  repsDone :: nat
  setsDone :: nat
  timers :: "timer_obj list"
  timer :: nat
  holdLoopActive :: bool
  theme :: string
  pending :: "(nat \<times> js_num option) list"
  display :: js_num
  tones :: "(nat \<times> nat) list"
  saved :: "progress option"
  saved_theme :: "string option"
  rep_text :: string
  set_text :: string
  panel_at :: nat
  list_cur :: nat
  list_done :: "string list"

definition cur_ex :: "session \<Rightarrow> exercise" where
  "cur_ex s = routine ! currentIndex s"

definition cur_timer :: "session \<Rightarrow> countdown" where
  "cur_timer s = clock (timers s ! timer s)"

definition set_clock :: "nat \<Rightarrow> countdown \<Rightarrow> session \<Rightarrow> session" where
  "set_clock i c s = s\<lparr>timers := (timers s)[i := (timers s ! i)\<lparr>clock := c\<rparr>]\<rparr>"

definition beep :: "nat \<Rightarrow> nat \<Rightarrow> session \<Rightarrow> session" where
  "beep d f s = s\<lparr>tones := tones s @ [(d, f)]\<rparr>"

definition update_timer_display :: "js_num \<Rightarrow> session \<Rightarrow> session" where
  "update_timer_display v s = s\<lparr>display := v\<rparr>"

text \<open>A target read as a JS number: seconds, or \<^verbatim>\<open>undefined\<close>.\<close>

definition js_secs :: "nat option \<Rightarrow> js_num option" where
  "js_secs t = map_option js_of_nat t"

text \<open>Only the address \<^verbatim>\<open>state.timer\<close> holds may have a live schedule.\<close>

definition only_current_runs :: "session \<Rightarrow> bool" where
  "only_current_runs s = (\<forall>i < length (timers s). interval (clock (timers s ! i)) \<longrightarrow> i = timer s)"

lemmas state_defs [model_simps] = cur_ex_def cur_timer_def set_clock_def beep_def update_timer_display_def

lemma set_clock_fields [simp]:
  "currentIndex (set_clock i c s) = currentIndex s" "completed (set_clock i c s) = completed s"
  "repsDone (set_clock i c s) = repsDone s" "setsDone (set_clock i c s) = setsDone s"
  "timer (set_clock i c s) = timer s" "holdLoopActive (set_clock i c s) = holdLoopActive s"
  "pending (set_clock i c s) = pending s" "display (set_clock i c s) = display s"
  "tones (set_clock i c s) = tones s" "saved (set_clock i c s) = saved s"
  "theme (set_clock i c s) = theme s" "saved_theme (set_clock i c s) = saved_theme s"
  "rep_text (set_clock i c s) = rep_text s" "set_text (set_clock i c s) = set_text s"
  "panel_at (set_clock i c s) = panel_at s" "list_cur (set_clock i c s) = list_cur s"
  "list_done (set_clock i c s) = list_done s"
  "length (timers (set_clock i c s)) = length (timers s)"
  by (simp_all add: set_clock_def)

lemma set_clock_nth [simp]:
  "i < length (timers s) \<Longrightarrow> timers (set_clock i c s) ! j =
     (if j = i then (timers s ! i)\<lparr>clock := c\<rparr> else timers s ! j)"
  by (simp add: set_clock_def)

lemma set_clock_twice [simp]: "set_clock i c (set_clock i c' s) = set_clock i c s"
  by (cases "i < length (timers s)") (simp_all add: set_clock_def list_update_beyond)

lemma set_clock_same [simp]: "i < length (timers s) \<Longrightarrow> set_clock i (clock (timers s ! i)) s = s"
  by (simp add: set_clock_def)

end
