(* ===== verification/Persistence.thy ===== *)
theory Persistence
  imports Session_State
begin

section \<open>Persistence adapter\<close>

text \<open>
  \<^verbatim>\<open>loadProgress\<close> and \<^verbatim>\<open>saveProgress\<close> (\<^verbatim>\<open>script.js\<close>, lines 238--250) and the
  initial theme (line 133). The key \<^verbatim>\<open>neckRoutineProgress\<close> is the session's
  \<open>saved\<close> field: \<open>None\<close> is a missing key, and a stored object is read field by
  field, each field used only when it has the right JS type (\<^verbatim>\<open>Array.isArray\<close>,
  \<^verbatim>\<open>typeof ... === 'number'\<close>). A field of another type is \<open>None\<close>, which
  \<^verbatim>\<open>loadProgress\<close> ignores as it ignores a value that fails to parse.
\<close>

definition clamp_index :: "int \<Rightarrow> nat" where
  "clamp_index i = nat (min (max 0 i) (int n_steps - 1))"

definition load_progress :: "session \<Rightarrow> session" where
  "load_progress s =
     (case saved s of
        None \<Rightarrow> s
      | Some p \<Rightarrow>
          let s1 = (case p_completed p of Some xs \<Rightarrow> s\<lparr>completed := js_set_of xs\<rparr> | None \<Rightarrow> s)
          in (case p_index p of Some i \<Rightarrow> s1\<lparr>currentIndex := clamp_index i\<rparr> | None \<Rightarrow> s1))"

definition save_progress :: "session \<Rightarrow> session" where
  "save_progress s =
     s\<lparr>saved := Some \<lparr>p_completed = Some (completed s), p_index = Some (int (currentIndex s))\<rparr>\<rparr>"

text \<open>\<^verbatim>\<open>localStorage.getItem('theme') || 'dark'\<close>: a missing or empty value gives
  \<^verbatim>\<open>'dark'\<close>; any other stored string is kept as it is.\<close>

definition initial_theme :: "string option \<Rightarrow> string" where
  "initial_theme t = (case t of None \<Rightarrow> ''dark'' | Some x \<Rightarrow> if x = [] then ''dark'' else x)"

text \<open>\<^verbatim>\<open>applyTheme\<close>: the page is in light mode exactly for the theme \<^verbatim>\<open>'light'\<close>.\<close>

definition light_mode :: "session \<Rightarrow> bool" where
  "light_mode s = (theme s = ''light'')"

lemma clamp_index_bound [simp]: "clamp_index i < n_steps"
  by (simp add: clamp_index_def)

lemmas clamp_index_bound' [simp] = clamp_index_bound [simplified]

lemma clamp_index_id: "0 \<le> i \<Longrightarrow> i < int n_steps \<Longrightarrow> clamp_index i = nat i"
  by (simp add: clamp_index_def)

lemma load_progress_index_bound:
  "currentIndex s < n_steps \<Longrightarrow> currentIndex (load_progress s) < n_steps"
  by (auto simp: load_progress_def Let_def split: option.splits)

lemma load_progress_distinct:
  "distinct (completed s) \<Longrightarrow> distinct (completed (load_progress s))"
  by (auto simp: load_progress_def Let_def split: option.splits)

lemma load_progress_keeps [simp]:
  "timers (load_progress s) = timers s" "timer (load_progress s) = timer s"
  "pending (load_progress s) = pending s" "holdLoopActive (load_progress s) = holdLoopActive s"
  "saved (load_progress s) = saved s" "rep_text (load_progress s) = rep_text s"
  "set_text (load_progress s) = set_text s" "panel_at (load_progress s) = panel_at s"
  "list_cur (load_progress s) = list_cur s" "list_done (load_progress s) = list_done s"
  by (simp_all add: load_progress_def Let_def split: option.splits)

lemma save_progress_fields [simp]:
  "currentIndex (save_progress s) = currentIndex s" "completed (save_progress s) = completed s"
  "repsDone (save_progress s) = repsDone s" "setsDone (save_progress s) = setsDone s"
  "timers (save_progress s) = timers s" "timer (save_progress s) = timer s"
  "holdLoopActive (save_progress s) = holdLoopActive s" "pending (save_progress s) = pending s"
  "display (save_progress s) = display s" "tones (save_progress s) = tones s"
  "theme (save_progress s) = theme s" "saved_theme (save_progress s) = saved_theme s"
  "rep_text (save_progress s) = rep_text s" "set_text (save_progress s) = set_text s"
  "panel_at (save_progress s) = panel_at s" "list_cur (save_progress s) = list_cur s"
  "list_done (save_progress s) = list_done s"
  by (simp_all add: save_progress_def)

end
