(* ===== verification/Session.thy ===== *)
theory Session
  imports Persistence
begin

section \<open>Handlers: the mode state machine and navigation\<close>

text \<open>
  Every function of \<^verbatim>\<open>script.js\<close> that changes state, as a function on
  \<open>session\<close>, and the events that run them:
  \<^item> the \<^verbatim>\<open>onDone\<close> closure that \<^verbatim>\<open>renderExercise\<close> gives each new timer
    (\<open>on_done\<close>, lines 305--323) and the \<^verbatim>\<open>onTick\<close> callback
    \<^verbatim>\<open>updateTimerDisplay\<close>; \<open>apply_outs\<close> runs them in the order the timer
    called them, and \<open>timer_call\<close> runs one timer method on a heap object;
  \<^item> \<^verbatim>\<open>cleanupTimers\<close>, \<^verbatim>\<open>renderExercise\<close>, \<^verbatim>\<open>selectIndex\<close> (lines 253--325),
    and \<^verbatim>\<open>renderStepList\<close> as the state it reads (\<open>render_list\<close>, lines 222--235);
  \<^item> the button handlers (lines 332--393) and \<^verbatim>\<open>init\<close> (lines 396--401).
  The browser delivers one event at a time to the single JS thread (\<open>event\<close>): a click,
  the interval callback of a heap timer whose schedule is set (\<open>Tick i\<close>), or a pending
  \<^verbatim>\<open>setTimeout\<close> callback (\<open>Fire j\<close>). Which event comes next is left open: the user
  may click at any moment, and the model does not order the 100 ms ticks against the
  400/600 ms restarts, so it allows every order the browser allows and more. \<open>step\<close>
  is \<open>None\<close> for an event that cannot happen in that state (a tick of a stopped timer, a
  callback that is not pending, a click on a list item that does not exist).
\<close>

definition on_done :: "nat \<Rightarrow> session \<Rightarrow> session" where
  "on_done e s =
     (let ex = routine ! e; t = targets ex;
          s1 = beep 200 900 (beep 180 1200 s);
          s2 = (if mode ex = HoldReps \<and> holdLoopActive s1 then
                  let s' = s1\<lparr>repsDone := Suc (repsDone s1), rep_text := digits (Suc (repsDone s1))\<rparr>
                  in if js_less (repsDone s') (reps t)
                     then s'\<lparr>pending := pending s' @ [(400, js_secs (holdSec t))]\<rparr>
                     else s'\<lparr>holdLoopActive := False\<rparr>
                else s1)
      in if mode ex = HoldSets \<and> holdLoopActive s2 then
           let s' = s2\<lparr>setsDone := Suc (setsDone s2), set_text := digits (Suc (setsDone s2))\<rparr>
           in if js_less (setsDone s') (sets t)
              then s'\<lparr>pending := pending s' @ [(600, js_secs (holdSec t))]\<rparr>
              else s'\<lparr>holdLoopActive := False\<rparr>
         else s2)"

fun apply_outs :: "nat \<Rightarrow> tick_out list \<Rightarrow> session \<Rightarrow> session" where
  "apply_outs e [] s = s"
| "apply_outs e (OnTick v # os) s = apply_outs e os (update_timer_display v s)"
| "apply_outs e (OnDone # os) s = apply_outs e os (on_done e s)"

definition timer_call :: "nat \<Rightarrow> (countdown \<Rightarrow> countdown \<times> tick_out list) \<Rightarrow> session \<Rightarrow> session" where
  "timer_call i f s =
     (let (c, os) = f (clock (timers s ! i)) in apply_outs (ex_at (timers s ! i)) os (set_clock i c s))"

definition cleanup_timers :: "session \<Rightarrow> session" where
  "cleanup_timers s =
     update_timer_display 0 (set_clock (timer s) (timer_pause (cur_timer s)) (s\<lparr>holdLoopActive := False\<rparr>))"

definition render_exercise :: "session \<Rightarrow> session" where
  "render_exercise s =
     update_timer_display 0
       (s\<lparr>panel_at := currentIndex s, repsDone := 0, setsDone := 0, rep_text := ''0'', set_text := ''0'',
          timers := timers s @ [\<lparr>clock = new_countdown, ex_at = currentIndex s\<rparr>],
          timer := length (timers s)\<rparr>)"

definition render_list :: "session \<Rightarrow> session" where
  "render_list s = s\<lparr>list_cur := currentIndex s, list_done := completed s\<rparr>"

definition select_index :: "nat \<Rightarrow> session \<Rightarrow> session" where
  "select_index i s =
     save_progress (render_list (render_exercise ((cleanup_timers s)\<lparr>currentIndex := i, repsDone := 0, setsDone := 0\<rparr>)))"

definition start_click :: "session \<Rightarrow> session" where
  "start_click s =
     (let ex = cur_ex s; t = targets ex in
      case mode ex of
        Timer \<Rightarrow>
          let r = remaining (cur_timer s);
              secs = (if 0 < r then Some r else js_secs (durationSec t))
          in timer_call (timer s) (timer_start secs) s
      | HoldReps \<Rightarrow>
          if holdLoopActive s then s
          else let s1 = s\<lparr>holdLoopActive := True\<rparr>;
                   s2 = (if js_geq (repsDone s1) (reps t) then s1\<lparr>repsDone := 0, rep_text := ''0''\<rparr> else s1)
               in timer_call (timer s2) (timer_start (js_secs (holdSec t))) s2
      | HoldSets \<Rightarrow>
          if holdLoopActive s then s
          else let s1 = s\<lparr>holdLoopActive := True\<rparr>;
                   s2 = (if js_geq (setsDone s1) (sets t) then s1\<lparr>setsDone := 0, set_text := ''0''\<rparr> else s1)
               in timer_call (timer s2) (timer_start (js_secs (holdSec t))) s2
      | RepsSets \<Rightarrow> beep 100 700 s)"

definition pause_click :: "session \<Rightarrow> session" where
  "pause_click s = (set_clock (timer s) (timer_pause (cur_timer s)) s)\<lparr>holdLoopActive := False\<rparr>"

definition reset_click :: "session \<Rightarrow> session" where
  "reset_click s = (timer_call (timer s) timer_reset s)\<lparr>holdLoopActive := False\<rparr>"

definition rep_inc :: "session \<Rightarrow> session" where
  "rep_inc s = s\<lparr>repsDone := Suc (repsDone s), rep_text := digits (Suc (repsDone s))\<rparr>"

definition rep_dec :: "session \<Rightarrow> session" where
  "rep_dec s = s\<lparr>repsDone := repsDone s - 1, rep_text := digits (repsDone s - 1)\<rparr>"

definition set_inc :: "session \<Rightarrow> session" where
  "set_inc s = s\<lparr>setsDone := Suc (setsDone s), set_text := digits (Suc (setsDone s))\<rparr>"

definition set_dec :: "session \<Rightarrow> session" where
  "set_dec s = s\<lparr>setsDone := setsDone s - 1, set_text := digits (setsDone s - 1)\<rparr>"

definition prev_click :: "session \<Rightarrow> session" where
  "prev_click s = (if 0 < currentIndex s then select_index (currentIndex s - 1) s else s)"

definition next_click :: "session \<Rightarrow> session" where
  "next_click s = (if currentIndex s < n_steps - 1 then select_index (Suc (currentIndex s)) s else s)"

definition complete_click :: "session \<Rightarrow> session" where
  "complete_click s =
     (let s1 = save_progress (render_list (beep 100 900 (beep 100 1200
                 (s\<lparr>completed := js_set_add (completed s) (ex_id (cur_ex s))\<rparr>))))
      in if currentIndex s1 < n_steps - 1 then select_index (Suc (currentIndex s1)) s1 else s1)"

text \<open>\<^verbatim>\<open>confirm('Reset all progress?')\<close> is the user's answer \<open>ok\<close>.\<close>

definition reset_progress_click :: "bool \<Rightarrow> session \<Rightarrow> session" where
  "reset_progress_click ok s =
     (if ok then render_exercise (render_list (save_progress (s\<lparr>completed := [], currentIndex := 0\<rparr>))) else s)"

definition toggle_theme :: "session \<Rightarrow> session" where
  "toggle_theme s =
     (let th = (if theme s = ''light'' then ''dark'' else ''light'') in s\<lparr>theme := th, saved_theme := Some th\<rparr>)"

text \<open>The callback \<^verbatim>\<open>() => state.timer.start(ex.targets.holdSec)\<close>: it reads
  \<^verbatim>\<open>state.timer\<close> when it runs, and the argument its closure captured.\<close>

definition fire_pending :: "nat \<Rightarrow> session \<Rightarrow> session" where
  "fire_pending j s =
     (let s1 = s\<lparr>pending := take j (pending s) @ drop (Suc j) (pending s)\<rparr>
      in timer_call (timer s1) (timer_start (snd (pending s ! j))) s1)"

datatype event =
    Start | Pause | Reset | RepInc | RepDec | SetInc | SetDec | Prev | Next | Complete
  | ResetProgress bool | SelectStep nat | ToggleTheme | Tick nat | Fire nat

fun step :: "session \<Rightarrow> event \<Rightarrow> session option" where
  "step s Start = Some (start_click s)"
| "step s Pause = Some (pause_click s)"
| "step s Reset = Some (reset_click s)"
| "step s RepInc = Some (rep_inc s)"
| "step s RepDec = Some (rep_dec s)"
| "step s SetInc = Some (set_inc s)"
| "step s SetDec = Some (set_dec s)"
| "step s Prev = Some (prev_click s)"
| "step s Next = Some (next_click s)"
| "step s Complete = Some (complete_click s)"
| "step s (ResetProgress ok) = Some (reset_progress_click ok s)"
| "step s (SelectStep i) = (if i < n_steps then Some (select_index i s) else None)"
| "step s ToggleTheme = Some (toggle_theme s)"
| "step s (Tick i) =
     (if i < length (timers s) \<and> interval (clock (timers s ! i)) then Some (timer_call i timer_tick s)
      else None)"
| "step s (Fire j) = (if j < length (pending s) then Some (fire_pending j s) else None)"

fun run :: "session \<Rightarrow> event list \<Rightarrow> session option" where
  "run s [] = Some s"
| "run s (e # es) = (case step s e of None \<Rightarrow> None | Some s' \<Rightarrow> run s' es)"

text \<open>Start-up: the \<^verbatim>\<open>state\<close> literal over the two stored values, then
  \<^verbatim>\<open>loadProgress\<close>, \<^verbatim>\<open>applyTheme\<close>, \<^verbatim>\<open>renderStepList\<close> and
  \<^verbatim>\<open>renderExercise\<close>. \<^verbatim>\<open>applyTheme\<close> changes no state: the page's light mode
  is a function of the theme (\<open>light_mode\<close>). The page fields of
  \<open>empty_session\<close> stand for the static HTML, which is not part of the sources;
  start-up overwrites every one of them.\<close>

definition empty_session :: "progress option \<Rightarrow> string option \<Rightarrow> session" where
  "empty_session p th =
     \<lparr>currentIndex = 0, completed = [], repsDone = 0, setsDone = 0, timers = [], timer = 0,
      holdLoopActive = False, theme = initial_theme th, pending = [], display = 0, tones = [],
      saved = p, saved_theme = th, rep_text = [], set_text = [], panel_at = 0, list_cur = 0, list_done = []\<rparr>"

definition init :: "progress option \<Rightarrow> string option \<Rightarrow> session" where
  "init p th = render_exercise (render_list (load_progress (empty_session p th)))"

inductive reachable :: "session \<Rightarrow> bool" where
  start: "reachable (init p th)"
| step: "reachable s \<Longrightarrow> step s e = Some s' \<Longrightarrow> reachable s'"

text \<open>The session invariant: the current exercise and \<^verbatim>\<open>state.timer\<close> are valid and
  agree, the completed set has no duplicates, no timer holds a negative remaining time
  and every pending restart passes a non-negative number of seconds.\<close>

definition timers_ok :: "session \<Rightarrow> bool" where
  "timers_ok s = (\<forall>x \<in> set (timers s). ex_at x < n_steps \<and> 0 \<le> remaining (clock x))"

definition pending_ok :: "session \<Rightarrow> bool" where
  "pending_ok s = (\<forall>p \<in> set (pending s). \<forall>v. snd p = Some v \<longrightarrow> 0 \<le> v)"

definition session_ok :: "session \<Rightarrow> bool" where
  "session_ok s =
     (currentIndex s < n_steps \<and> timer s < length (timers s) \<and> ex_at (timers s ! timer s) = currentIndex s \<and>
      distinct (completed s) \<and> timers_ok s \<and> pending_ok s)"

definition clock_op_ok :: "(countdown \<Rightarrow> countdown \<times> tick_out list) \<Rightarrow> bool" where
  "clock_op_ok f = (\<forall>c. 0 \<le> remaining c \<longrightarrow> 0 \<le> remaining (fst (f c)))"

fun_cases step_TickE: "step s (Tick i) = Some s'"
fun_cases step_FireE: "step s (Fire j) = Some s'"

subsection \<open>The session invariant\<close>

lemma render_list_fields [simp]:
  "currentIndex (render_list s) = currentIndex s" "completed (render_list s) = completed s"
  "repsDone (render_list s) = repsDone s" "setsDone (render_list s) = setsDone s"
  "timers (render_list s) = timers s" "timer (render_list s) = timer s"
  "holdLoopActive (render_list s) = holdLoopActive s" "pending (render_list s) = pending s"
  "display (render_list s) = display s" "tones (render_list s) = tones s"
  "saved (render_list s) = saved s" "theme (render_list s) = theme s"
  "saved_theme (render_list s) = saved_theme s" "rep_text (render_list s) = rep_text s"
  "set_text (render_list s) = set_text s" "panel_at (render_list s) = panel_at s"
  "list_cur (render_list s) = currentIndex s" "list_done (render_list s) = completed s"
  by (simp_all add: render_list_def)

lemma js_secs_nonneg: "js_secs t = Some v \<Longrightarrow> 0 \<le> v"
  by (auto simp: js_secs_def js_of_nat_def)

lemma on_done_keeps [simp]:
  "currentIndex (on_done e s) = currentIndex s" "completed (on_done e s) = completed s"
  "timers (on_done e s) = timers s" "timer (on_done e s) = timer s" "display (on_done e s) = display s"
  "saved (on_done e s) = saved s" "theme (on_done e s) = theme s" "saved_theme (on_done e s) = saved_theme s"
  by (simp_all add: on_done_def Let_def beep_def)

lemma on_done_pending_ok: "pending_ok s \<Longrightarrow> pending_ok (on_done e s)"
  by (auto simp: on_done_def Let_def beep_def pending_ok_def js_secs_nonneg)

lemma apply_outs_keeps [simp]:
  "currentIndex (apply_outs e os s) = currentIndex s" "completed (apply_outs e os s) = completed s"
  "timers (apply_outs e os s) = timers s" "timer (apply_outs e os s) = timer s"
  "saved (apply_outs e os s) = saved s" "theme (apply_outs e os s) = theme s"
  "saved_theme (apply_outs e os s) = saved_theme s"
  by (induction e os s rule: apply_outs.induct) (simp_all add: update_timer_display_def)

lemma apply_outs_pending_ok: "pending_ok s \<Longrightarrow> pending_ok (apply_outs e os s)"
proof (induction e os s rule: apply_outs.induct)
  case (3 e os s)
  then show ?case by (simp add: on_done_pending_ok)
qed (simp_all add: update_timer_display_def pending_ok_def)

lemma timer_call_keeps [simp]:
  "currentIndex (timer_call i f s) = currentIndex s" "completed (timer_call i f s) = completed s"
  "timer (timer_call i f s) = timer s" "saved (timer_call i f s) = saved s"
  "timers (timer_call i f s) = timers (set_clock i (fst (f (clock (timers s ! i)))) s)"
  by (simp_all add: timer_call_def split_def Let_def)

lemma timer_call_pending_ok: "pending_ok s \<Longrightarrow> pending_ok (timer_call i f s)"
  unfolding timer_call_def split_def Let_def
  by (rule apply_outs_pending_ok) (simp add: pending_ok_def)

lemma set_clock_timers_ok:
  "timers_ok s \<Longrightarrow> 0 \<le> remaining c \<Longrightarrow> timers_ok (set_clock i c s)"
  unfolding timers_ok_def set_clock_def
  by (cases "i < length (timers s)") (auto dest: set_update_subset_insert [THEN subsetD] simp: list_update_beyond)

lemma timer_call_timers_ok:
  assumes "timers_ok s" and "clock_op_ok f" and "i < length (timers s)"
  shows "timers_ok (timer_call i f s)"
proof -
  from assms(1,3) have "0 \<le> remaining (clock (timers s ! i))"
    by (auto simp: timers_ok_def)
  with assms(2) have "0 \<le> remaining (fst (f (clock (timers s ! i))))"
    by (simp add: clock_op_ok_def)
  with assms(1) have "timers_ok (set_clock i (fst (f (clock (timers s ! i)))) s)"
    by (rule set_clock_timers_ok)
  then show ?thesis by (simp add: timers_ok_def)
qed


lemma clock_op_ok_start: "(\<forall>v. secs = Some v \<longrightarrow> 0 \<le> v) \<Longrightarrow> clock_op_ok (timer_start secs)"
  by (auto simp: clock_op_ok_def timer_start_def Let_def split: option.splits)

lemma clock_op_ok_tick: "clock_op_ok timer_tick"
  by (simp add: clock_op_ok_def timer_tick_def Let_def)

lemma clock_op_ok_reset: "clock_op_ok timer_reset"
  by (simp add: clock_op_ok_def timer_reset_def timer_pause_def)

lemma timer_call_session_ok:
  assumes "session_ok s" and "clock_op_ok f" and "i < length (timers s)"
  shows "session_ok (timer_call i f s)"
proof -
  have "ex_at (timers (timer_call i f s) ! timer s) = ex_at (timers s ! timer s)"
    using assms(3) by simp
  with assms show ?thesis
    by (simp add: session_ok_def timer_call_timers_ok timer_call_pending_ok)
qed

lemma session_ok_fields:
  "session_ok s \<Longrightarrow> session_ok (s\<lparr>repsDone := a\<rparr>)"
  "session_ok s \<Longrightarrow> session_ok (s\<lparr>setsDone := a\<rparr>)"
  "session_ok s \<Longrightarrow> session_ok (s\<lparr>holdLoopActive := b\<rparr>)"
  "session_ok s \<Longrightarrow> session_ok (s\<lparr>display := v\<rparr>)"
  "session_ok s \<Longrightarrow> session_ok (s\<lparr>theme := th, saved_theme := st\<rparr>)"
  "session_ok s \<Longrightarrow> session_ok (beep d f s)"
  "session_ok s \<Longrightarrow> session_ok (save_progress s)"
  "session_ok s \<Longrightarrow> session_ok (s\<lparr>rep_text := t\<rparr>)"
  "session_ok s \<Longrightarrow> session_ok (s\<lparr>set_text := t\<rparr>)"
  "session_ok s \<Longrightarrow> session_ok (render_list s)"
  by (simp_all add: session_ok_def timers_ok_def pending_ok_def beep_def save_progress_def render_list_def)

lemma cleanup_timers_ok:
  assumes "session_ok s"
  shows "timers_ok (cleanup_timers s) \<and> pending_ok (cleanup_timers s) \<and>
         timers (cleanup_timers s) = (timers s)[timer s := (timers s ! timer s)\<lparr>clock := timer_pause (cur_timer s)\<rparr>] \<and>
         completed (cleanup_timers s) = completed s"
proof -
  from assms have "0 \<le> remaining (timer_pause (cur_timer s))"
    by (auto simp: session_ok_def timers_ok_def timer_pause_def cur_timer_def)
  with assms show ?thesis
    using set_clock_timers_ok [of "s\<lparr>holdLoopActive := False\<rparr>" "timer_pause (cur_timer s)" "timer s"]
    by (simp add: cleanup_timers_def session_ok_def timers_ok_def pending_ok_def update_timer_display_def
        set_clock_def)
qed

lemma render_exercise_ok:
  assumes "currentIndex s < n_steps" "timers_ok s" "pending_ok s" "distinct (completed s)"
  shows "session_ok (render_exercise s)"
  using assms by (auto simp: render_exercise_def session_ok_def timers_ok_def pending_ok_def
      update_timer_display_def nth_append new_countdown_def)

lemma select_index_ok: "session_ok s \<Longrightarrow> i < n_steps \<Longrightarrow> session_ok (select_index i s)"
  unfolding select_index_def
  by (rule session_ok_fields(7), rule session_ok_fields(10), rule render_exercise_ok)
     (use cleanup_timers_ok [of s] in \<open>simp_all add: timers_ok_def pending_ok_def session_ok_def\<close>)


lemma start_on_current_ok:
  assumes "session_ok s" and "timer s = i" and "\<forall>v. secs = Some v \<longrightarrow> 0 \<le> v"
  shows "session_ok (timer_call i (timer_start secs) s)"
  by (rule timer_call_session_ok [OF assms(1) clock_op_ok_start [OF assms(3)]])
     (use assms(1,2) in \<open>simp add: session_ok_def\<close>)

lemma js_secs_nonneg_all: "\<forall>v. js_secs t = Some v \<longrightarrow> 0 \<le> v"
  using js_secs_nonneg by blast

lemma set_clock_session_ok:
  assumes "session_ok s" and "0 \<le> remaining c"
  shows "session_ok (set_clock i c s)"
proof -
  from assms have "timers_ok (set_clock i c s)" by (simp add: session_ok_def set_clock_timers_ok)
  moreover have "ex_at (timers (set_clock i c s) ! timer s) = ex_at (timers s ! timer s)"
    using assms(1)
    by (cases "i < length (timers s)") (auto simp: set_clock_def list_update_beyond nth_list_update session_ok_def)
  ultimately show ?thesis using assms(1)
    by (simp add: session_ok_def pending_ok_def)
qed

lemma start_click_ok:
  assumes "session_ok s"
  shows "session_ok (start_click s)"
proof (cases "mode (cur_ex s)")
  case Timer
  let ?r = "remaining (cur_timer s)"
  have "\<forall>v. (if 0 < ?r then Some ?r else js_secs (durationSec (targets (cur_ex s)))) = Some v \<longrightarrow> 0 \<le> v"
    using js_secs_nonneg by auto
  with Timer assms show ?thesis by (simp add: start_click_def Let_def start_on_current_ok)
next
  case HoldReps
  with assms show ?thesis
    by (auto simp: start_click_def Let_def
        intro!: start_on_current_ok session_ok_fields js_secs_nonneg_all)
next
  case HoldSets
  with assms show ?thesis
    by (auto simp: start_click_def Let_def
        intro!: start_on_current_ok session_ok_fields js_secs_nonneg_all)
next
  case RepsSets
  with assms show ?thesis by (simp add: start_click_def session_ok_fields)
qed

lemma pause_click_ok: "session_ok s \<Longrightarrow> session_ok (pause_click s)"
  unfolding pause_click_def
  by (intro session_ok_fields(3) set_clock_session_ok)
     (auto simp: session_ok_def timers_ok_def timer_pause_def cur_timer_def)

lemma reset_click_ok: "session_ok s \<Longrightarrow> session_ok (reset_click s)"
  unfolding reset_click_def
  by (rule session_ok_fields(3), rule timer_call_session_ok) (simp_all add: clock_op_ok_reset session_ok_def)

lemma session_ok_completed: "session_ok s \<Longrightarrow> distinct xs \<Longrightarrow> session_ok (s\<lparr>completed := xs\<rparr>)"
  by (simp add: session_ok_def timers_ok_def pending_ok_def)

lemma complete_click_ok:
  assumes "session_ok s"
  shows "session_ok (complete_click s)"
proof -
  let ?s1 = "save_progress (render_list (beep 100 900 (beep 100 1200
               (s\<lparr>completed := js_set_add (completed s) (ex_id (cur_ex s))\<rparr>))))"
  have ok1: "session_ok ?s1"
    using assms by (intro session_ok_fields session_ok_completed) (simp_all add: session_ok_def)
  then show ?thesis
    unfolding complete_click_def Let_def by (auto intro: select_index_ok)
qed

lemma reset_progress_click_ok:
  assumes "session_ok s"
  shows "session_ok (reset_progress_click ok s)"
proof (cases ok)
  case True
  have "session_ok (render_exercise (render_list (save_progress (s\<lparr>completed := [], currentIndex := 0\<rparr>))))"
    by (rule render_exercise_ok)
       (use assms in \<open>simp_all add: session_ok_def timers_ok_def pending_ok_def save_progress_def\<close>)
  with True show ?thesis by (simp add: reset_progress_click_def)
qed (simp add: reset_progress_click_def assms)

lemma prev_click_ok:
  assumes "session_ok s"
  shows "session_ok (prev_click s)"
proof -
  have "currentIndex s - 1 < n_steps" using assms by (auto simp: session_ok_def)
  with assms show ?thesis by (simp add: prev_click_def select_index_ok)
qed

lemma next_click_ok: "session_ok s \<Longrightarrow> session_ok (next_click s)"
  by (simp add: next_click_def select_index_ok)

lemma fire_pending_ok:
  assumes "session_ok s" and "j < length (pending s)"
  shows "session_ok (fire_pending j s)"
proof -
  let ?s1 = "s\<lparr>pending := take j (pending s) @ drop (Suc j) (pending s)\<rparr>"
  have "set (take j (pending s) @ drop (Suc j) (pending s)) \<subseteq> set (pending s)"
    by (auto dest: in_set_takeD in_set_dropD)
  with assms(1) have ok1: "session_ok ?s1"
    by (auto simp: session_ok_def timers_ok_def pending_ok_def)
  from assms have "\<forall>v. snd (pending s ! j) = Some v \<longrightarrow> 0 \<le> v"
    by (auto simp: session_ok_def pending_ok_def)
  with ok1 show ?thesis
    unfolding fire_pending_def Let_def by (auto intro!: start_on_current_ok)
qed

lemma step_session_ok: "step s e = Some s' \<Longrightarrow> session_ok s \<Longrightarrow> session_ok s'"
proof (cases e)
  case (Tick i)
  assume "step s e = Some s'" and ok: "session_ok s"
  with Tick have "i < length (timers s)" and s': "s' = timer_call i timer_tick s"
    by (auto split: if_splits)
  with ok show ?thesis by (simp add: timer_call_session_ok clock_op_ok_tick)
next
  case (Fire j)
  assume "step s e = Some s'" and ok: "session_ok s"
  with Fire have "j < length (pending s)" and s': "s' = fire_pending j s"
    by (auto split: if_splits)
  with ok show ?thesis by (simp add: fire_pending_ok)
qed (auto simp: start_click_ok pause_click_ok reset_click_ok complete_click_ok reset_progress_click_ok
       select_index_ok prev_click_ok next_click_ok session_ok_fields rep_inc_def rep_dec_def
       set_inc_def set_dec_def toggle_theme_def Let_def split: if_splits)

lemma init_ok: "session_ok (init p th)"
  unfolding init_def
  by (rule render_exercise_ok)
     (simp_all add: load_progress_index_bound [simplified] load_progress_distinct timers_ok_def
        pending_ok_def empty_session_def)

text \<open>
  C3. Every state the program reaches from start-up, whatever was stored and whatever
  events follow, satisfies the session invariant \<open>session_ok\<close>.
\<close>

theorem reachable_session_ok: "reachable s \<Longrightarrow> session_ok s"
proof (induction rule: reachable.induct)
  case (start p th)
  show ?case by (rule init_ok)
next
  case (step s e s')
  then show ?case by (blast intro: step_session_ok)
qed

theorem reachable_session_ok_witness:
  "reachable (init None None) \<and> session_ok (init None None)"
  using reachable_session_ok [OF reachable.start [of None None]] reachable.start [of None None] by blast

subsection \<open>Runs of events and the countdown inside the session\<close>

lemma run_append: "run s (xs @ ys) = Option.bind (run s xs) (\<lambda>s'. run s' ys)"
  by (induction xs arbitrary: s) (auto split: option.split)

lemma run_Cons_Some: "step s e = Some s1 \<Longrightarrow> run s (e # es) = run s1 es"
  by simp

text \<open>A state property that every event except a confirmed progress reset preserves
  holds along every run without such a reset.\<close>

lemma run_invariant:
  assumes step: "\<And>s e s'. step s e = Some s' \<Longrightarrow> P s \<Longrightarrow> e \<noteq> ResetProgress True \<Longrightarrow> P s'"
  shows "run s es = Some s' \<Longrightarrow> P s \<Longrightarrow> ResetProgress True \<notin> set es \<Longrightarrow> P s'"
proof (induction es arbitrary: s)
  case (Cons e es)
  then obtain s1 where "step s e = Some s1" "run s1 es = Some s'" by (auto split: option.splits)
  with Cons show ?case using step by auto
qed simp

lemma set_clock_display [simp]:
  "set_clock i c (s\<lparr>display := v\<rparr>) = (set_clock i c s)\<lparr>display := v\<rparr>"
  by (simp add: set_clock_def)

lemma set_clock_ex_at [simp]:
  "i < length (timers s) \<Longrightarrow> ex_at (timers (set_clock j c s) ! i) = ex_at (timers s ! i)"
  by (cases "j < length (timers s)") (auto simp: set_clock_def nth_list_update list_update_beyond)

lemma timer_call_tick_continue:
  "i < length (timers s) \<Longrightarrow> clock (timers s ! i) = running r \<Longrightarrow> \<not> js_sub r tenth \<le> 0 \<Longrightarrow>
     timer_call i timer_tick s = update_timer_display (js_sub r tenth) (set_clock i (running (js_sub r tenth)) s)"
  by (simp add: timer_call_def timer_tick_continue)

lemma timer_call_tick_done:
  "i < length (timers s) \<Longrightarrow> clock (timers s ! i) = running r \<Longrightarrow> js_sub r tenth \<le> 0 \<Longrightarrow>
     timer_call i timer_tick s = on_done (ex_at (timers s ! i)) (update_timer_display 0 (set_clock i stopped s))"
  by (simp add: timer_call_def timer_tick_done)

lemma timer_call_start_Some:
  "timer_call i (timer_start (Some v)) s = update_timer_display v (set_clock i (running v) s)"
  by (simp add: timer_call_def timer_start_def)

text \<open>Firing the interval of heap timer \<open>i\<close> as often as its countdown lasts runs the
  countdown to its end and then the timer's \<^verbatim>\<open>onDone\<close> closure.\<close>

lemma run_ticks:
  assumes "i < length (timers s)" and "clock (timers s ! i) = running r" and "countdown_len r = Some n"
  shows "run s (replicate n (Tick i)) =
           Some (on_done (ex_at (timers s ! i)) (update_timer_display 0 (set_clock i stopped s)))"
  using assms
proof (induction n arbitrary: s r)
  case 0
  then show ?case using countdown_len_pos by blast
next
  case (Suc n)
  from countdown_len_step [OF Suc.prems(3)] show ?case
  proof (elim disjE conjE exE)
    assume "js_sub r tenth \<le> 0" and "Suc n = 1"
    with Suc.prems show ?thesis by (simp add: timer_call_tick_done)
  next
    fix m assume nd: "\<not> js_sub r tenth \<le> 0" and "Suc n = Suc m"
      and m: "countdown_len (js_sub r tenth) = Some m"
    let ?s1 = "update_timer_display (js_sub r tenth) (set_clock i (running (js_sub r tenth)) s)"
    have step1: "step s (Tick i) = Some ?s1"
      using Suc.prems nd by (simp add: timer_call_tick_continue)
    have "run ?s1 (replicate n (Tick i)) =
            Some (on_done (ex_at (timers ?s1 ! i)) (update_timer_display 0 (set_clock i stopped ?s1)))"
      using Suc.prems m \<open>Suc n = Suc m\<close> by (intro Suc.IH) (simp_all add: update_timer_display_def)
    with step1 Suc.prems(1) show ?thesis
      by (simp add: update_timer_display_def)
  qed
qed

end
