(* ===== verification/Hold_Loops.thy ===== *)
theory Hold_Loops
  imports Session
begin

section \<open>The automatic hold loops\<close>

text \<open>
  The two hold loops of the mode state machine (\<^verbatim>\<open>script.js\<close>, lines 307--322 and
  337--348). Start arms the loop and starts a hold. Each time the hold's countdown ends,
  the timer's \<^verbatim>\<open>onDone\<close> closure counts a rep (hold-reps) or a set (hold-sets).
  Below the target it schedules a restart 400 or 600 ms later. The two loops differ only
  in their mode, counter, target and delay, which \<open>loop_kind\<close> names, so the lemmas
  are stated once for both:
  \<^item> \<open>loop_ready c H t\<close> is the state between two holds of one loop: the loop flag set,
    nothing pending, and heap timer \<open>c\<close> (the one \<^verbatim>\<open>state.timer\<close> holds) counting
    down from \<open>H\<close>;
  \<^item> the lemmas run one hold (\<open>loop_tick_phase\<close>), one hold with its restart
    (\<open>loop_cycle\<close>), several (\<open>loop_cycles\<close>) and the last (\<open>loop_last\<close>).
  This theory proves the hold-reps loop; theory \<open>Hold_Sets\<close> proves the hold-sets loop.
\<close>

definition loop_ready :: "nat \<Rightarrow> js_num \<Rightarrow> session \<Rightarrow> bool" where
  "loop_ready c H t =
     (holdLoopActive t \<and> pending t = [] \<and> timer t = c \<and> c < length (timers t) \<and>
      clock (timers t ! c) = running H \<and> ex_at (timers t ! c) = currentIndex t)"

datatype loop_kind = RepsLoop | SetsLoop

fun loop_mode :: "loop_kind \<Rightarrow> mode" where
  "loop_mode RepsLoop = HoldReps"
| "loop_mode SetsLoop = HoldSets"

fun loop_count :: "loop_kind \<Rightarrow> session \<Rightarrow> nat" where
  "loop_count RepsLoop s = repsDone s"
| "loop_count SetsLoop s = setsDone s"

fun set_count :: "loop_kind \<Rightarrow> nat \<Rightarrow> session \<Rightarrow> session" where
  "set_count RepsLoop n s = s\<lparr>repsDone := n, rep_text := digits n\<rparr>"
| "set_count SetsLoop n s = s\<lparr>setsDone := n, set_text := digits n\<rparr>"

fun loop_target :: "loop_kind \<Rightarrow> targets \<Rightarrow> nat option" where
  "loop_target RepsLoop t = reps t"
| "loop_target SetsLoop t = sets t"

fun loop_delay :: "loop_kind \<Rightarrow> nat" where
  "loop_delay RepsLoop = 400"
| "loop_delay SetsLoop = 600"

lemma set_count_fields [simp]:
  "loop_count k (set_count k n s) = n" "timers (set_count k n s) = timers s" "timer (set_count k n s) = timer s"
  "pending (set_count k n s) = pending s" "holdLoopActive (set_count k n s) = holdLoopActive s"
  "currentIndex (set_count k n s) = currentIndex s" "display (set_count k n s) = display s"
  by (cases k; simp)+

lemma set_count_commute:
  "(set_count k n s)\<lparr>pending := p\<rparr> = set_count k n (s\<lparr>pending := p\<rparr>)"
  "(set_count k n s)\<lparr>holdLoopActive := b\<rparr> = set_count k n (s\<lparr>holdLoopActive := b\<rparr>)"
  "update_timer_display v (set_count k n s) = set_count k n (update_timer_display v s)"
  "set_clock c x (set_count k n s) = set_count k n (set_clock c x s)"
  by (cases k; simp add: update_timer_display_def set_clock_def)+

lemma loop_count_fields [simp]:
  "loop_count k (s\<lparr>pending := p\<rparr>) = loop_count k s" "loop_count k (s\<lparr>holdLoopActive := b\<rparr>) = loop_count k s"
  "loop_count k (beep d f s) = loop_count k s" "loop_count k (update_timer_display v s) = loop_count k s"
  "loop_count k (set_clock c x s) = loop_count k s" "loop_count k (s\<lparr>display := v\<rparr>) = loop_count k s"
  "loop_count k (s\<lparr>tones := ts\<rparr>) = loop_count k s"
  "loop_count k (s\<lparr>rep_text := txt\<rparr>) = loop_count k s" "loop_count k (s\<lparr>set_text := txt\<rparr>) = loop_count k s"
  by (cases k; simp add: beep_def update_timer_display_def set_clock_def)+

lemma on_done_loop:
  assumes "mode (routine ! e) = loop_mode k" and "holdLoopActive s"
    and "loop_target k (targets (routine ! e)) = Some n"
  shows "on_done e s =
           (let s1 = set_count k (Suc (loop_count k s)) (beep 200 900 (beep 180 1200 s))
            in if Suc (loop_count k s) < n
               then s1\<lparr>pending := pending s @ [(loop_delay k, js_secs (holdSec (targets (routine ! e))))]\<rparr>
               else s1\<lparr>holdLoopActive := False\<rparr>)"
  using assms by (cases k) (simp_all add: on_done_def Let_def beep_def)

lemma loop_tick_phase:
  assumes ready: "loop_ready c H t"
    and ex: "mode (routine ! currentIndex t) = loop_mode k" "loop_target k (targets (routine ! currentIndex t)) = Some n"
    and len: "countdown_len H = Some N"
  shows "run t (replicate N (Tick c)) =
           Some (let t1 = set_count k (Suc (loop_count k t)) (beep 200 900 (beep 180 1200 ((set_clock c stopped t)\<lparr>display := 0\<rparr>)))
                 in if Suc (loop_count k t) < n
                    then t1\<lparr>pending := [(loop_delay k, js_secs (holdSec (targets (routine ! currentIndex t))))]\<rparr>
                    else t1\<lparr>holdLoopActive := False\<rparr>)"
proof -
  from ready have c: "c < length (timers t)" "clock (timers t ! c) = running H"
    "ex_at (timers t ! c) = currentIndex t" and r: "holdLoopActive t" "pending t = []"
    by (simp_all add: loop_ready_def)
  have "run t (replicate N (Tick c)) =
          Some (on_done (currentIndex t) (update_timer_display 0 (set_clock c stopped t)))"
    using run_ticks [OF c(1,2) len] c(3) by simp
  then show ?thesis
    using r ex by (simp add: on_done_loop update_timer_display_def beep_def Let_def)
qed

lemma loop_cycle:
  assumes ready: "loop_ready c H t"
    and ex: "mode (routine ! currentIndex t) = loop_mode k" "loop_target k (targets (routine ! currentIndex t)) = Some n"
      "js_secs (holdSec (targets (routine ! currentIndex t))) = Some H"
    and len: "countdown_len H = Some N" and lt: "Suc (loop_count k t) < n"
  shows "\<exists>t'. run t (replicate N (Tick c) @ [Fire 0]) = Some t' \<and> loop_ready c H t' \<and>
              loop_count k t' = Suc (loop_count k t) \<and> currentIndex t' = currentIndex t"
proof -
  let ?t1 = "(set_count k (Suc (loop_count k t)) (beep 200 900 (beep 180 1200 ((set_clock c stopped t)\<lparr>display := 0\<rparr>))))
               \<lparr>pending := [(loop_delay k, Some H)]\<rparr>"
  have t1: "run t (replicate N (Tick c)) = Some ?t1"
    using loop_tick_phase [OF ready ex(1,2) len] lt ex(3) by simp
  let ?t2 = "update_timer_display H (set_clock c (running H) (?t1\<lparr>pending := []\<rparr>))"
  have "step ?t1 (Fire 0) = Some ?t2"
    using ready by (simp add: fire_pending_def timer_call_start_Some loop_ready_def beep_def)
  then have "run t (replicate N (Tick c) @ [Fire 0]) = Some ?t2"
    using t1 by (simp add: run_append)
  moreover have "loop_ready c H ?t2"
    using ready by (simp add: loop_ready_def update_timer_display_def beep_def set_count_commute)
  ultimately show ?thesis by (auto simp: set_count_commute update_timer_display_def beep_def)
qed

lemma loop_cycles:
  assumes ready: "loop_ready c H t"
    and ex: "mode (routine ! currentIndex t) = loop_mode k" "loop_target k (targets (routine ! currentIndex t)) = Some n"
      "js_secs (holdSec (targets (routine ! currentIndex t))) = Some H"
    and len: "countdown_len H = Some N" and lt: "loop_count k t + m < n"
  shows "\<exists>t'. run t (concat (replicate m (replicate N (Tick c) @ [Fire 0]))) = Some t' \<and>
              loop_ready c H t' \<and> loop_count k t' = loop_count k t + m \<and> currentIndex t' = currentIndex t"
  using ready ex lt
proof (induction m arbitrary: t)
  case (Suc m)
  let ?X = "replicate N (Tick c) @ [Fire 0]"
  obtain t1 where t1: "run t ?X = Some t1" "loop_ready c H t1"
    "loop_count k t1 = Suc (loop_count k t)" "currentIndex t1 = currentIndex t"
    using loop_cycle [OF Suc.prems(1-4) len] Suc.prems(5) by auto
  then obtain t2 where t2: "run t1 (concat (replicate m ?X)) = Some t2"
    "loop_ready c H t2" "loop_count k t2 = loop_count k t1 + m" "currentIndex t2 = currentIndex t1"
    using Suc.IH [of t1] Suc.prems by auto
  have "run t (concat (replicate (Suc m) ?X)) = Option.bind (run t ?X) (\<lambda>s'. run s' (concat (replicate m ?X)))"
    by (simp only: replicate_Suc concat.simps run_append)
  also have "\<dots> = Some t2" using t1(1) t2(1) by simp
  finally show ?case using t1 t2 by simp
qed auto

lemma loop_last:
  assumes ready: "loop_ready c H t"
    and ex: "mode (routine ! currentIndex t) = loop_mode k" "loop_target k (targets (routine ! currentIndex t)) = Some n"
    and len: "countdown_len H = Some N" and eq: "Suc (loop_count k t) = n"
  shows "\<exists>t'. run t (replicate N (Tick c)) = Some t' \<and> loop_count k t' = n \<and> \<not> holdLoopActive t' \<and>
              pending t' = [] \<and> timer t' = c \<and> \<not> interval (clock (timers t' ! c)) \<and>
              currentIndex t' = currentIndex t"
  using loop_tick_phase [OF ready ex len] eq ready
  by (simp add: loop_ready_def beep_def set_count_commute set_clock_def)

lemma start_loop:
  assumes ok: "session_ok s" and ex: "mode (cur_ex s) = loop_mode k" "loop_target k (targets (cur_ex s)) = Some n"
      "js_secs (holdSec (targets (cur_ex s))) = Some H"
    and idle: "\<not> holdLoopActive s" "pending s = []" and cnt: "loop_count k s = 0 \<or> n \<le> loop_count k s"
  shows "loop_ready (timer s) H (start_click s) \<and> loop_count k (start_click s) = 0 \<and>
         currentIndex (start_click s) = currentIndex s"
  using assms by (cases k) (auto simp: start_click_def cur_ex_def timer_call_start_Some loop_ready_def
      update_timer_display_def session_ok_def Let_def)

text \<open>The whole loop, from Start to the last hold, for either kind.\<close>

lemma hold_loop_run:
  assumes ok: "session_ok s"
    and ex: "mode (cur_ex s) = loop_mode k" "loop_target k (targets (cur_ex s)) = Some n" "0 < n"
      "holdSec (targets (cur_ex s)) = Some h"
    and len: "countdown_len (js_of_nat h) = Some N"
    and idle: "\<not> holdLoopActive s" "pending s = []" and cnt: "loop_count k s = 0 \<or> n \<le> loop_count k s"
  shows "\<exists>s'. run s (Start # concat (replicate (n - 1) (replicate N (Tick (timer s)) @ [Fire 0])) @
                      replicate N (Tick (timer s))) = Some s' \<and>
              loop_count k s' = n \<and> \<not> holdLoopActive s' \<and> pending s' = [] \<and>
              \<not> interval (cur_timer s') \<and> currentIndex s' = currentIndex s"
proof -
  let ?H = "js_of_nat h" and ?c = "timer s"
  let ?X = "replicate N (Tick ?c) @ [Fire 0]"
  have secs: "js_secs (holdSec (targets (cur_ex s))) = Some ?H" using ex(4) by (simp add: js_secs_def)
  have s1: "loop_ready ?c ?H (start_click s)" "loop_count k (start_click s) = 0"
    "currentIndex (start_click s) = currentIndex s"
    using start_loop [OF ok ex(1,2) secs idle cnt] by auto
  have ex1: "mode (routine ! currentIndex (start_click s)) = loop_mode k"
    "loop_target k (targets (routine ! currentIndex (start_click s))) = Some n"
    "js_secs (holdSec (targets (routine ! currentIndex (start_click s)))) = Some ?H"
    using ex secs s1(3) by (simp_all add: cur_ex_def)
  obtain s2 where s2: "run (start_click s) (concat (replicate (n - 1) ?X)) = Some s2"
    "loop_ready ?c ?H s2" "loop_count k s2 = n - 1" "currentIndex s2 = currentIndex s"
    using loop_cycles [OF s1(1) ex1 len, of "n - 1"] s1 ex(3) by auto
  have ex2: "mode (routine ! currentIndex s2) = loop_mode k"
    "loop_target k (targets (routine ! currentIndex s2)) = Some n"
    using ex1 s1(3) s2(4) by simp_all
  obtain s3 where s3: "run s2 (replicate N (Tick ?c)) = Some s3" "loop_count k s3 = n" "\<not> holdLoopActive s3"
    "pending s3 = []" "timer s3 = ?c" "\<not> interval (clock (timers s3 ! ?c))" "currentIndex s3 = currentIndex s2"
    using loop_last [OF s2(2) ex2 len] s2(3) ex(3) by auto
  have "run s (Start # concat (replicate (n - 1) ?X) @ replicate N (Tick ?c)) = Some s3"
    using s2(1) s3(1) by (simp add: run_append)
  with s3 s2(4) show ?thesis by (auto simp: cur_timer_def)
qed

lemma loop_ready_rep_inc [simp]: "loop_ready c H (rep_inc t) = loop_ready c H t"
  by (simp add: loop_ready_def rep_inc_def)

text \<open>
  C2. The automatic hold-reps loop completes: on a hold-reps exercise with a target of
  \<open>n\<close> reps whose hold countdown lasts \<open>N\<close> ticks, pressing Start when no loop runs
  and the counter is 0 or at its target, then letting each hold run out and each
  deferred restart fire, ends after \<open>n\<close> holds with the rep counter at \<open>n\<close>, the loop
  flag cleared, nothing pending and the countdown stopped.
\<close>

theorem hold_reps_loop:
  assumes ok: "session_ok s"
    and ex: "mode (cur_ex s) = HoldReps" "reps (targets (cur_ex s)) = Some n" "0 < n"
      "holdSec (targets (cur_ex s)) = Some h"
    and len: "countdown_len (js_of_nat h) = Some N"
    and idle: "\<not> holdLoopActive s" "pending s = []" and cnt: "repsDone s = 0 \<or> n \<le> repsDone s"
  shows "\<exists>s'. run s (Start # concat (replicate (n - 1) (replicate N (Tick (timer s)) @ [Fire 0])) @
                      replicate N (Tick (timer s))) = Some s' \<and>
              repsDone s' = n \<and> \<not> holdLoopActive s' \<and> pending s' = [] \<and>
              \<not> interval (cur_timer s') \<and> currentIndex s' = currentIndex s"
  using hold_loop_run [of s RepsLoop n h N] assms by simp

theorem hold_reps_loop_witness:
  "let s = init (Some \<lparr>p_completed = None, p_index = Some 1\<rparr>) None in
   session_ok s \<and> mode (cur_ex s) = HoldReps \<and> reps (targets (cur_ex s)) = Some 10 \<and> (0::nat) < 10 \<and>
   holdSec (targets (cur_ex s)) = Some 5 \<and> countdown_len (js_of_nat 5) = Some 51 \<and>
   \<not> holdLoopActive s \<and> pending s = [] \<and> (repsDone s = 0 \<or> 10 \<le> repsDone s) \<and>
   (\<exists>s'. run s (Start # concat (replicate 9 (replicate 51 (Tick 0) @ [Fire 0])) @ replicate 51 (Tick 0)) = Some s' \<and>
         repsDone s' = 10 \<and> \<not> holdLoopActive s' \<and> pending s' = [] \<and>
         \<not> interval (cur_timer s') \<and> currentIndex s' = 1)"
proof -
  let ?s = "init (Some \<lparr>p_completed = None, p_index = Some 1\<rparr>) None"
  have st: "currentIndex ?s = 1" "timer ?s = 0" "\<not> holdLoopActive ?s" "pending ?s = []" "repsDone ?s = 0"
    by (simp_all add: init_def render_exercise_def load_progress_def empty_session_def clamp_index_def
        update_timer_display_def)
  have h: "session_ok ?s" "mode (cur_ex ?s) = HoldReps" "reps (targets (cur_ex ?s)) = Some 10"
    "holdSec (targets (cur_ex ?s)) = Some 5"
    using init_ok st(1) by (simp_all add: cur_ex_def routine_def no_targets_def)
  show ?thesis
    using hold_reps_loop [OF h(1-3) _ h(4) countdown_len_five st(3,4)] st h countdown_len_five
    by (simp add: Let_def)
qed

text \<open>
  C33. A manual +1 during the hold-reps loop counts toward the target: a rep clicked
  during the first hold makes the loop stop after \<open>n - 1\<close> holds, with the counter
  at \<open>n\<close>. The spec describes the automatic loop and the manual counters separately
  and does not say how they combine.
\<close>

theorem rep_inc_shortens_loop:
  assumes ok: "session_ok s"
    and ex: "mode (cur_ex s) = HoldReps" "reps (targets (cur_ex s)) = Some n" "1 < n"
      "holdSec (targets (cur_ex s)) = Some h"
    and len: "countdown_len (js_of_nat h) = Some N"
    and idle: "\<not> holdLoopActive s" "pending s = []" and cnt: "repsDone s = 0 \<or> n \<le> repsDone s"
  shows "\<exists>s'. run s (Start # RepInc # concat (replicate (n - 2) (replicate N (Tick (timer s)) @ [Fire 0])) @
                      replicate N (Tick (timer s))) = Some s' \<and>
              repsDone s' = n \<and> \<not> holdLoopActive s' \<and> pending s' = [] \<and> \<not> interval (cur_timer s')"
proof -
  let ?H = "js_of_nat h" and ?c = "timer s"
  let ?X = "replicate N (Tick ?c) @ [Fire 0]"
  have secs: "js_secs (holdSec (targets (cur_ex s))) = Some ?H" using ex(4) by (simp add: js_secs_def)
  have s1: "loop_ready ?c ?H (start_click s)" "repsDone (start_click s) = 0"
    "currentIndex (start_click s) = currentIndex s"
    using start_loop [OF ok, where k = RepsLoop and n = n] ex(1,2) secs idle cnt by auto
  let ?s2 = "rep_inc (start_click s)"
  have s2: "loop_ready ?c ?H ?s2" "loop_count RepsLoop ?s2 = 1" "currentIndex ?s2 = currentIndex s"
    using s1 by (simp, simp_all add: rep_inc_def)
  have ex2: "mode (routine ! currentIndex ?s2) = loop_mode RepsLoop"
    "loop_target RepsLoop (targets (routine ! currentIndex ?s2)) = Some n"
    "js_secs (holdSec (targets (routine ! currentIndex ?s2))) = Some ?H"
    using ex secs s2(3) by (simp_all add: cur_ex_def)
  obtain s3 where s3: "run ?s2 (concat (replicate (n - 2) ?X)) = Some s3"
    "loop_ready ?c ?H s3" "loop_count RepsLoop s3 = n - 1" "currentIndex s3 = currentIndex s"
    using loop_cycles [OF s2(1) ex2 len, of "n - 2"] s2 ex(3) by auto
  have ex3: "mode (routine ! currentIndex s3) = loop_mode RepsLoop"
    "loop_target RepsLoop (targets (routine ! currentIndex s3)) = Some n"
    using ex2 s2(3) s3(4) by simp_all
  obtain s4 where s4: "run s3 (replicate N (Tick ?c)) = Some s4" "loop_count RepsLoop s4 = n" "\<not> holdLoopActive s4"
    "pending s4 = []" "timer s4 = ?c" "\<not> interval (clock (timers s4 ! ?c))"
    using loop_last [OF s3(2) ex3 len] s3(3) ex(3) by auto
  have "run s (Start # RepInc # concat (replicate (n - 2) ?X) @ replicate N (Tick ?c)) = Some s4"
    using s3(1) s4(1) by (simp add: run_append)
  with s4 show ?thesis by (auto simp: cur_timer_def)
qed

theorem rep_inc_shortens_loop_witness:
  "let s = init (Some \<lparr>p_completed = None, p_index = Some 1\<rparr>) None in
   \<exists>s'. run s (Start # RepInc # concat (replicate 8 (replicate 51 (Tick 0) @ [Fire 0])) @ replicate 51 (Tick 0)) = Some s' \<and>
         repsDone s' = 10 \<and> \<not> holdLoopActive s' \<and> pending s' = [] \<and> \<not> interval (cur_timer s')"
proof -
  let ?s = "init (Some \<lparr>p_completed = None, p_index = Some 1\<rparr>) None"
  have st: "currentIndex ?s = 1" "timer ?s = 0" "\<not> holdLoopActive ?s" "pending ?s = []" "repsDone ?s = 0"
    by (simp_all add: init_def render_exercise_def load_progress_def empty_session_def clamp_index_def
        update_timer_display_def)
  have h: "session_ok ?s" "mode (cur_ex ?s) = HoldReps" "reps (targets (cur_ex ?s)) = Some 10"
    "holdSec (targets (cur_ex ?s)) = Some 5"
    using init_ok st(1) by (simp_all add: cur_ex_def routine_def no_targets_def)
  show ?thesis
    using rep_inc_shortens_loop [OF h(1-3) _ h(4) countdown_len_five st(3,4)] st
    by (simp add: Let_def)
qed

end
