(* ===== verification/Timer_Ownership.thy ===== *)
theory Timer_Ownership
  imports Hold_Loops
begin

section \<open>Which timer objects may tick\<close>

text \<open>
  \<^verbatim>\<open>renderExercise\<close> allocates a fresh \<^verbatim>\<open>CountdownTimer\<close> on every call and
  drops the reference to the old one. An old object whose interval is still set keeps
  calling its own \<^verbatim>\<open>onDone\<close> closure. \<^verbatim>\<open>selectIndex\<close> guards against this by
  calling \<^verbatim>\<open>cleanupTimers\<close>, which pauses the current object first. This theory
  proves that the guard works for every handler that uses it: \<open>only_current_runs\<close>
  (only the object \<^verbatim>\<open>state.timer\<close> holds may have a live interval) holds in every
  state reached without a confirmed \<^verbatim>\<open>Reset all progress\<close>, the one handler that
  renders a new exercise without the cleanup (theory \<open>Defects\<close> shows what goes wrong
  there). \<open>select_index\<close> itself leaves no interval set at all.
\<close>

lemma set_clock_only_current:
  "only_current_runs s \<Longrightarrow> (interval c \<longrightarrow> i = timer s) \<Longrightarrow> only_current_runs (set_clock i c s)"
  by (cases "i < length (timers s)") (auto simp: only_current_runs_def set_clock_def nth_list_update list_update_beyond)

lemma timer_call_only_current:
  assumes "only_current_runs s" and "interval (fst (f (clock (timers s ! i)))) \<longrightarrow> i = timer s"
  shows "only_current_runs (timer_call i f s)"
proof -
  have "only_current_runs (set_clock i (fst (f (clock (timers s ! i)))) s)"
    using assms by (rule set_clock_only_current)
  then show ?thesis by (simp add: only_current_runs_def)
qed

lemma only_current_fields [simp]:
  "only_current_runs (s\<lparr>repsDone := a\<rparr>) = only_current_runs s"
  "only_current_runs (s\<lparr>setsDone := a\<rparr>) = only_current_runs s"
  "only_current_runs (s\<lparr>holdLoopActive := b\<rparr>) = only_current_runs s"
  "only_current_runs (s\<lparr>display := v\<rparr>) = only_current_runs s"
  "only_current_runs (s\<lparr>pending := ps\<rparr>) = only_current_runs s"
  "only_current_runs (s\<lparr>completed := xs\<rparr>) = only_current_runs s"
  "only_current_runs (s\<lparr>currentIndex := k\<rparr>) = only_current_runs s"
  "only_current_runs (s\<lparr>theme := th, saved_theme := st\<rparr>) = only_current_runs s"
  "only_current_runs (beep d f s) = only_current_runs s"
  "only_current_runs (save_progress s) = only_current_runs s"
  "only_current_runs (update_timer_display v s) = only_current_runs s"
  "only_current_runs (s\<lparr>rep_text := x\<rparr>) = only_current_runs s"
  "only_current_runs (s\<lparr>set_text := x\<rparr>) = only_current_runs s"
  "only_current_runs (render_list s) = only_current_runs s"
  by (simp_all add: only_current_runs_def beep_def update_timer_display_def render_list_def)

text \<open>After \<^verbatim>\<open>selectIndex\<close> no countdown runs at all, provided only the current one
  ran before: \<^verbatim>\<open>cleanupTimers\<close> pauses it and the new timer starts idle.\<close>

lemma select_index_all_idle:
  assumes "only_current_runs s"
  shows "\<forall>j < length (timers (select_index i s)). \<not> interval (clock (timers (select_index i s) ! j))"
  using assms
  by (cases "timer s < length (timers s)")
     (auto simp: select_index_def render_exercise_def cleanup_timers_def update_timer_display_def
       set_clock_def only_current_runs_def nth_append nth_list_update new_countdown_def timer_pause_def
       cur_timer_def list_update_beyond)

lemma all_idle_only_current: "\<forall>j < length (timers s). \<not> interval (clock (timers s ! j)) \<Longrightarrow> only_current_runs s"
  by (simp add: only_current_runs_def)

lemma select_index_only_current: "only_current_runs s \<Longrightarrow> only_current_runs (select_index i s)"
  by (rule all_idle_only_current, rule select_index_all_idle)

lemma start_click_only_current: "only_current_runs s \<Longrightarrow> only_current_runs (start_click s)"
  by (auto simp: start_click_def Let_def intro!: timer_call_only_current split: mode.splits)

lemma step_only_current:
  assumes "step s e = Some s'" and "only_current_runs s" and "e \<noteq> ResetProgress True"
  shows "only_current_runs s'"
proof (cases e)
  case (Tick i)
  with assms(1) have "i < length (timers s)" "interval (clock (timers s ! i))" and s': "s' = timer_call i timer_tick s"
    by (auto split: if_splits)
  with assms(2) have "i = timer s" by (simp add: only_current_runs_def)
  with assms(2) s' show ?thesis by (simp add: timer_call_only_current)
next
  case (Fire j)
  with assms(1) have s': "s' = fire_pending j s" by (auto split: if_splits)
  with assms(2) show ?thesis
    by (simp add: fire_pending_def Let_def timer_call_only_current)
next
  case (ResetProgress ok)
  with assms show ?thesis by (simp add: reset_progress_click_def)
qed (use assms in \<open>auto simp: start_click_only_current pause_click_def set_clock_only_current timer_pause_def
      reset_click_def timer_call_only_current timer_reset_def rep_inc_def rep_dec_def set_inc_def set_dec_def
      prev_click_def next_click_def select_index_only_current complete_click_def Let_def toggle_theme_def
      split: if_splits\<close>)

lemma init_only_current: "only_current_runs (init p th)"
  by (simp add: init_def render_exercise_def only_current_runs_def update_timer_display_def
      new_countdown_def load_progress_def Let_def empty_session_def split: option.splits)

lemma run_only_current:
  "run s es = Some s' \<Longrightarrow> only_current_runs s \<Longrightarrow> ResetProgress True \<notin> set es \<Longrightarrow> only_current_runs s'"
  by (rule run_invariant [where P = only_current_runs]) (rule step_only_current)

text \<open>
  C5. Every state reached from start-up by events that do not include a confirmed
  ``Reset all progress'' has at most one live countdown, the one \<^verbatim>\<open>state.timer\<close>
  holds: every older timer object has its interval cleared.
\<close>

theorem single_live_timer:
  "run (init p th) es = Some s' \<Longrightarrow> ResetProgress True \<notin> set es \<Longrightarrow> only_current_runs s'"
  using run_only_current init_only_current by blast

theorem single_live_timer_witness:
  "\<exists>s'. run (init None None) [Start, Next, Start] = Some s' \<and> only_current_runs s'"
proof -
  have "run (init None None) [Start, Next, Start] = Some (start_click (next_click (start_click (init None None))))"
    by simp
  moreover have "ResetProgress True \<notin> set [Start, Next, Start]" by simp
  ultimately show ?thesis using single_live_timer by blast
qed

text \<open>
  C6. Selecting an exercise (a click on the step list, Prev, Next, or Complete moving
  on) starting from a state where only the current countdown may run: afterwards the
  chosen exercise is current, both counters are 0, the hold loop is off, no timer
  object has a live interval, the new one is idle with nothing remaining, and the
  stored progress records the new index.
\<close>

theorem select_index_resets:
  assumes "only_current_runs s"
  shows "currentIndex (select_index i s) = i \<and> repsDone (select_index i s) = 0 \<and>
         setsDone (select_index i s) = 0 \<and> \<not> holdLoopActive (select_index i s) \<and>
         list_all (\<lambda>t. \<not> interval (clock t)) (timers (select_index i s)) \<and>
         cur_timer (select_index i s) = new_countdown \<and> display (select_index i s) = 0 \<and>
         saved (select_index i s) = Some \<lparr>p_completed = Some (completed s), p_index = Some (int i)\<rparr>"
proof -
  have "list_all (\<lambda>t. \<not> interval (clock t)) (timers (select_index i s))"
    using select_index_all_idle [OF assms] by (simp add: list_all_length)
  then show ?thesis
    by (simp add: select_index_def save_progress_def render_exercise_def cleanup_timers_def
        update_timer_display_def cur_timer_def set_clock_def nth_append)
qed

theorem select_index_resets_witness:
  "currentIndex (select_index 3 (start_click (init None None))) = 3 \<and>
   list_all (\<lambda>t. \<not> interval (clock t)) (timers (select_index 3 (start_click (init None None))))"
  using select_index_resets [OF start_click_only_current [OF init_only_current], of 3 None None] by simp

text \<open>
  C28. Pause is effective when no restart is pending: from a state where only the current
  countdown may run and no deferred restart waits, after Pause no timer object has a live
  interval and nothing is pending, so no timer callback (\<open>Tick\<close> or \<open>Fire\<close>) can
  run until the user acts again.
\<close>

theorem pause_quiesces:
  assumes "only_current_runs s" and "pending s = []"
  shows "list_all (\<lambda>t. \<not> interval (clock t)) (timers (pause_click s)) \<and> pending (pause_click s) = [] \<and>
         (\<forall>i. step (pause_click s) (Tick i) = None) \<and> (\<forall>j. step (pause_click s) (Fire j) = None)"
proof -
  have idle: "\<forall>j < length (timers (pause_click s)). \<not> interval (clock (timers (pause_click s) ! j))"
    using assms(1)
    by (cases "timer s < length (timers s)")
       (auto simp: pause_click_def set_clock_def only_current_runs_def nth_list_update timer_pause_def
         list_update_beyond)
  then have "list_all (\<lambda>t. \<not> interval (clock t)) (timers (pause_click s))" by (simp add: list_all_length)
  moreover have "pending (pause_click s) = []" using assms(2) by (simp add: pause_click_def set_clock_def)
  ultimately show ?thesis using idle by simp
qed

theorem pause_quiesces_witness:
  "step (pause_click (start_click (init None None))) (Tick 0) = None"
proof -
  have "only_current_runs (start_click (init None None))" by (rule start_click_only_current [OF init_only_current])
  moreover have "pending (start_click (init None None)) = []"
    by (simp add: start_click_def Let_def init_def render_exercise_def load_progress_def empty_session_def
        update_timer_display_def cur_ex_def routine_def timer_call_def set_clock_def timer_start_def
        cur_timer_def new_countdown_def js_secs_def)
  ultimately show ?thesis using pause_quiesces by blast
qed

end
