(* ===== verification/Defects.thy ===== *)
theory Defects
  imports Timer_Ownership
begin

section \<open>Traces that exhibit defects of the session handlers\<close>

text \<open>
  Concrete runs of the event model, all starting on the chin-tuck exercise
  (\<open>chin_tucks_start\<close>: start-up with the stored index 1, 10 reps of 5 s holds). A
  5 s hold is 51 ticks (\<open>countdown_len_five\<close>). Each theorem shows one
  event order a user can produce by clicking within the 400 ms restart delay, or at
  any time for the progress reset, and its effect: a deferred \<^verbatim>\<open>setTimeout\<close>
  restart that no handler cancels, and a countdown that \<^verbatim>\<open>Reset all progress\<close>
  leaves running.
\<close>

definition chin_tucks_start :: session where
  "chin_tucks_start = init (Some \<lparr>p_completed = None, p_index = Some 1\<rparr>) None"

lemma chin_tucks_start_fields:
  "currentIndex chin_tucks_start = 1" "timer chin_tucks_start = 0"
  "timers chin_tucks_start = [\<lparr>clock = new_countdown, ex_at = 1\<rparr>]"
  "\<not> holdLoopActive chin_tucks_start" "pending chin_tucks_start = []" "repsDone chin_tucks_start = 0"
  "setsDone chin_tucks_start = 0"
  by (simp_all add: chin_tucks_start_def init_def render_exercise_def load_progress_def empty_session_def
      clamp_index_def update_timer_display_def)

lemma chin_tucks_ex:
  "mode (routine ! Suc 0) = HoldReps" "reps (targets (routine ! Suc 0)) = Some 10"
  "holdSec (targets (routine ! Suc 0)) = Some 5"
  "mode (routine ! 2) = HoldSets" "sets (targets (routine ! 2)) = Some 3"
  "holdSec (targets (routine ! 2)) = Some 30" "mode (routine ! 0) = Timer"
  by (simp_all add: routine_def no_targets_def)

lemma fire_single:
  "pending s = [(d, Some v)] \<Longrightarrow>
     run s [Fire 0] = Some (update_timer_display v (set_clock (timer s) (running v) (s\<lparr>pending := []\<rparr>)))"
  by (simp add: fire_pending_def timer_call_start_Some)

lemma fire_pending_single:
  "pending s = [(d, Some v)] \<Longrightarrow>
     fire_pending 0 s = update_timer_display v (set_clock (timer s) (running v) (s\<lparr>pending := []\<rparr>))"
  by (simp add: fire_pending_def timer_call_start_Some)

lemma chin_tucks_started:
  "loop_ready 0 (js_of_nat 5) (start_click chin_tucks_start)"
  "timers (start_click chin_tucks_start) = [\<lparr>clock = running (js_of_nat 5), ex_at = 1\<rparr>]"
  "repsDone (start_click chin_tucks_start) = 0" "currentIndex (start_click chin_tucks_start) = 1"
  "holdLoopActive (start_click chin_tucks_start)" "timer (start_click chin_tucks_start) = 0"
proof -
  let ?s = chin_tucks_start
  have ok: "session_ok ?s" by (simp add: chin_tucks_start_def init_ok)
  have ex: "mode (cur_ex ?s) = HoldReps" "reps (targets (cur_ex ?s)) = Some 10"
    "js_secs (holdSec (targets (cur_ex ?s))) = Some (js_of_nat 5)"
    by (simp_all add: cur_ex_def chin_tucks_start_fields routine_def no_targets_def js_secs_def)
  show s1: "loop_ready 0 (js_of_nat 5) (start_click ?s)" "repsDone (start_click ?s) = 0"
    "currentIndex (start_click ?s) = 1"
    using start_loop [OF ok, where k = RepsLoop and n = 10] ex chin_tucks_start_fields by auto
  then show "timers (start_click ?s) = [\<lparr>clock = running (js_of_nat 5), ex_at = 1\<rparr>]"
    "holdLoopActive (start_click ?s)" "timer (start_click ?s) = 0"
    using chin_tucks_start_fields
    by (auto simp: loop_ready_def start_click_def Let_def cur_ex_def chin_tucks_ex timer_call_start_Some
        js_secs_def update_timer_display_def set_clock_def new_countdown_def)
qed

text \<open>The state in the gap after the first chin tuck: the hold has ended, one rep is
  counted, the restart waits 400 ms, the loop is still on.\<close>

lemma first_hold_gap:
  "\<exists>g. run chin_tucks_start (Start # replicate 51 (Tick 0)) = Some g \<and>
       currentIndex g = 1 \<and> timer g = 0 \<and> timers g = [\<lparr>clock = stopped, ex_at = 1\<rparr>] \<and>
       holdLoopActive g \<and> repsDone g = 1 \<and> pending g = [(400, Some (js_of_nat 5))]"
proof -
  let ?s1 = "start_click chin_tucks_start"
  have "run ?s1 (replicate 51 (Tick 0)) = Some
          ((beep 200 900 (beep 180 1200 ((set_clock 0 stopped ?s1)\<lparr>display := 0\<rparr>)))
             \<lparr>repsDone := 1, rep_text := digits 1, pending := [(400, Some (js_of_nat 5))]\<rparr>)"
    using loop_tick_phase [OF chin_tucks_started(1) _ _ countdown_len_five, where k = RepsLoop and n = 10]
      chin_tucks_started chin_tucks_ex
    by (simp add: js_secs_def)
  then show ?thesis
    using chin_tucks_started by (auto simp: beep_def set_clock_def)
qed

text \<open>
  C9. A Pause pressed in the 400 ms gap between two chin tucks clears the loop flag but
  does not cancel the deferred restart: when it fires, the 5 second countdown runs
  again although the user paused and no rep will be counted.
\<close>

theorem pause_in_gap_restarts:
  "\<exists>s'. run chin_tucks_start (Start # replicate 51 (Tick 0) @ [Pause, Fire 0]) = Some s' \<and>
        \<not> holdLoopActive s' \<and> repsDone s' = 1 \<and> cur_timer s' = running (js_of_nat 5)"
proof -
  obtain g where g: "run chin_tucks_start (Start # replicate 51 (Tick 0)) = Some g"
    "timer g = 0" "timers g = [\<lparr>clock = stopped, ex_at = 1\<rparr>]" "repsDone g = 1"
    "pending g = [(400, Some (js_of_nat 5))]"
    using first_hold_gap by blast
  let ?g1 = "pause_click g"
  have g1: "timer ?g1 = 0" "pending ?g1 = [(400, Some (js_of_nat 5))]" "\<not> holdLoopActive ?g1"
    "repsDone ?g1 = 1" "length (timers ?g1) = 1"
    using g by (simp_all add: pause_click_def set_clock_def cur_timer_def timer_pause_def)
  have "run g [Pause, Fire 0] = run ?g1 [Fire 0]" by simp
  also have "\<dots> = Some (update_timer_display (js_of_nat 5) (set_clock 0 (running (js_of_nat 5)) (?g1\<lparr>pending := []\<rparr>)))"
    using fire_single [OF g1(2)] g1(1) by simp
  finally show ?thesis
    using g(1) g1 by (simp add: run_append cur_timer_def update_timer_display_def set_clock_def)
qed

text \<open>
  C8. A chin-tuck restart that is pending when the user moves on (Next) and starts the
  next exercise fires into the new exercise's timer: the levator stretch, whose hold is
  30 seconds, runs a 5 second hold with its loop on.
\<close>

theorem stale_restart_after_switch:
  "\<exists>s'. run chin_tucks_start (Start # replicate 51 (Tick 0) @ [Next, Start, Fire 0]) = Some s' \<and>
        currentIndex s' = 2 \<and> holdSec (targets (cur_ex s')) = Some 30 \<and> holdLoopActive s' \<and>
        cur_timer s' = running (js_of_nat 5)"
proof -
  obtain g where g: "run chin_tucks_start (Start # replicate 51 (Tick 0)) = Some g"
    "currentIndex g = 1" "timer g = 0" "timers g = [\<lparr>clock = stopped, ex_at = 1\<rparr>]" "repsDone g = 1"
    "pending g = [(400, Some (js_of_nat 5))]"
    using first_hold_gap by blast
  let ?g1 = "select_index 2 g"
  have g1: "currentIndex ?g1 = 2" "timer ?g1 = 1" "\<not> holdLoopActive ?g1" "setsDone ?g1 = 0"
    "pending ?g1 = [(400, Some (js_of_nat 5))]" "length (timers ?g1) = 2"
    using g by (simp_all add: select_index_def render_exercise_def cleanup_timers_def update_timer_display_def
        set_clock_def)
  let ?g2 = "start_click ?g1"
  have g2: "currentIndex ?g2 = 2" "timer ?g2 = 1" "holdLoopActive ?g2"
    "pending ?g2 = [(400, Some (js_of_nat 5))]" "length (timers ?g2) = 2"
    using g1 by (simp_all add: start_click_def cur_ex_def Let_def chin_tucks_ex timer_call_start_Some
        update_timer_display_def set_clock_def js_secs_def)
  have "next_click g = ?g1" using g(2) by (simp add: next_click_def numeral_2_eq_2)
  then have "run g [Next, Start, Fire 0] = run ?g2 [Fire 0]" by simp
  also have "\<dots> = Some (update_timer_display (js_of_nat 5) (set_clock 1 (running (js_of_nat 5)) (?g2\<lparr>pending := []\<rparr>)))"
    using fire_single [OF g2(4)] g2(2) by simp
  finally show ?thesis
    using g g2 by (simp add: run_append cur_ex_def chin_tucks_ex cur_timer_def update_timer_display_def
        set_clock_def)
qed

text \<open>
  C7. ``Reset all progress'' during a chin tuck does not cancel the running countdown:
  right after it two countdowns are live, and when the orphaned one ends, its
  \<^verbatim>\<open>onDone\<close> closure (still for chin tucks, with the loop flag never cleared) counts
  a rep on the new current exercise, the posture timer, and its restart starts that
  exercise's timer with the 5 second chin-tuck hold.
\<close>

theorem reset_progress_orphan_countdown:
  "\<exists>s1 s'. run chin_tucks_start [Start, ResetProgress True] = Some s1 \<and> \<not> only_current_runs s1 \<and>
           run s1 (replicate 51 (Tick 0) @ [Fire 0]) = Some s' \<and>
           currentIndex s' = 0 \<and> mode (cur_ex s') = Timer \<and> repsDone s' = 1 \<and> holdLoopActive s' \<and>
           cur_timer s' = running (js_of_nat 5)"
proof -
  let ?s1 = "reset_progress_click True (start_click chin_tucks_start)"
  have s1: "timers ?s1 = [\<lparr>clock = running (js_of_nat 5), ex_at = 1\<rparr>, \<lparr>clock = new_countdown, ex_at = 0\<rparr>]"
    "timer ?s1 = 1" "currentIndex ?s1 = 0" "holdLoopActive ?s1" "repsDone ?s1 = 0" "pending ?s1 = []"
    using chin_tucks_started loop_ready_def [of 0 "js_of_nat 5" "start_click chin_tucks_start"]
    by (simp_all add: reset_progress_click_def render_exercise_def update_timer_display_def)
  have run1: "run chin_tucks_start [Start, ResetProgress True] = Some ?s1" by simp
  have two: "\<not> only_current_runs ?s1" using s1 by (auto simp: only_current_runs_def)
  let ?s2 = "on_done 1 (update_timer_display 0 (set_clock 0 stopped ?s1))"
  have ticks: "run ?s1 (replicate 51 (Tick 0)) = Some ?s2"
    using run_ticks [of 0 ?s1 "js_of_nat 5" 51] s1 countdown_len_five by simp
  have s2: "pending ?s2 = [(400, Some (js_of_nat 5))]" "repsDone ?s2 = 1" "holdLoopActive ?s2"
    "timer ?s2 = 1" "currentIndex ?s2 = 0"
    using s1 chin_tucks_ex
    by (simp_all add: on_done_def Let_def beep_def update_timer_display_def set_clock_def js_secs_def)
  have "run ?s1 (replicate 51 (Tick 0) @ [Fire 0]) = Option.bind (run ?s1 (replicate 51 (Tick 0))) (\<lambda>s. run s [Fire 0])"
    by (rule run_append)
  also have "\<dots> = run ?s2 [Fire 0]" using ticks by simp
  also have "\<dots> = Some (update_timer_display (js_of_nat 5) (set_clock 1 (running (js_of_nat 5)) (?s2\<lparr>pending := []\<rparr>)))"
    using fire_single [OF s2(1)] s2(4) by simp
  finally have "run ?s1 (replicate 51 (Tick 0) @ [Fire 0]) =
      Some (update_timer_display (js_of_nat 5) (set_clock 1 (running (js_of_nat 5)) (?s2\<lparr>pending := []\<rparr>)))" .
  moreover have "length (timers ?s2) = 2" using s1 by (simp add: set_clock_def update_timer_display_def)
  ultimately show ?thesis
    using run1 two s2 by (auto simp: cur_ex_def chin_tucks_ex cur_timer_def update_timer_display_def set_clock_def)
qed

text \<open>
  C29. Reset pressed in the 400 ms gap between two chin tucks stops the timer at 0 and
  clears the loop flag, but the deferred restart still fires and runs the 5 second
  countdown again, although the spec requires a reset to cancel it.
\<close>

theorem reset_in_gap_restarts:
  "\<exists>s'. run chin_tucks_start (Start # replicate 51 (Tick 0) @ [Reset, Fire 0]) = Some s' \<and>
        \<not> holdLoopActive s' \<and> repsDone s' = 1 \<and> cur_timer s' = running (js_of_nat 5)"
proof -
  obtain g where g: "run chin_tucks_start (Start # replicate 51 (Tick 0)) = Some g"
    "timer g = 0" "timers g = [\<lparr>clock = stopped, ex_at = 1\<rparr>]" "repsDone g = 1"
    "pending g = [(400, Some (js_of_nat 5))]"
    using first_hold_gap by blast
  let ?g1 = "reset_click g"
  have g1: "timer ?g1 = 0" "pending ?g1 = [(400, Some (js_of_nat 5))]" "\<not> holdLoopActive ?g1"
    "repsDone ?g1 = 1" "length (timers ?g1) = 1"
    using g by (simp_all add: reset_click_def timer_call_def set_clock_def timer_reset_def timer_pause_def
        update_timer_display_def)
  have "run g [Reset, Fire 0] = run ?g1 [Fire 0]" by simp
  also have "\<dots> = Some (update_timer_display (js_of_nat 5) (set_clock 0 (running (js_of_nat 5)) (?g1\<lparr>pending := []\<rparr>)))"
    using fire_single [OF g1(2)] g1(1) by simp
  finally show ?thesis
    using g(1) g1 by (simp add: run_append cur_timer_def update_timer_display_def set_clock_def)
qed

end
