(* ===== verification/Navigation.thy ===== *)
theory Navigation
  imports Session
begin

section \<open>Handler contracts: navigation, completion, timer controls, persistence, theme\<close>

text \<open>
  The functional behaviour of the click handlers of \<^verbatim>\<open>script.js\<close> (lines 332--393)
  and of start-up (lines 396--401) on states that satisfy the session invariant
  \<open>session_ok\<close>: what Mark complete, Start, Reset and the theme toggle do to the state,
  and that a page reload after any handler restores the saved progress and theme.
\<close>

lemma select_index_keeps_completed [simp]: "completed (select_index i s) = completed s"
  by (simp add: select_index_def save_progress_def render_exercise_def cleanup_timers_def
      update_timer_display_def set_clock_def)

lemma select_index_index [simp]: "currentIndex (select_index i s) = i"
  by (simp add: select_index_def save_progress_def render_exercise_def cleanup_timers_def
      update_timer_display_def set_clock_def)

lemma select_index_saved [simp]:
  "saved (select_index i s) = Some \<lparr>p_completed = Some (completed s), p_index = Some (int i)\<rparr>"
  by (simp add: select_index_def save_progress_def render_exercise_def cleanup_timers_def
      update_timer_display_def set_clock_def)

lemma complete_click_cases:
  "complete_click s =
     (let s1 = save_progress (render_list (beep 100 900 (beep 100 1200
                 (s\<lparr>completed := js_set_add (completed s) (ex_id (cur_ex s))\<rparr>))))
      in if currentIndex s < n_steps - 1 then select_index (Suc (currentIndex s)) s1 else s1)"
  by (simp add: complete_click_def Let_def save_progress_def beep_def)

lemma complete_click_completed [simp]:
  "completed (complete_click s) = js_set_add (completed s) (ex_id (cur_ex s))"
  by (simp add: complete_click_cases Let_def save_progress_def beep_def)

lemma complete_click_index:
  "currentIndex s < n_steps \<Longrightarrow> currentIndex (complete_click s) = min (Suc (currentIndex s)) (n_steps - 1)"
  by (simp add: complete_click_cases Let_def save_progress_def beep_def)

lemma complete_click_saved:
  "saved (complete_click s) =
     Some \<lparr>p_completed = Some (completed (complete_click s)), p_index = Some (int (currentIndex (complete_click s)))\<rparr>"
  by (simp add: complete_click_cases Let_def save_progress_def beep_def)

lemma session_ok_index: "session_ok s \<Longrightarrow> currentIndex s < n_steps"
  by (simp add: session_ok_def)

text \<open>
  C10. Mark complete on an exercise adds its id to the completed set (once: the set
  stays free of duplicates), moves on to the next exercise unless the current one is
  the last, and saves the new completed set with the index it moved to.
\<close>

theorem complete_click_marks:
  assumes "session_ok s"
  shows "set (completed (complete_click s)) = insert (ex_id (cur_ex s)) (set (completed s)) \<and>
         distinct (completed (complete_click s)) \<and>
         currentIndex (complete_click s) = min (Suc (currentIndex s)) (n_steps - 1) \<and>
         saved (complete_click s) =
           Some \<lparr>p_completed = Some (completed (complete_click s)),
                 p_index = Some (int (currentIndex (complete_click s)))\<rparr>"
  using assms by (simp add: complete_click_index session_ok_index complete_click_saved session_ok_def)

theorem complete_click_marks_witness:
  "set (completed (complete_click (init None None))) = {''posture-breath''} \<and>
   currentIndex (complete_click (init None None)) = 1"
  using complete_click_marks [OF init_ok [of None None]]
  by (simp add: init_def render_exercise_def load_progress_def empty_session_def update_timer_display_def
      cur_ex_def routine_def)

text \<open>
  C11. Completing an exercise, going back to it and completing it again leaves the
  completed set as the first completion left it.
\<close>

theorem complete_twice_idempotent:
  assumes "currentIndex s < n_steps - 1"
  shows "completed (complete_click (prev_click (complete_click s))) = completed (complete_click s)"
proof -
  have i: "currentIndex (complete_click s) = Suc (currentIndex s)"
    using assms by (simp add: complete_click_index)
  then have p: "prev_click (complete_click s) = select_index (currentIndex s) (complete_click s)"
    by (simp add: prev_click_def)
  have "ex_id (cur_ex (prev_click (complete_click s))) \<in> set (completed (complete_click s))"
    using p by (simp add: cur_ex_def)
  then show ?thesis using p by simp
qed

theorem complete_twice_idempotent_witness:
  "completed (complete_click (prev_click (complete_click (init None None)))) = [''posture-breath'']"
proof -
  have "currentIndex (init None None) < n_steps - 1"
    by (simp add: init_def render_exercise_def load_progress_def empty_session_def update_timer_display_def)
  then have "completed (complete_click (prev_click (complete_click (init None None)))) =
             completed (complete_click (init None None))"
    by (rule complete_twice_idempotent)
  then show ?thesis
    by (simp add: init_def render_exercise_def load_progress_def empty_session_def update_timer_display_def
        cur_ex_def routine_def js_set_add_def)
qed

lemma init_progress:
  "distinct xs \<Longrightarrow> i < n_steps \<Longrightarrow>
     completed (init (Some \<lparr>p_completed = Some xs, p_index = Some (int i)\<rparr>) th) = xs \<and>
     currentIndex (init (Some \<lparr>p_completed = Some xs, p_index = Some (int i)\<rparr>) th) = i"
  by (simp add: init_def render_exercise_def load_progress_def empty_session_def update_timer_display_def
      clamp_index_id)

text \<open>
  C12. Reload round trip: after any handler that saves (\<^verbatim>\<open>saveProgress\<close>), a page
  reload that reads the stored progress back (\<^verbatim>\<open>loadProgress\<close> in \<^verbatim>\<open>init\<close>)
  restores the completed set, in its order, and the current exercise.
\<close>

theorem reload_restores_progress:
  assumes "session_ok s"
  shows "completed (init (saved (save_progress s)) th) = completed s \<and>
         currentIndex (init (saved (save_progress s)) th) = currentIndex s"
  using assms init_progress [of "completed s" "currentIndex s" th]
  by (simp add: save_progress_def session_ok_def)

theorem reload_restores_progress_witness:
  "completed (init (saved (save_progress (init (Some \<lparr>p_completed = Some [''chin-tucks''], p_index = Some 1\<rparr>) None))) None) = [''chin-tucks''] \<and>
   currentIndex (init (saved (save_progress (init (Some \<lparr>p_completed = Some [''chin-tucks''], p_index = Some 1\<rparr>) None))) None) = 1"
  using reload_restores_progress [OF init_ok [of "Some \<lparr>p_completed = Some [''chin-tucks''], p_index = Some 1\<rparr>" None], of None]
    init_progress [of "[''chin-tucks'']" 1 None]
  by simp

text \<open>
  C13. Start on a timed exercise resumes a paused countdown from what remains, and
  otherwise starts it from the exercise's duration; the display shows that value at
  once, and the counters, the loop flag and the current exercise do not change.
\<close>

theorem start_timer_mode:
  assumes "session_ok s" and "mode (cur_ex s) = Timer" and "durationSec (targets (cur_ex s)) = Some d"
  defines "v \<equiv> (if 0 < remaining (cur_timer s) then remaining (cur_timer s) else js_of_nat d)"
  shows "cur_timer (start_click s) = running v \<and> display (start_click s) = v \<and>
         repsDone (start_click s) = repsDone s \<and> setsDone (start_click s) = setsDone s \<and>
         holdLoopActive (start_click s) = holdLoopActive s \<and> currentIndex (start_click s) = currentIndex s"
proof -
  have "start_click s = update_timer_display v (set_clock (timer s) (running v) s)"
    using assms by (simp add: start_click_def Let_def js_secs_def timer_call_start_Some cur_timer_def)
  moreover have "timer s < length (timers s)" using assms(1) by (simp add: session_ok_def)
  ultimately show ?thesis by (simp add: cur_timer_def update_timer_display_def)
qed

theorem start_timer_mode_witness:
  "cur_timer (start_click (init None None)) = running (js_of_nat 120) \<and> display (start_click (init None None)) = js_of_nat 120"
proof -
  have ex: "mode (cur_ex (init None None)) = Timer" "durationSec (targets (cur_ex (init None None))) = Some 120"
    "remaining (cur_timer (init None None)) = 0"
    by (simp_all add: init_def render_exercise_def load_progress_def empty_session_def update_timer_display_def
        cur_ex_def cur_timer_def routine_def no_targets_def new_countdown_def)
  show ?thesis using start_timer_mode [OF init_ok ex(1,2)] ex(3) by simp
qed

text \<open>
  C14. Reset stops the current countdown and sets what remains to 0, shows 0 and turns
  the hold loop off; it keeps the counters, the current exercise, the completed set and
  every other timer object.
\<close>

theorem reset_click_stops:
  assumes "session_ok s"
  shows "cur_timer (reset_click s) = stopped \<and> display (reset_click s) = 0 \<and> \<not> holdLoopActive (reset_click s) \<and>
         repsDone (reset_click s) = repsDone s \<and> setsDone (reset_click s) = setsDone s \<and>
         currentIndex (reset_click s) = currentIndex s \<and> completed (reset_click s) = completed s \<and>
         (\<forall>j. j \<noteq> timer s \<longrightarrow> timers (reset_click s) ! j = timers s ! j)"
proof -
  have "timer s < length (timers s)" using assms by (simp add: session_ok_def)
  then show ?thesis
    by (simp add: reset_click_def timer_call_def timer_reset_def timer_pause_def cur_timer_def
        update_timer_display_def set_clock_def)
qed

theorem reset_click_stops_witness:
  "cur_timer (reset_click (start_click (init None None))) = stopped"
  using reset_click_stops [OF start_click_ok [OF init_ok [of None None]]] by simp

text \<open>
  C15. The theme toggle flips the page between light and dark mode and stores the new
  theme, so that a reload starts in it, and two toggles restore a light or dark theme.
\<close>

theorem theme_roundtrip:
  "light_mode (toggle_theme s) = (\<not> light_mode s) \<and>
   theme (init p (saved_theme (toggle_theme s))) = theme (toggle_theme s) \<and>
   (theme s \<in> {''light'', ''dark''} \<longrightarrow> theme (toggle_theme (toggle_theme s)) = theme s)"
  by (auto simp: toggle_theme_def light_mode_def Let_def init_def render_exercise_def load_progress_def
      empty_session_def update_timer_display_def initial_theme_def split: option.splits)

theorem theme_roundtrip_witness:
  "theme (toggle_theme (toggle_theme (init None None))) = ''dark'' \<and> light_mode (toggle_theme (init None None))"
proof -
  have d: "theme (init None None) = ''dark''" "\<not> light_mode (init None None)"
    by (simp_all add: init_def render_exercise_def load_progress_def empty_session_def update_timer_display_def
        initial_theme_def light_mode_def)
  show ?thesis using theme_roundtrip [of "init None None" None] d by simp
qed

text \<open>
  C16. Start on a hold-sets exercise when its loop is off turns the loop on, sets the set
  counter back to 0 if it had reached the target (and keeps it otherwise), and starts
  the current countdown at the hold time. While the loop is on, Start does nothing.
\<close>

theorem start_hold_sets:
  assumes "session_ok s" and "mode (cur_ex s) = HoldSets" and "sets (targets (cur_ex s)) = Some n"
    and "holdSec (targets (cur_ex s)) = Some h"
  shows "(\<not> holdLoopActive s \<longrightarrow>
            holdLoopActive (start_click s) \<and> cur_timer (start_click s) = running (js_of_nat h) \<and>
            setsDone (start_click s) = (if n \<le> setsDone s then 0 else setsDone s) \<and>
            repsDone (start_click s) = repsDone s \<and> currentIndex (start_click s) = currentIndex s) \<and>
         (holdLoopActive s \<longrightarrow> start_click s = s)"
proof -
  have "timer s < length (timers s)" using assms(1) by (simp add: session_ok_def)
  then show ?thesis
    using assms(2-4)
    by (simp add: start_click_def Let_def js_secs_def timer_call_start_Some cur_timer_def
        update_timer_display_def set_clock_def)
qed

theorem start_hold_sets_witness:
  "holdLoopActive (start_click (select_index 2 (init None None))) \<and>
   cur_timer (start_click (select_index 2 (init None None))) = running (js_of_nat 30)"
proof -
  let ?s = "select_index 2 (init None None)"
  have ok: "session_ok ?s" using select_index_ok [OF init_ok] by simp
  have ex: "mode (cur_ex ?s) = HoldSets" "sets (targets (cur_ex ?s)) = Some 3"
    "holdSec (targets (cur_ex ?s)) = Some 30" "\<not> holdLoopActive ?s"
    by (simp_all add: cur_ex_def routine_def no_targets_def select_index_def save_progress_def
        render_exercise_def update_timer_display_def cleanup_timers_def set_clock_def)
  show ?thesis using start_hold_sets [OF ok ex(1-3)] ex(4) by simp
qed

lemma complete_rest_induct:
  assumes "session_ok s" and "currentIndex s + m = n_steps - 1"
  shows "\<exists>s'. run s (replicate (Suc m) Complete) = Some s' \<and> session_ok s' \<and>
              currentIndex s' = n_steps - 1 \<and>
              set (completed s') = set (completed s) \<union> ex_id ` set (drop (currentIndex s) routine)"
  using assms
proof (induction m arbitrary: s)
  case 0
  then have i: "currentIndex s = 8" by simp
  have "drop 8 routine = [routine ! 8]" by (simp add: routine_def)
  then show ?case using 0 i complete_click_index [of s] complete_click_ok [OF 0(1)]
    by (auto simp: cur_ex_def)
next
  case (Suc m)
  let ?s1 = "complete_click s"
  have i: "currentIndex s < n_steps - 1" using Suc.prems(2) by simp
  then have i1: "currentIndex ?s1 = Suc (currentIndex s)" by (simp add: complete_click_index)
  have ok1: "session_ok ?s1" by (rule complete_click_ok [OF Suc.prems(1)])
  obtain s' where s': "run ?s1 (replicate (Suc m) Complete) = Some s'" "session_ok s'"
    "currentIndex s' = n_steps - 1"
    "set (completed s') = set (completed ?s1) \<union> ex_id ` set (drop (currentIndex ?s1) routine)"
    using Suc.IH [OF ok1] i1 Suc.prems(2) by auto
  have d: "drop (currentIndex s) routine = routine ! currentIndex s # drop (Suc (currentIndex s)) routine"
    using i by (simp add: Cons_nth_drop_Suc)
  have "run s (replicate (Suc (Suc m)) Complete) = Some s'" using s'(1) by simp
  then show ?case using s' i1 d by (auto simp: cur_ex_def)
qed

text \<open>
  C27. Marking the rest of the routine complete: from any state satisfying the invariant,
  pressing Mark complete once per remaining exercise ends on the last exercise with
  every exercise from the current one on in the completed set, and nothing else added.
\<close>

theorem complete_rest:
  assumes "session_ok s"
  shows "\<exists>s'. run s (replicate (n_steps - currentIndex s) Complete) = Some s' \<and>
              currentIndex s' = n_steps - 1 \<and>
              set (completed s') = set (completed s) \<union> ex_id ` set (drop (currentIndex s) routine)"
proof -
  have i: "currentIndex s < n_steps" using assms by (simp add: session_ok_def)
  then have "n_steps - currentIndex s = Suc (n_steps - 1 - currentIndex s)" by simp
  then show ?thesis using complete_rest_induct [OF assms, of "n_steps - 1 - currentIndex s"] i by auto
qed

theorem complete_rest_witness:
  "\<exists>s'. run (init None None) (replicate 9 Complete) = Some s' \<and> currentIndex s' = 8 \<and>
        set (completed s') = ex_id ` set routine"
proof -
  have i: "currentIndex (init None None) = 0" "completed (init None None) = []"
    by (simp_all add: init_def render_exercise_def load_progress_def empty_session_def update_timer_display_def)
  show ?thesis using complete_rest [OF init_ok [of None None]] i by simp
qed

end
