(* ===== verification/Stored_Progress.thy ===== *)
theory Stored_Progress
  imports Navigation
begin

section \<open>The stored progress as JSON\<close>

text \<open>
  \<^verbatim>\<open>loadProgress\<close> (\<^verbatim>\<open>script.js\<close>, lines 238--243) at the level of the parsed JSON
  value, and what \<^verbatim>\<open>init\<close> does with it. The text of \<^verbatim>\<open>localStorage\<close> and
  \<^verbatim>\<open>JSON.parse\<close>/\<^verbatim>\<open>JSON.stringify\<close> are library code: the model starts from the
  value \<^verbatim>\<open>JSON.parse\<close> returns (\<open>Some v\<close>, with \<open>JObj []\<close> for a missing key, which
  the code replaces by \<^verbatim>\<open>'{}'\<close>) or its exception (\<open>None\<close>). A JSON number is the
  double it parses to, kept as a rational.
  \<^item> \<open>js_get\<close>: a property read. On \<^verbatim>\<open>null\<close> it throws a \<^verbatim>\<open>TypeError\<close>; on an
    object it finds the last binding of the key, as \<^verbatim>\<open>JSON.parse\<close> keeps the last of
    duplicate keys; on any other value the two keys read are \<^verbatim>\<open>undefined\<close>.
  \<^item> \<open>load_json\<close>: the body of the \<^verbatim>\<open>try\<close>, one assignment after the other; an
    exception abandons the rest and is swallowed by \<^verbatim>\<open>catch {}\<close>, keeping the
    assignments already made.
  \<^item> \<open>init_json\<close>: \<^verbatim>\<open>init\<close> with that loader. \<^verbatim>\<open>renderExercise\<close> reads
    \<^verbatim>\<open>routine[state.currentIndex]\<close>, which is \<^verbatim>\<open>undefined\<close> for an index that is
    not an integer, and \<^verbatim>\<open>ex.category\<close> then throws: the result is \<open>Inl TypeError\<close>.
  The session keeps the string members of \<^verbatim>\<open>state.completed\<close> in insertion order
  (\<open>js_str_members\<close>): only they can equal an exercise id. The code also keeps any
  other member, which no step ever matches.
\<close>

datatype jsval = JNull | JBool bool | JNum rat | JStr string | JArr "jsval list" | JObj "(string \<times> jsval) list"

fun js_get :: "jsval \<Rightarrow> string \<Rightarrow> js_error + jsval option" where
  "js_get JNull k = Inl TypeError"
| "js_get (JObj kvs) k = Inr (map_of (rev kvs) k)"
| "js_get v k = Inr None"

record loaded =
  l_completed :: "jsval list"
  l_index :: rat

definition js_clamp_index :: "rat \<Rightarrow> rat" where
  "js_clamp_index x = min (max 0 x) (of_nat n_steps - 1)"

definition load_json :: "jsval option \<Rightarrow> loaded \<Rightarrow> loaded" where
  "load_json raw l =
     (case raw of
        None \<Rightarrow> l
      | Some v \<Rightarrow>
          (case js_get v ''completed'' of
             Inl _ \<Rightarrow> l
           | Inr c \<Rightarrow>
               let l1 = (case c of Some (JArr xs) \<Rightarrow> l\<lparr>l_completed := xs\<rparr> | _ \<Rightarrow> l)
               in (case js_get v ''currentIndex'' of
                     Inr (Some (JNum x)) \<Rightarrow> l1\<lparr>l_index := js_clamp_index x\<rparr>
                   | _ \<Rightarrow> l1)))"

definition js_str_members :: "jsval list \<Rightarrow> string list" where
  "js_str_members xs = concat (map (\<lambda>v. case v of JStr s \<Rightarrow> [s] | _ \<Rightarrow> []) xs)"

definition js_routine_index :: "rat \<Rightarrow> nat option" where
  "js_routine_index x =
     (if of_int (floor x) = x \<and> 0 \<le> x \<and> x < of_nat n_steps then Some (nat (floor x)) else None)"

text \<open>The abstract view of the stored item that the session keeps in \<open>saved\<close>.\<close>

definition abs_progress :: "jsval option \<Rightarrow> progress option" where
  "abs_progress raw =
     (case raw of
        None \<Rightarrow> None
      | Some v \<Rightarrow>
          (case js_get v ''completed'' of
             Inl _ \<Rightarrow> None
           | Inr c \<Rightarrow>
               Some \<lparr>p_completed = (case c of Some (JArr xs) \<Rightarrow> Some (js_str_members xs) | _ \<Rightarrow> None),
                     p_index = (case js_get v ''currentIndex'' of Inr (Some (JNum x)) \<Rightarrow> Some (floor x) | _ \<Rightarrow> None)\<rparr>))"

definition init_json :: "jsval option \<Rightarrow> string option \<Rightarrow> js_error + session" where
  "init_json raw th =
     (let l = load_json raw \<lparr>l_completed = [], l_index = 0\<rparr>
      in case js_routine_index (l_index l) of
           None \<Rightarrow> Inl TypeError
         | Some i \<Rightarrow>
             Inr (render_exercise (render_list ((empty_session (abs_progress raw) th)
                    \<lparr>completed := js_set_of (js_str_members (l_completed l)), currentIndex := i\<rparr>))))"

text \<open>The object \<^verbatim>\<open>saveProgress\<close> (lines 245--250) passes to \<^verbatim>\<open>JSON.stringify\<close>, as
  \<^verbatim>\<open>JSON.parse\<close> gives it back: the strings and the integer index survive the text.\<close>

definition save_json :: "session \<Rightarrow> jsval" where
  "save_json s =
     JObj [(''completed'', JArr (map JStr (completed s))), (''currentIndex'', JNum (of_nat (currentIndex s)))]"

definition stored_index_bad :: "jsval option \<Rightarrow> bool" where
  "stored_index_bad raw =
     (case raw of
        None \<Rightarrow> False
      | Some v \<Rightarrow> v \<noteq> JNull \<and>
          (case js_get v ''currentIndex'' of
             Inr (Some (JNum x)) \<Rightarrow> of_int (floor x) \<noteq> x \<and> 0 < x \<and> x < 8
           | _ \<Rightarrow> False))"

lemma js_get_Inl [simp]: "(js_get v k = Inl e) = (v = JNull)"
  by (cases v; cases e) simp_all

lemma js_get_JNull [simp]: "js_get JNull k = Inl TypeError"
  by simp

lemma js_routine_index_clamp:
  "js_routine_index (js_clamp_index x) =
     (if of_int (floor x) \<noteq> x \<and> 0 < x \<and> x < 8 then None else Some (clamp_index (floor x)))"
proof (cases "x \<le> 0")
  case True
  then have "floor x \<le> 0" by linarith
  with True show ?thesis by (simp add: js_routine_index_def js_clamp_index_def clamp_index_def)
next
  case False
  show ?thesis
  proof (cases "8 \<le> x")
    case True
    then have "8 \<le> floor x" by linarith
    with True show ?thesis by (simp add: js_routine_index_def js_clamp_index_def clamp_index_def)
  next
    case False
    with \<open>\<not> x \<le> 0\<close> have x: "0 < x" "x < 8" by simp_all
    then have "0 \<le> floor x" "floor x < 8" by linarith+
    with x show ?thesis by (auto simp: js_routine_index_def js_clamp_index_def clamp_index_def)
  qed
qed

lemma load_json_index:
  "l_index (load_json raw \<lparr>l_completed = [], l_index = 0\<rparr>) =
     (case raw of
        Some v \<Rightarrow> (case js_get v ''currentIndex'' of Inr (Some (JNum x)) \<Rightarrow> js_clamp_index x | _ \<Rightarrow> 0)
      | None \<Rightarrow> 0)"
  by (auto simp: load_json_def Let_def split: option.splits sum.splits jsval.splits)

lemma load_json_completed:
  "js_set_of (js_str_members (l_completed (load_json raw \<lparr>l_completed = [], l_index = 0\<rparr>))) =
     (case abs_progress raw of
        Some p \<Rightarrow> (case p_completed p of Some xs \<Rightarrow> js_set_of xs | None \<Rightarrow> [])
      | None \<Rightarrow> [])"
  by (auto simp: load_json_def abs_progress_def Let_def js_str_members_def js_set_of_def
      split: option.splits sum.splits jsval.splits)

lemma load_progress_empty:
  "load_progress (empty_session p th) =
     (empty_session p th)
       \<lparr>completed := (case p of Some q \<Rightarrow> (case p_completed q of Some xs \<Rightarrow> js_set_of xs | None \<Rightarrow> []) | None \<Rightarrow> []),
        currentIndex := (case p of Some q \<Rightarrow> (case p_index q of Some i \<Rightarrow> clamp_index i | None \<Rightarrow> 0) | None \<Rightarrow> 0)\<rparr>"
  by (auto simp: load_progress_def empty_session_def Let_def split: option.splits)

lemma abs_progress_index:
  "(case abs_progress raw of Some q \<Rightarrow> (case p_index q of Some i \<Rightarrow> clamp_index i | None \<Rightarrow> 0) | None \<Rightarrow> 0) =
     (case raw of
        Some v \<Rightarrow> (case js_get v ''currentIndex'' of Inr (Some (JNum x)) \<Rightarrow> clamp_index (floor x) | _ \<Rightarrow> 0)
      | None \<Rightarrow> 0)"
  by (auto simp: abs_progress_def clamp_index_def split: option.splits sum.splits jsval.splits)

lemma init_json_index:
  "js_routine_index (l_index (load_json raw \<lparr>l_completed = [], l_index = 0\<rparr>)) =
     (if stored_index_bad raw then None
      else Some (case raw of
        Some v \<Rightarrow> (case js_get v ''currentIndex'' of Inr (Some (JNum x)) \<Rightarrow> clamp_index (floor x) | _ \<Rightarrow> 0)
      | None \<Rightarrow> 0))"
  by (auto simp: load_json_index stored_index_bad_def js_routine_index_clamp
      split: option.splits sum.splits jsval.splits)
     (auto simp: js_routine_index_def)

lemma init_json_eq:
  "init_json raw th = (if stored_index_bad raw then Inl TypeError else Inr (init (abs_progress raw) th))"
  using init_json_index [of raw] load_json_completed [of raw] abs_progress_index [of raw]
  by (simp add: init_json_def init_def load_progress_empty Let_def)

lemma js_str_members_map [simp]: "js_str_members (map JStr xs) = xs"
  by (induction xs) (simp_all add: js_str_members_def)

lemma abs_progress_save:
  "abs_progress (Some (save_json s)) = saved (save_progress s)"
  by (simp add: abs_progress_def save_json_def save_progress_def)

lemma save_json_index_ok: "\<not> stored_index_bad (Some (save_json s))"
  by (simp add: stored_index_bad_def save_json_def)

text \<open>
  C20. Refinement of start-up: unless the stored index is a number strictly between 0
  and 8 that is not an integer, \<^verbatim>\<open>init\<close> with the JSON loader produces exactly the
  session that the abstract start-up \<open>init\<close> produces from the abstract view of the
  stored item: the same completed set and current index, hence the same state.
\<close>

theorem init_json_refines:
  assumes "\<not> stored_index_bad raw"
  shows "init_json raw th = Inr (init (abs_progress raw) th)"
  using assms by (simp add: init_json_eq)

theorem init_json_refines_witness:
  "init_json (Some (JObj [(''completed'', JArr [JStr ''chin-tucks'', JNum 3]), (''currentIndex'', JNum 2)])) None =
   Inr (init (Some \<lparr>p_completed = Some [''chin-tucks''], p_index = Some 2\<rparr>) None)"
proof -
  have "floor (2::rat) = 2" by simp
  then have "\<not> stored_index_bad (Some (JObj [(''completed'', JArr [JStr ''chin-tucks'', JNum 3]), (''currentIndex'', JNum 2)]))"
    by (simp add: stored_index_bad_def)
  from init_json_refines [OF this, of None] show ?thesis
    by (simp add: abs_progress_def js_str_members_def)
qed

text \<open>
  C21. A stored index that is a number strictly between 0 and 8 but not an integer
  (a corrupted or hand-edited item, say \<^verbatim>\<open>1.5\<close>) survives the clamping of
  \<^verbatim>\<open>loadProgress\<close>, and start-up then fails with a \<^verbatim>\<open>TypeError\<close>: the
  exercise \<^verbatim>\<open>routine[1.5]\<close> is \<^verbatim>\<open>undefined\<close>.
\<close>

theorem init_json_type_error:
  assumes "stored_index_bad raw"
  shows "init_json raw th = Inl TypeError"
  using assms by (simp add: init_json_eq)

theorem init_json_type_error_witness:
  "init_json (Some (JObj [(''currentIndex'', JNum (3 / 2))])) None = Inl TypeError"
proof -
  have "floor (3 / 2 :: rat) = 1" by (rule floor_unique) simp_all
  then have "stored_index_bad (Some (JObj [(''currentIndex'', JNum (3 / 2))]))"
    by (simp add: stored_index_bad_def)
  then show ?thesis by (rule init_json_type_error)
qed

text \<open>
  C22. JSON round trip of the progress: the object \<^verbatim>\<open>saveProgress\<close> stores is read
  by the JSON loader as the abstract progress the session model saves, and a start-up
  from it restores the completed set, in order, and the current exercise, without error.
\<close>

theorem json_roundtrip:
  assumes "session_ok s"
  shows "abs_progress (Some (save_json s)) = saved (save_progress s) \<and>
         (\<exists>s'. init_json (Some (save_json s)) th = Inr s' \<and>
               completed s' = completed s \<and> currentIndex s' = currentIndex s)"
proof -
  have "distinct (completed s)" "currentIndex s < n_steps" using assms by (simp_all add: session_ok_def)
  then have "completed (init (saved (save_progress s)) th) = completed s \<and>
             currentIndex (init (saved (save_progress s)) th) = currentIndex s"
    using init_progress [of "completed s" "currentIndex s" th] by (simp add: save_progress_def)
  then show ?thesis
    by (simp add: init_json_eq save_json_index_ok abs_progress_save)
qed

theorem json_roundtrip_witness:
  "\<exists>s'. init_json (Some (save_json (complete_click (init None None)))) None = Inr s' \<and>
        completed s' = [''posture-breath''] \<and> currentIndex s' = 1"
proof -
  have ok: "session_ok (complete_click (init None None))" by (rule complete_click_ok [OF init_ok])
  have "completed (complete_click (init None None)) = [''posture-breath'']"
    "currentIndex (complete_click (init None None)) = 1"
    by (simp_all add: complete_click_cases Let_def init_def render_exercise_def load_progress_def
        empty_session_def update_timer_display_def cur_ex_def routine_def js_set_add_def save_progress_def beep_def)
  with json_roundtrip [OF ok, of None] show ?thesis by auto
qed

end
