(* ===== verification/Hold_Sets.thy ===== *)
theory Hold_Sets
  imports Hold_Loops
begin

section \<open>The automatic hold-sets loop\<close>

text \<open>
  The hold-sets loop (\<^verbatim>\<open>script.js\<close>, lines 315--322 and 343--348): each hold that
  runs out counts a set and, below the target, schedules a restart 600 ms later. It is
  the loop of kind \<open>SetsLoop\<close> of theory \<open>Hold_Loops\<close>. Here the tick count of a
  hold is not given but taken from \<open>countdown_len_defined\<close>, so the theorem needs no
  evaluation of the countdown.
\<close>

lemma js_of_nat_len:
  assumes "h \<le> 2 ^ 49"
  shows "\<exists>N. countdown_len (js_of_nat h) = Some N"
proof -
  have "int h \<le> 2 ^ 49" using assms by (metis of_nat_le_iff of_nat_numeral of_nat_power)
  then have "int h * 2 ^ 56 \<le> 2 ^ 49 * (2 ^ 56 :: int)" by (rule mult_right_mono) simp
  also have "\<dots> = 2 ^ 105" by (simp only: power_add [symmetric]) simp
  finally have "js_of_nat h \<le> 2 ^ 105" by (simp only: js_of_nat_def)
  moreover have "0 \<le> js_of_nat h" by (simp add: js_of_nat_def)
  ultimately show ?thesis using countdown_len_defined by blast
qed

text \<open>
  C17. The automatic hold-sets loop completes: on a hold-sets exercise with a target of
  \<open>n\<close> sets and a hold of \<open>h\<close> seconds (up to \<open>2^49\<close>), the hold countdown lasts
  some number \<open>N\<close> of ticks, and pressing Start when no loop runs and the counter is 0
  or at its target, then letting each hold run out and each 600 ms restart fire, ends
  after \<open>n\<close> holds with the set counter at \<open>n\<close>, the loop flag cleared, nothing
  pending and the countdown stopped.
\<close>

theorem hold_sets_loop:
  assumes ok: "session_ok s"
    and ex: "mode (cur_ex s) = HoldSets" "sets (targets (cur_ex s)) = Some n" "0 < n"
      "holdSec (targets (cur_ex s)) = Some h" and h: "h \<le> 2 ^ 49"
    and idle: "\<not> holdLoopActive s" "pending s = []" and cnt: "setsDone s = 0 \<or> n \<le> setsDone s"
  shows "\<exists>N s'. countdown_len (js_of_nat h) = Some N \<and>
              run s (Start # concat (replicate (n - 1) (replicate N (Tick (timer s)) @ [Fire 0])) @
                      replicate N (Tick (timer s))) = Some s' \<and>
              setsDone s' = n \<and> \<not> holdLoopActive s' \<and> pending s' = [] \<and>
              \<not> interval (cur_timer s') \<and> currentIndex s' = currentIndex s"
proof -
  obtain N where len: "countdown_len (js_of_nat h) = Some N" using js_of_nat_len [OF h] by blast
  show ?thesis using hold_loop_run [of s SetsLoop n h N] assms len by auto
qed

theorem hold_sets_loop_witness:
  "let s = init (Some \<lparr>p_completed = None, p_index = Some 2\<rparr>) None in
   \<exists>N s'. countdown_len (js_of_nat 30) = Some N \<and>
     run s (Start # concat (replicate 2 (replicate N (Tick 0) @ [Fire 0])) @ replicate N (Tick 0)) = Some s' \<and>
     setsDone s' = 3 \<and> \<not> holdLoopActive s' \<and> pending s' = [] \<and> \<not> interval (cur_timer s') \<and> currentIndex s' = 2"
proof -
  let ?s = "init (Some \<lparr>p_completed = None, p_index = Some 2\<rparr>) None"
  have st: "currentIndex ?s = 2" "timer ?s = 0" "\<not> holdLoopActive ?s" "pending ?s = []" "setsDone ?s = 0"
    by (simp_all add: init_def render_exercise_def load_progress_def empty_session_def clamp_index_def
        update_timer_display_def)
  have h: "session_ok ?s" "mode (cur_ex ?s) = HoldSets" "sets (targets (cur_ex ?s)) = Some 3"
    "holdSec (targets (cur_ex ?s)) = Some 30"
    using init_ok st(1) by (simp_all add: cur_ex_def routine_def no_targets_def)
  show ?thesis
    using hold_sets_loop [OF h(1-3) _ h(4) _ st(3,4)] st
    by (simp add: Let_def)
qed

end
