(* ===== verification/Display.thy ===== *)
theory Display
  imports Session Format
begin

section \<open>What the timer display can show\<close>

text \<open>
  The page shows \<^verbatim>\<open>fmt(display)\<close> in \<^verbatim>\<open>#timer-display\<close>
  (\<^verbatim>\<open>updateTimerDisplay\<close>, line 327, and the literal \<^verbatim>\<open>'00:00'\<close> of
  \<^verbatim>\<open>cleanupTimers\<close>). This theory composes the session with \<open>Format\<close>. Every number
  a countdown holds, shows or is restarted with is a double of the lattice between 0
  and the longest target of the catalog, 120 seconds (\<open>val_ok\<close>). The tick never
  increases a value and rounds it to a double, so by \<open>fmt_mmss\<close> the display is
  always two minute digits, a colon and two second digits of the whole seconds left.
\<close>

definition val_ok :: "js_num \<Rightarrow> bool" where
  "val_ok v = (0 \<le> v \<and> v \<le> js_of_nat 120 \<and> is_double v)"

definition values_ok :: "session \<Rightarrow> bool" where
  "values_ok s =
     (val_ok (display s) \<and> (\<forall>x \<in> set (timers s). val_ok (remaining (clock x))) \<and>
      (\<forall>p \<in> set (pending s). \<forall>v. snd p = Some v \<longrightarrow> val_ok v))"

definition clock_val_ok :: "(countdown \<Rightarrow> countdown \<times> tick_out list) \<Rightarrow> bool" where
  "clock_val_ok f =
     (\<forall>c. val_ok (remaining c) \<longrightarrow>
          val_ok (remaining (fst (f c))) \<and> (\<forall>v. OnTick v \<in> set (snd (f c)) \<longrightarrow> val_ok v))"

subsection \<open>Values\<close>

lemma val_ok_0 [simp]: "val_ok 0"
  by (simp add: val_ok_def js_of_nat_def is_double_def)

lemma val_ok_secs: "d \<le> 120 \<Longrightarrow> val_ok (js_of_nat d)"
proof -
  assume d: "d \<le> 120"
  have "is_double (js_of_nat d)" by (rule js_of_nat_double) (use d in simp)
  with d show ?thesis by (simp add: val_ok_def js_of_nat_def)
qed

lemma js_sub_nonpos: "a \<le> b \<Longrightarrow> js_sub a b \<le> 0"
  by (cases "a = b") (simp_all add: js_sub_def rne53_def)

lemma routine_targets_le:
  "list_all (\<lambda>ex. \<forall>d. (durationSec (targets ex) = Some d \<or> holdSec (targets ex) = Some d) \<longrightarrow> d \<le> 120) routine"
  by (simp add: routine_def no_targets_def)

lemma js_secs_val_ok:
  assumes "e < n_steps"
  shows "\<forall>v. js_secs (durationSec (targets (routine ! e))) = Some v \<longrightarrow> val_ok v"
    and "\<forall>v. js_secs (holdSec (targets (routine ! e))) = Some v \<longrightarrow> val_ok v"
  using routine_targets_le assms by (auto simp: list_all_length js_secs_def intro: val_ok_secs)

lemma clock_val_ok_start: "(\<forall>v. secs = Some v \<longrightarrow> val_ok v) \<Longrightarrow> clock_val_ok (timer_start secs)"
  by (auto simp: clock_val_ok_def timer_start_def Let_def split: option.splits)

lemma clock_val_ok_tick: "clock_val_ok timer_tick"
proof (unfold clock_val_ok_def, intro allI impI)
  fix c :: countdown
  assume v: "val_ok (remaining c)"
  let ?r = "remaining c" let ?r' = "js_sub ?r tenth"
  show "val_ok (remaining (fst (timer_tick c))) \<and> (\<forall>v. OnTick v \<in> set (snd (timer_tick c)) \<longrightarrow> val_ok v)"
  proof (cases "?r' \<le> 0")
    case False
    then have "0 < ?r - tenth" using js_sub_nonpos [of ?r tenth] by linarith
    then have "0 < ?r" by (simp add: tenth_def)
    moreover have "?r \<le> 2 ^ 105" using v by (simp add: val_ok_def js_of_nat_def)
    ultimately have "?r' \<le> ?r - tick_drop" by (rule js_sub_tenth_le)
    then have "val_ok ?r'" using False v tick_drop_pos by (simp add: val_ok_def js_sub_def rne53_double)
    with False show ?thesis by (simp add: timer_tick_def Let_def)
  qed (simp add: timer_tick_def Let_def)
qed

lemma clock_val_ok_reset: "clock_val_ok timer_reset"
  by (simp add: clock_val_ok_def timer_reset_def)

subsection \<open>Preservation by the session operations\<close>

lemma values_ok_cong:
  "timers t = timers s \<Longrightarrow> display t = display s \<Longrightarrow> pending t = pending s \<Longrightarrow> values_ok t = values_ok s"
  by (simp add: values_ok_def)

lemma values_ok_fields [simp]:
  "values_ok (s\<lparr>repsDone := a\<rparr>) = values_ok s" "values_ok (s\<lparr>setsDone := a\<rparr>) = values_ok s"
  "values_ok (s\<lparr>holdLoopActive := b\<rparr>) = values_ok s" "values_ok (s\<lparr>completed := xs\<rparr>) = values_ok s"
  "values_ok (s\<lparr>currentIndex := k\<rparr>) = values_ok s" "values_ok (s\<lparr>theme := th, saved_theme := st\<rparr>) = values_ok s"
  "values_ok (beep d f s) = values_ok s" "values_ok (save_progress s) = values_ok s"
  "values_ok (s\<lparr>rep_text := x\<rparr>) = values_ok s" "values_ok (s\<lparr>set_text := x\<rparr>) = values_ok s"
  "values_ok (render_list s) = values_ok s"
  by (simp_all add: values_ok_def beep_def save_progress_def render_list_def)

lemma values_ok_display: "values_ok s \<Longrightarrow> val_ok v \<Longrightarrow> values_ok (update_timer_display v s)"
  by (simp add: values_ok_def update_timer_display_def)

lemma set_clock_values_ok:
  "values_ok s \<Longrightarrow> val_ok (remaining c) \<Longrightarrow> values_ok (set_clock i c s)"
  unfolding values_ok_def set_clock_def
  by (cases "i < length (timers s)") (auto dest: set_update_subset_insert [THEN subsetD] simp: list_update_beyond)

lemma on_done_values_ok: "e < n_steps \<Longrightarrow> values_ok s \<Longrightarrow> values_ok (on_done e s)"
  using js_secs_val_ok(2) [of e]
  by (auto simp: on_done_def Let_def beep_def values_ok_def)

lemma apply_outs_values_ok:
  "e < n_steps \<Longrightarrow> \<forall>v. OnTick v \<in> set os \<longrightarrow> val_ok v \<Longrightarrow> values_ok s \<Longrightarrow> values_ok (apply_outs e os s)"
proof (induction e os s rule: apply_outs.induct)
  case (2 e v os s)
  then show ?case by (simp add: values_ok_display)
next
  case (3 e os s)
  then show ?case by (simp add: on_done_values_ok)
qed simp

lemma timer_call_values_ok:
  assumes "session_ok s" and "values_ok s" and "clock_val_ok f" and "i < length (timers s)"
  shows "values_ok (timer_call i f s)"
proof -
  let ?x = "timers s ! i"
  have x: "?x \<in> set (timers s)" using assms(4) by simp
  then have e: "ex_at ?x < n_steps" using assms(1) by (auto simp: session_ok_def timers_ok_def)
  have "val_ok (remaining (clock ?x))" using assms(2) x by (simp add: values_ok_def)
  then have f: "val_ok (remaining (fst (f (clock ?x))))" "\<forall>v. OnTick v \<in> set (snd (f (clock ?x))) \<longrightarrow> val_ok v"
    using assms(3) by (simp_all add: clock_val_ok_def)
  have "values_ok (set_clock i (fst (f (clock ?x))) s)" using assms(2) f(1) by (rule set_clock_values_ok)
  then show ?thesis using apply_outs_values_ok [OF e f(2)]
    by (simp add: timer_call_def split_def Let_def)
qed

lemma cur_timer_val_ok:
  "values_ok s \<Longrightarrow> timer s < length (timers s) \<Longrightarrow> val_ok (remaining (cur_timer s))"
  by (simp add: values_ok_def cur_timer_def)

lemma cleanup_timers_values_ok: "values_ok s \<Longrightarrow> timer s < length (timers s) \<Longrightarrow> values_ok (cleanup_timers s)"
  unfolding cleanup_timers_def
  by (intro values_ok_display set_clock_values_ok)
     (simp_all add: cur_timer_val_ok timer_pause_def)

lemma render_exercise_values_ok: "values_ok s \<Longrightarrow> values_ok (render_exercise s)"
  by (simp add: render_exercise_def values_ok_def update_timer_display_def new_countdown_def)

lemma select_index_values_ok:
  "session_ok s \<Longrightarrow> values_ok s \<Longrightarrow> values_ok (select_index i s)"
  unfolding select_index_def
  by (simp add: render_exercise_values_ok cleanup_timers_values_ok session_ok_def)

lemma start_click_values_ok:
  assumes ok: "session_ok s" and v: "values_ok s"
  shows "values_ok (start_click s)"
proof -
  have t: "timer s < length (timers s)" and e: "currentIndex s < n_steps" using ok by (simp_all add: session_ok_def)
  have start: "values_ok (timer_call (timer t) (timer_start secs) t)"
    if "session_ok t" "values_ok t" "\<forall>v. secs = Some v \<longrightarrow> val_ok v" for t secs
    using that by (intro timer_call_values_ok clock_val_ok_start) (simp_all add: session_ok_def)
  have ok': "session_ok (s\<lparr>holdLoopActive := True\<rparr>)" "session_ok (s\<lparr>holdLoopActive := True, repsDone := 0\<rparr>)"
    "session_ok (s\<lparr>holdLoopActive := True, setsDone := 0\<rparr>)"
    "session_ok (s\<lparr>holdLoopActive := True, repsDone := 0, rep_text := ''0''\<rparr>)"
    "session_ok (s\<lparr>holdLoopActive := True, setsDone := 0, set_text := ''0''\<rparr>)"
    using ok by (simp_all add: session_ok_def timers_ok_def pending_ok_def)
  show ?thesis
  proof (cases "mode (cur_ex s)")
    case Timer
    have "\<forall>v. (if 0 < remaining (cur_timer s) then Some (remaining (cur_timer s))
                else js_secs (durationSec (targets (cur_ex s)))) = Some v \<longrightarrow> val_ok v"
      using js_secs_val_ok(1) [OF e] cur_timer_val_ok [OF v t] by (simp add: cur_ex_def)
    with Timer show ?thesis using start [OF ok v] by (simp add: start_click_def Let_def)
  next
    case HoldReps
    then show ?thesis using start ok' v js_secs_val_ok(2) [OF e]
      by (simp add: start_click_def Let_def cur_ex_def)
  next
    case HoldSets
    then show ?thesis using start ok' v js_secs_val_ok(2) [OF e]
      by (simp add: start_click_def Let_def cur_ex_def)
  next
    case RepsSets
    then show ?thesis using v by (simp add: start_click_def)
  qed
qed

lemma fire_pending_values_ok:
  assumes ok: "session_ok s" and v: "values_ok s" and j: "j < length (pending s)"
  shows "values_ok (fire_pending j s)"
proof -
  let ?s1 = "s\<lparr>pending := take j (pending s) @ drop (Suc j) (pending s)\<rparr>"
  have sub: "set (take j (pending s) @ drop (Suc j) (pending s)) \<subseteq> set (pending s)"
    by (auto dest: in_set_takeD in_set_dropD)
  with v have v1: "values_ok ?s1" by (auto simp: values_ok_def)
  from sub ok have ok1: "session_ok ?s1" by (auto simp: session_ok_def timers_ok_def pending_ok_def)
  have "\<forall>x. snd (pending s ! j) = Some x \<longrightarrow> val_ok x" using v j by (auto simp: values_ok_def)
  then have "values_ok (timer_call (timer ?s1) (timer_start (snd (pending s ! j))) ?s1)"
    using ok1 v1 by (intro timer_call_values_ok clock_val_ok_start) (simp_all add: session_ok_def)
  then show ?thesis by (simp add: fire_pending_def Let_def)
qed

lemma step_values_ok:
  assumes "step s e = Some s'" and ok: "session_ok s" and v: "values_ok s"
  shows "values_ok s'"
proof (cases e)
  case (Tick i)
  with assms(1) have "i < length (timers s)" and s': "s' = timer_call i timer_tick s"
    by (auto split: if_splits)
  with ok v show ?thesis by (simp add: timer_call_values_ok clock_val_ok_tick)
next
  case (Fire j)
  with assms(1) have "j < length (pending s)" and s': "s' = fire_pending j s"
    by (auto split: if_splits)
  with ok v show ?thesis by (simp add: fire_pending_values_ok)
next
  case Pause
  with assms show ?thesis
    by (auto simp: pause_click_def session_ok_def timer_pause_def cur_timer_val_ok intro!: set_clock_values_ok)
next
  case Reset
  with assms show ?thesis
    by (auto simp: reset_click_def session_ok_def intro!: timer_call_values_ok clock_val_ok_reset)
next
  case Complete
  have "session_ok (save_progress (render_list (beep 100 900 (beep 100 1200 (s\<lparr>completed := js_set_add (completed s) (ex_id (cur_ex s))\<rparr>)))))"
    using ok by (intro session_ok_fields session_ok_completed) (simp_all add: session_ok_def)
  with Complete assms show ?thesis
    by (auto simp: complete_click_def Let_def intro!: select_index_values_ok)
next
  case (ResetProgress b)
  with assms show ?thesis by (auto simp: reset_progress_click_def render_exercise_values_ok)
qed (use assms in \<open>auto simp: start_click_values_ok select_index_values_ok prev_click_def next_click_def
       rep_inc_def rep_dec_def set_inc_def set_dec_def toggle_theme_def Let_def split: if_splits\<close>)

lemma init_values_ok: "values_ok (init p th)"
proof -
  have "display (load_progress (empty_session p th)) = 0"
    by (simp add: load_progress_def empty_session_def Let_def split: option.splits)
  then have "values_ok (load_progress (empty_session p th))"
    by (simp add: values_ok_def empty_session_def)
  then show ?thesis by (simp add: init_def render_exercise_values_ok)
qed

lemma reachable_ok_values: "reachable s \<Longrightarrow> session_ok s \<and> values_ok s"
proof (induction rule: reachable.induct)
  case (start p th)
  show ?case by (simp add: init_ok init_values_ok)
next
  case (step s e s')
  then show ?case using step_session_ok step_values_ok by blast
qed

text \<open>
  C23. In every reachable state, every number a timer object holds, the number the display
  shows and every argument of a pending restart is a double between 0 and 120 seconds:
  the ticks never drive a countdown negative or above where it started.
\<close>

theorem reachable_values_ok: "reachable s \<Longrightarrow> values_ok s"
  using reachable_ok_values by blast

theorem reachable_values_ok_witness:
  "reachable (start_click (init None None)) \<and> values_ok (start_click (init None None))"
proof -
  have r: "reachable (start_click (init None None))"
    using reachable.step [OF reachable.start, of None None Start] by simp
  then show ?thesis using reachable_values_ok [OF r] by simp
qed

text \<open>
  C24. In every reachable state the timer display reads \<^verbatim>\<open>MM:SS\<close>, two minute digits,
  a colon and two second digits, of the whole seconds of the displayed value, which is at
  most 120.
\<close>

theorem display_mm_ss:
  assumes "reachable s"
  defines "n \<equiv> nat (js_floor (display s))"
  shows "n \<le> 120 \<and>
         fmt (display s) =
           [digit_chr (n div 600), digit_chr (n div 60 mod 10), CHR '':'', digit_chr (n mod 60 div 10), digit_chr (n mod 10)]"
proof -
  have v: "val_ok (display s)" using reachable_ok_values [OF assms(1)] by (simp add: values_ok_def)
  then have "display s \<le> 120 * 2 ^ 56" by (simp add: val_ok_def js_of_nat_def)
  then have "display s div 2 ^ 56 \<le> (120 * 2 ^ 56) div 2 ^ 56" by (rule zdiv_mono1) simp
  then have "display s div 2 ^ 56 \<le> 120" by simp
  then have n: "n \<le> 120" by (simp add: n_def js_floor_def)
  have "fmt (display s) =
          [digit_chr (n div 600), digit_chr (n div 60 mod 10), CHR '':'', digit_chr (n mod 60 div 10), digit_chr (n mod 10)]"
    unfolding n_def
    by (rule fmt_mmss) (use v n in \<open>simp_all add: val_ok_def js_of_nat_def n_def\<close>)
  with n show ?thesis by simp
qed

theorem display_mm_ss_witness: "fmt (display (start_click (init None None))) = ''02:00''"
proof -
  have r: "reachable (start_click (init None None))"
    using reachable.step [OF reachable.start, of None None Start] by simp
  have "display (start_click (init None None)) = js_of_nat 120"
    by (simp add: start_click_def Let_def init_def render_exercise_def load_progress_def empty_session_def
        update_timer_display_def cur_ex_def cur_timer_def routine_def no_targets_def new_countdown_def
        js_secs_def timer_call_def timer_start_def set_clock_def)
  then show ?thesis using display_mm_ss [OF r]
    by (simp add: js_floor_def js_of_nat_def digit_chr_def)
qed

lemma val_ok_countdown_len:
  assumes "val_ok r"
  shows "\<exists>n \<le> 1746. countdown_len r = Some n"
proof -
  have r: "0 \<le> r" "r \<le> 2 ^ 105" "r \<le> 120 * 2 ^ 56" using assms by (simp_all add: val_ok_def js_of_nat_def)
  obtain n where n: "countdown_len r = Some n" "n \<le> nat (r div tick_drop) + 1"
    using countdown_len_defined [OF r(1,2)] by blast
  have "r div tick_drop \<le> (120 * 2 ^ 56) div tick_drop" using r(3) tick_drop_pos by (rule zdiv_mono1)
  then have "r div tick_drop \<le> 1745" by (simp add: tick_drop_def tenth_def)
  with n show ?thesis by auto
qed

text \<open>
  C25. Termination of every live countdown: in every reachable state, each timer object
  whose interval is set, left alone, stops within 1746 ticks of 100 ms, after showing some
  values and then 0 and calling \<^verbatim>\<open>onDone\<close> once.
\<close>

theorem live_countdowns_end:
  assumes "reachable s" and "x \<in> set (timers s)" and "interval (clock x)"
  shows "\<exists>n \<le> 1746. \<exists>vs. tick_run n (clock x) = (stopped, map OnTick vs @ [OnTick 0, OnDone])"
proof -
  have "val_ok (remaining (clock x))" using reachable_ok_values [OF assms(1)] assms(2) by (simp add: values_ok_def)
  then obtain n where n: "n \<le> 1746" "countdown_len (remaining (clock x)) = Some n"
    using val_ok_countdown_len by blast
  have c: "clock x = running (remaining (clock x))" using assms(3) by simp
  show ?thesis using countdown_len_run [OF n(2)] n(1) c by metis
qed

theorem live_countdowns_end_witness:
  "\<exists>n \<le> 1746. \<exists>vs. tick_run n (clock (hd (timers (start_click (init None None))))) =
                        (stopped, map OnTick vs @ [OnTick 0, OnDone])"
proof -
  have r: "reachable (start_click (init None None))"
    using reachable.step [OF reachable.start, of None None Start] by simp
  have t: "timers (start_click (init None None)) = [\<lparr>clock = running (js_of_nat 120), ex_at = 0\<rparr>]"
    by (simp add: start_click_def Let_def init_def render_exercise_def load_progress_def empty_session_def
        update_timer_display_def cur_ex_def cur_timer_def routine_def no_targets_def new_countdown_def
        js_secs_def timer_call_def timer_start_def set_clock_def)
  show ?thesis using live_countdowns_end [OF r, of "hd (timers (start_click (init None None)))"] t by simp
qed

end
