(* ===== verification/Step_List.thy ===== *)
theory Step_List
  imports Session Format
begin

section \<open>The step list\<close>

text \<open>
  \<^verbatim>\<open>renderStepList\<close> (\<^verbatim>\<open>script.js\<close>, lines 222--235) rebuilds one list item per
  exercise of the routine, in order. The model keeps what each item carries of the
  state:
  \<^item> its class string \<^verbatim>\<open>'step'\<close>, then \<^verbatim>\<open>' active'\<close> for the current index, then
    \<^verbatim>\<open>' complete'\<close> when the id is in the completed set;
  \<^item> the content of its \<^verbatim>\<open>index\<close> box: the check mark U+2713 (\<open>Check\<close>, which the
    8-bit characters of a HOL string cannot hold) or the number \<^verbatim>\<open>idx + 1\<close>, printed by
    \<^verbatim>\<open>String\<close> (\<open>digits\<close>);
  \<^item> its \<^verbatim>\<open>name\<close> and \<^verbatim>\<open>tag\<close> boxes: the exercise's title and category;
  \<^item> its click handler, the event \<open>SelectStep idx\<close> of the session model.
  The item's content is set through \<^verbatim>\<open>innerHTML\<close>, so the browser parses the title
  and the category as HTML. \<open>html_inert\<close> says that the HTML tokenizer's data state
  reads a string as plain characters: no \<^verbatim>\<open><\<close> followed by a letter, \<^verbatim>\<open>/\<close>,
  \<^verbatim>\<open>!\<close> or \<^verbatim>\<open>?\<close> (a tag, comment or declaration) and no \<^verbatim>\<open>&\<close> followed by
  a letter, digit or \<^verbatim>\<open>#\<close> (a character reference). A \<^verbatim>\<open><\<close> or \<^verbatim>\<open>&\<close>
  followed by anything else is emitted as itself. \<open>item_html\<close> is the
  \<^verbatim>\<open>innerHTML\<close> template itself, with its line breaks and tabs, and
  \<open>html_nodes\<close> is the tokenizer's reading of such a string as text nodes and tags.
  It is \<open>None\<close> on markup it does not follow: comments, declarations, character
  references and unterminated tags.
\<close>

datatype marker = Check | Number string

record step_item =
  item_class :: string
  item_marker :: marker
  item_name :: string
  item_tag :: string
  item_click :: event

definition render_item :: "session \<Rightarrow> nat \<Rightarrow> exercise \<Rightarrow> step_item" where
  "render_item s idx st =
     \<lparr>item_class = ''step'' @ (if idx = currentIndex s then '' active'' else []) @
                   (if ex_id st \<in> set (completed s) then '' complete'' else []),
      item_marker = (if ex_id st \<in> set (completed s) then Check else Number (digits (idx + 1))),
      item_name = ex_title (ex_text st), item_tag = ex_category (ex_text st),
      item_click = SelectStep idx\<rparr>"

definition render_step_list :: "session \<Rightarrow> step_item list" where
  "render_step_list s = map (\<lambda>(idx, st). render_item s idx st) (enumerate 0 routine)"

definition item_active :: "step_item \<Rightarrow> bool" where
  "item_active it = (item_class it \<in> {''step active'', ''step active complete''})"

definition item_complete :: "step_item \<Rightarrow> bool" where
  "item_complete it = (item_class it \<in> {''step complete'', ''step active complete''})"

definition ascii_alpha :: "char \<Rightarrow> bool" where
  "ascii_alpha d = (let n = of_char d :: nat in (65 \<le> n \<and> n \<le> 90) \<or> (97 \<le> n \<and> n \<le> 122))"

definition ascii_digit :: "char \<Rightarrow> bool" where
  "ascii_digit d = (let n = of_char d :: nat in 48 \<le> n \<and> n \<le> 57)"

definition markup_start :: "char \<Rightarrow> string \<Rightarrow> bool" where
  "markup_start c cs =
     (case cs of
        [] \<Rightarrow> False
      | d # _ \<Rightarrow> (c = CHR ''<'' \<and> (ascii_alpha d \<or> d = CHR ''/'' \<or> d = CHR ''!'' \<or> d = CHR ''?'')) \<or>
                  (c = CHR ''&'' \<and> (ascii_alpha d \<or> ascii_digit d \<or> d = CHR ''#'')))"

fun html_inert :: "string \<Rightarrow> bool" where
  "html_inert [] = True"
| "html_inert (c # cs) = (\<not> markup_start c cs \<and> html_inert cs)"

definition check_mark :: string where
  "check_mark = [CHR 0xE2, CHR 0x9C, CHR 0x93]"

definition marker_text :: "marker \<Rightarrow> string" where
  "marker_text m = (case m of Check \<Rightarrow> check_mark | Number d \<Rightarrow> d)"

definition indent3 :: string where
  "indent3 = [CHR 0x0A, CHR 0x09, CHR 0x09, CHR 0x09]"

definition indent2 :: string where
  "indent2 = [CHR 0x0A, CHR 0x09, CHR 0x09]"

definition div_index :: string where
  \<open>div_index = ''<div class="index">''\<close>

definition div_name :: string where
  \<open>div_name = ''<div class="name">''\<close>

definition div_tag :: string where
  \<open>div_tag = ''<div class="tag">''\<close>

definition div_close :: string where
  "div_close = ''</div>''"

definition item_html :: "step_item \<Rightarrow> string" where
  "item_html it =
     indent3 @ div_index @ marker_text (item_marker it) @ div_close @
     indent3 @ div_name @ item_name it @ div_close @
     indent3 @ div_tag @ item_tag it @ div_close @ indent2"

definition is_tag :: "string \<Rightarrow> bool" where
  "is_tag tg =
     (case tg of
        c # d # body \<Rightarrow> c = CHR ''<'' \<and> (ascii_alpha d \<or> d = CHR ''/'') \<and> body \<noteq> [] \<and>
                        last body = CHR ''>'' \<and> CHR ''>'' \<notin> set (d # butlast body)
      | _ \<Rightarrow> False)"

function html_nodes :: "string \<Rightarrow> string \<Rightarrow> string list option" where
  "html_nodes [] acc = Some (if acc = [] then [] else [acc])"
| "html_nodes (c # cs) acc =
     (if markup_start c cs then
        (if c = CHR ''<'' \<and> (hd cs = CHR ''/'' \<or> ascii_alpha (hd cs)) then
           (case dropWhile (\<lambda>x. x \<noteq> CHR ''>'') cs of
              [] \<Rightarrow> None
            | _ # rest \<Rightarrow> map_option (\<lambda>ns. (if acc = [] then [] else [acc]) @ ns) (html_nodes rest []))
         else None)
      else html_nodes cs (acc @ [c]))"
  by pat_completeness auto
termination
  by (relation "measure (\<lambda>(s, acc). length s)") (auto dest: dropWhile_Cons_length)

lemma render_step_list_nth:
  "i < n_steps \<Longrightarrow> render_step_list s ! i = render_item s i (routine ! i)"
  by (simp add: render_step_list_def nth_enumerate_eq)

lemma length_render_step_list [simp]: "length (render_step_list s) = n_steps"
  by (simp add: render_step_list_def)

lemma render_step_list_upt: "render_step_list s = map (\<lambda>j. render_item s j (routine ! j)) [0..<n_steps]"
  by (rule nth_equalityI) (simp_all add: render_step_list_nth)

lemma render_item_flags:
  "item_active (render_item s i st) = (i = currentIndex s)"
  "item_complete (render_item s i st) = (ex_id st \<in> set (completed s))"
  by (simp_all add: render_item_def item_active_def item_complete_def)

lemma routine_html_inert:
  "list_all (\<lambda>e. html_inert (ex_title (ex_text e)) \<and> html_inert (ex_category (ex_text e))) routine"
  by (simp add: routine_def exercise_texts utf8_chars markup_start_def ascii_alpha_def ascii_digit_def)

lemma markup_start_Nil [simp]: "\<not> markup_start c []"
  by (simp add: markup_start_def)

lemma markup_start_take: "markup_start c cs = markup_start c (take 1 cs)"
  by (cases cs) (simp_all add: markup_start_def)

lemma markup_start_lt: "\<not> markup_start c [CHR ''<'']"
  by (simp add: markup_start_def ascii_alpha_def ascii_digit_def)

lemma html_nodes_text:
  "html_inert (t @ take 1 rest) \<Longrightarrow> html_nodes (t @ rest) acc = html_nodes rest (acc @ t)"
proof (induction t arbitrary: acc)
  case (Cons c t)
  have "\<not> markup_start c (t @ rest)"
  proof (cases t)
    case Nil
    with Cons.prems show ?thesis using markup_start_take [of c rest] by simp
  next
    case (Cons d ds)
    with Cons.prems show ?thesis
      using markup_start_take [of c "d # ds @ rest"] markup_start_take [of c "d # ds @ take 1 rest"] by simp
  qed
  with Cons show ?case by simp
qed simp

lemma html_inert_snoc_lt: "html_inert t \<Longrightarrow> html_inert (t @ [CHR ''<''])"
proof (induction t)
  case (Cons c t)
  have "\<not> markup_start c (t @ [CHR ''<''])"
  proof (cases t)
    case Nil
    then show ?thesis by (simp add: markup_start_lt)
  next
    case (Cons d ds)
    with Cons.prems show ?thesis
      using markup_start_take [of c "d # ds @ [CHR ''<'']"] markup_start_take [of c "d # ds"] by simp
  qed
  with Cons show ?case by simp
qed simp

lemma html_nodes_tag:
  assumes "ascii_alpha d \<or> d = CHR ''/''" and "CHR ''>'' \<notin> set body"
  shows "html_nodes (CHR ''<'' # d # body @ CHR ''>'' # rest) acc =
           map_option (\<lambda>ns. (if acc = [] then [] else [acc]) @ ns) (html_nodes rest [])"
proof -
  have "dropWhile (\<lambda>x. x \<noteq> CHR ''>'') (d # body @ CHR ''>'' # rest) = CHR ''>'' # rest"
    using assms by (auto simp: dropWhile_append3 ascii_alpha_def)
  then show ?thesis using assms by (auto simp: markup_start_def)
qed

lemma html_nodes_seg:
  assumes "html_inert t" "t \<noteq> []" "is_tag tg"
  shows "html_nodes (t @ tg @ rest) [] = map_option ((#) t) (html_nodes rest [])"
proof -
  obtain d b where tg0: "tg = CHR ''<'' # d # b" and
    d: "ascii_alpha d \<or> d = CHR ''/''" "CHR ''>'' \<notin> set (d # butlast b)" and b: "b \<noteq> []" "last b = CHR ''>''"
    using assms(3) by (auto simp: is_tag_def split: list.splits)
  from tg0 b have tg: "tg = CHR ''<'' # d # butlast b @ [CHR ''>'']" by (metis append_butlast_last_id)
  have "html_inert (t @ take 1 (tg @ rest))"
    using html_inert_snoc_lt [OF assms(1)] tg by simp
  then have "html_nodes (t @ tg @ rest) [] = html_nodes (tg @ rest) t"
    by (simp add: html_nodes_text)
  also have "\<dots> = map_option ((#) t) (html_nodes rest [])"
    using html_nodes_tag [of d "butlast b" rest t] d assms(2) tg by simp
  finally show ?thesis .
qed

lemma html_nodes_last: "html_inert t \<Longrightarrow> t \<noteq> [] \<Longrightarrow> html_nodes t [] = Some [t]"
  using html_nodes_text [of t "[]" "[]"] by simp

lemma html_inert_plain: "CHR ''<'' \<notin> set t \<Longrightarrow> CHR ''&'' \<notin> set t \<Longrightarrow> html_inert t"
  by (induction t) (auto simp: markup_start_def split: list.splits)

lemma marker_text_ok: "html_inert (marker_text (if b then Check else Number (digits n))) \<and>
                       marker_text (if b then Check else Number (digits n)) \<noteq> []"
proof -
  have "CHR ''<'' \<notin> set (digits n)" "CHR ''&'' \<notin> set (digits n)"
    using set_digits [of n] by (auto simp: decimal_chars_def)
  then show ?thesis
    by (auto simp: marker_text_def check_mark_def markup_start_def digits_nonempty intro: html_inert_plain)
qed

lemma tags_ok: "is_tag div_index" "is_tag div_name" "is_tag div_tag" "is_tag div_close"
  by (simp_all add: is_tag_def div_index_def div_name_def div_tag_def div_close_def ascii_alpha_def)

lemma indents_ok: "html_inert indent3" "indent3 \<noteq> []" "html_inert indent2" "indent2 \<noteq> []"
  by (simp_all add: indent3_def indent2_def markup_start_def)

lemma routine_text_nonempty:
  "list_all (\<lambda>e. ex_title (ex_text e) \<noteq> [] \<and> ex_category (ex_text e) \<noteq> []) routine"
  by (simp add: routine_def exercise_texts)

lemma active_items:
  assumes "currentIndex s < n_steps"
  shows "length (filter item_active (render_step_list s)) = 1"
proof -
  have "{i. i < length (render_step_list s) \<and> item_active (render_step_list s ! i)} = {currentIndex s}"
    using assms by (auto simp: render_step_list_nth render_item_flags)
  then show ?thesis by (simp add: length_filter_conv_card)
qed

text \<open>
  C26. The step list shows the session: it has one item per exercise; exactly one item is
  marked active, the current exercise; an item is marked complete, and shows the check
  mark instead of its number, exactly when its exercise id is in the completed set; the
  other items show their 1-based position; and clicking item \<open>i\<close> selects exercise
  \<open>i\<close>.
\<close>

theorem step_list_shows_session:
  assumes "currentIndex s < n_steps"
  shows "length (render_step_list s) = n_steps \<and> length (filter item_active (render_step_list s)) = 1 \<and>
         item_active (render_step_list s ! currentIndex s) \<and>
         list_all (\<lambda>(i, it). item_complete it = (ex_id (routine ! i) \<in> set (completed s)) \<and>
                             item_marker it = (if item_complete it then Check else Number (digits (i + 1))) \<and>
                             item_click it = SelectStep i \<and> item_name it = ex_title (ex_text (routine ! i)) \<and>
                             item_tag it = ex_category (ex_text (routine ! i)))
                  (enumerate 0 (render_step_list s))"
proof -
  have "list_all (\<lambda>(i, it). item_complete it = (ex_id (routine ! i) \<in> set (completed s)) \<and>
                             item_marker it = (if item_complete it then Check else Number (digits (i + 1))) \<and>
                             item_click it = SelectStep i \<and> item_name it = ex_title (ex_text (routine ! i)) \<and>
                             item_tag it = ex_category (ex_text (routine ! i)))
                  (enumerate 0 (render_step_list s))"
    by (simp add: list_all_length nth_enumerate_eq render_step_list_nth render_item_flags)
       (simp add: render_item_def)
  then show ?thesis
    using active_items [OF assms] assms by (simp add: render_step_list_nth render_item_flags)
qed

theorem step_list_shows_session_witness:
  "item_marker (render_step_list (complete_click (init None None)) ! 0) = Check \<and>
   item_marker (render_step_list (complete_click (init None None)) ! 2) = Number ''3''"
proof -
  let ?s = "complete_click (init None None)"
  have s: "currentIndex ?s = 1" "completed ?s = [''posture-breath'']"
    by (simp_all add: complete_click_def Let_def init_def render_exercise_def load_progress_def
        empty_session_def update_timer_display_def cur_ex_def routine_def js_set_add_def save_progress_def
        beep_def select_index_def cleanup_timers_def set_clock_def)
  have "currentIndex ?s < n_steps" using s by simp
  then have la: "list_all (\<lambda>(i, it). item_complete it = (ex_id (routine ! i) \<in> set (completed ?s)) \<and>
                             item_marker it = (if item_complete it then Check else Number (digits (i + 1))) \<and>
                             item_click it = SelectStep i \<and> item_name it = ex_title (ex_text (routine ! i)) \<and>
                             item_tag it = ex_category (ex_text (routine ! i)))
                  (enumerate 0 (render_step_list ?s))"
    using step_list_shows_session by blast
  have p0: "case enumerate 0 (render_step_list ?s) ! 0 of (i, it) \<Rightarrow>
      item_complete it = (ex_id (routine ! i) \<in> set (completed ?s)) \<and>
      item_marker it = (if item_complete it then Check else Number (digits (i + 1))) \<and> item_click it = SelectStep i \<and> item_name it = ex_title (ex_text (routine ! i)) \<and>
                             item_tag it = ex_category (ex_text (routine ! i))"
    using la [unfolded list_all_length, rule_format, of 0] by simp
  have p2: "case enumerate 0 (render_step_list ?s) ! 2 of (i, it) \<Rightarrow>
      item_complete it = (ex_id (routine ! i) \<in> set (completed ?s)) \<and>
      item_marker it = (if item_complete it then Check else Number (digits (i + 1))) \<and> item_click it = SelectStep i \<and> item_name it = ex_title (ex_text (routine ! i)) \<and>
                             item_tag it = ex_category (ex_text (routine ! i))"
    using la [unfolded list_all_length, rule_format, of 2] by simp
  have r2: "ex_id (routine ! Suc (Suc 0)) \<noteq> ''posture-breath''" "digits (Suc (Suc (Suc 0))) = ''3''"
    by (simp_all add: routine_def digits.simps digit_chr_def)
  from p0 p2 have "item_marker (render_step_list ?s ! 0) = Check"
    "item_marker (render_step_list ?s ! 2) = Number ''3''"
    using s r2 by (simp_all add: nth_enumerate_eq routine_nth)
  then show ?thesis by simp
qed

text \<open>
  C36. What the browser reads from each step-list item. \<^verbatim>\<open>renderStepList\<close> sets
  the item's \<^verbatim>\<open>innerHTML\<close> to the template of lines 228--232 (\<open>item_html\<close>).
  Tokenized as HTML (\<open>html_nodes\<close>), item \<open>i\<close> gives exactly seven text nodes:
  the indentation, the check mark or number, the exercise's title and its category,
  each inside its \<^verbatim>\<open>div\<close>, in that order. No title or category adds a tag, a
  comment or a character reference, so the page shows the catalog text as written.
\<close>

theorem step_list_html_nodes:
  assumes "i < n_steps"
  shows "html_nodes (item_html (render_step_list s ! i)) [] =
           Some [indent3, marker_text (if ex_id (routine ! i) \<in> set (completed s) then Check else Number (digits (i + 1))),
                 indent3, ex_title (ex_text (routine ! i)), indent3, ex_category (ex_text (routine ! i)), indent2]"
proof -
  have t: "html_inert (ex_title (ex_text (routine ! i)))" "html_inert (ex_category (ex_text (routine ! i)))"
    using routine_html_inert assms by (simp_all add: list_all_length)
  have n: "ex_title (ex_text (routine ! i)) \<noteq> []" "ex_category (ex_text (routine ! i)) \<noteq> []"
    using routine_text_nonempty assms by (simp_all add: list_all_length)
  show ?thesis
    using assms t n marker_text_ok [of "ex_id (routine ! i) \<in> set (completed s)" "i + 1"]
    by (simp add: item_html_def render_step_list_nth render_item_def html_nodes_seg tags_ok indents_ok
        html_nodes_last)
qed

theorem step_list_html_nodes_witness:
  "html_nodes (item_html (render_step_list (init None None) ! 0)) [] =
     Some [indent3, ''1'', indent3, ''Reset posture & breath'', indent3, ''Reset posture & breath'', indent2]"
proof -
  have "ex_id (routine ! 0) \<notin> set (completed (init None None))"
    by (simp add: init_def render_exercise_def render_list_def update_timer_display_def load_progress_def
        empty_session_def)
  moreover have "digits 1 = ''1''" by (simp add: digits.simps digit_chr_def)
  ultimately show ?thesis using step_list_html_nodes [of 0 "init None None"]
    by (simp add: routine_nth marker_text_def text_posture_breath_def)
qed

end
