(* ===== verification/Audio.thy ===== *)
theory Audio
  imports Session
begin

section \<open>Audio cues\<close>

text \<open>
  \<^verbatim>\<open>beep(duration, frequency, volume = 0.04)\<close> (\<^verbatim>\<open>script.js\<close>, lines 144--157)
  builds a Web Audio graph inside \<^verbatim>\<open>try { ... } catch {}\<close>. The model lists the calls
  it makes on the audio API, in order (\<open>audio_call\<close>). The session records each
  \<^verbatim>\<open>beep\<close> as a pair in \<open>tones\<close>; \<open>audio_of_tones\<close> turns that log into the calls.
  \<^item> Where neither \<^verbatim>\<open>window.AudioContext\<close> nor \<^verbatim>\<open>window.webkitAudioContext\<close>
    exists (\<open>avail = False\<close>), \<^verbatim>\<open>new undefined()\<close> throws a \<^verbatim>\<open>TypeError\<close> before any
    call (\<open>beep_try\<close>). The empty \<^verbatim>\<open>catch\<close> swallows it, and the beep is silent
    (\<open>beep_calls\<close>).
  \<^item> Otherwise the oscillator starts at once, and a \<^verbatim>\<open>setTimeout\<close> of \<open>duration\<close> ms
    stops it and closes the context (\<open>beep_stop\<close>). \<open>audio_of_tones\<close> runs each
    stop callback after its beep.
  Every call site passes a duration and a frequency, so the defaults 140 and 880 are
  never used; the volume is always the default 0.04.
\<close>

datatype audio_call =
    NewAudioContext | CreateOscillator | CreateGain | SetType string | SetFrequency nat | SetGain rat
  | ConnectToGain | ConnectToDestination | OscStart | SetTimeout nat | OscStop | CloseContext

definition beep_try :: "bool \<Rightarrow> nat \<Rightarrow> nat \<Rightarrow> js_error + audio_call list" where
  "beep_try avail duration frequency =
     (if \<not> avail then Inl TypeError
      else Inr [NewAudioContext, CreateOscillator, CreateGain, SetType ''sine'', SetFrequency frequency,
                SetGain (1 / 25), ConnectToGain, ConnectToDestination, OscStart, SetTimeout duration])"

definition beep_calls :: "bool \<Rightarrow> nat \<Rightarrow> nat \<Rightarrow> audio_call list" where
  "beep_calls avail duration frequency = (case beep_try avail duration frequency of Inl _ \<Rightarrow> [] | Inr cs \<Rightarrow> cs)"

definition beep_stop :: "audio_call list" where
  "beep_stop = [OscStop, CloseContext]"

definition audio_of_tones :: "bool \<Rightarrow> (nat \<times> nat) list \<Rightarrow> audio_call list" where
  "audio_of_tones avail ts =
     concat (map (\<lambda>(d, f). beep_calls avail d f @ (if avail then beep_stop else [])) ts)"

definition open_contexts :: "audio_call list \<Rightarrow> int" where
  "open_contexts cs = int (count_list cs NewAudioContext) - int (count_list cs CloseContext)"

definition oscillators :: "audio_call list \<Rightarrow> nat list" where
  "oscillators cs = concat (map (\<lambda>c. case c of SetFrequency f \<Rightarrow> [f] | _ \<Rightarrow> []) cs)"

lemma audio_of_tones_Cons [simp]:
  "audio_of_tones avail ((d, f) # ts) = beep_calls avail d f @ (if avail then beep_stop else []) @ audio_of_tones avail ts"
  by (simp add: audio_of_tones_def)

lemma audio_of_tones_Nil [simp]: "audio_of_tones avail [] = []"
  by (simp add: audio_of_tones_def)

lemma open_contexts_append [simp]: "open_contexts (xs @ ys) = open_contexts xs + open_contexts ys"
  by (simp add: open_contexts_def)

lemma oscillators_append [simp]: "oscillators (xs @ ys) = oscillators xs @ oscillators ys"
  by (simp add: oscillators_def)

lemma audio_balanced: "open_contexts (audio_of_tones avail ts) = 0"
  by (induction ts) (auto simp: beep_calls_def beep_try_def beep_stop_def open_contexts_def)

lemma audio_frequencies: "oscillators (audio_of_tones avail ts) = (if avail then map snd ts else [])"
  by (induction ts) (auto simp: beep_calls_def beep_try_def beep_stop_def oscillators_def)

lemma tones_on_done: "tones (on_done e s) = tones s @ [(180, 1200), (200, 900)]"
  by (simp add: on_done_def Let_def beep_def)

text \<open>
  C30. The end-of-countdown cue: the tick that ends a running countdown logs exactly two
  beeps, 180 ms at 1200 Hz and then 200 ms at 900 Hz. With Web Audio they are two
  sine oscillators at these frequencies, each stopped and its context closed by its
  timeout. Without Web Audio the exception is swallowed and nothing is played. In any
  session log, every audio context opened is closed again.
\<close>

theorem countdown_end_cue:
  assumes "i < length (timers s)" and "clock (timers s ! i) = running r" and "js_sub r tenth \<le> 0"
    and "step s (Tick i) = Some s'"
  shows "tones s' = tones s @ [(180, 1200), (200, 900)] \<and>
         audio_of_tones True (drop (length (tones s)) (tones s')) =
           beep_calls True 180 1200 @ beep_stop @ beep_calls True 200 900 @ beep_stop \<and>
         oscillators (audio_of_tones True (drop (length (tones s)) (tones s'))) = [1200, 900] \<and>
         audio_of_tones False (drop (length (tones s)) (tones s')) = [] \<and>
         open_contexts (audio_of_tones avail (tones s')) = 0"
proof -
  have "s' = timer_call i timer_tick s" using assms(1,2,4) by simp
  then have t: "tones s' = tones s @ [(180, 1200), (200, 900)]"
    using assms(1-3) by (simp add: timer_call_tick_done tones_on_done update_timer_display_def set_clock_def)
  then show ?thesis
    by (simp add: audio_balanced beep_calls_def beep_try_def beep_stop_def oscillators_def)
qed

theorem countdown_end_cue_witness:
  "tones (timer_call 0 timer_tick (set_clock 0 (running 0) (init None None))) = [(180, 1200), (200, 900)]"
proof -
  let ?s = "set_clock 0 (running 0) (init None None)"
  have l: "0 < length (timers ?s)" "clock (timers ?s ! 0) = running 0"
    by (simp_all add: init_def render_exercise_def load_progress_def empty_session_def update_timer_display_def
        set_clock_def)
  have t: "tones ?s = []"
    by (simp add: init_def render_exercise_def load_progress_def empty_session_def update_timer_display_def
        set_clock_def)
  have z: "js_sub 0 tenth \<le> 0" by (rule js_sub_zero_tenth)
  have "step ?s (Tick 0) = Some (timer_call 0 timer_tick ?s)" using l by simp
  from countdown_end_cue [OF l z this, of True] t show ?thesis by simp
qed

end
