(* ===== verification/Exercise_Panel.thy ===== *)
theory Exercise_Panel
  imports Catalog Format "HOL-Library.Sublist"
begin

section \<open>The exercise panel\<close>

text \<open>
  \<^verbatim>\<open>renderExercise\<close> (\<^verbatim>\<open>script.js\<close>, lines 283--297) clears the three target
  lines and writes the one that belongs to the exercise's mode. A template literal
  \<^verbatim>\<open>${x}\<close> prints a whole number by \<^verbatim>\<open>String\<close> (\<open>digits\<close>) and a missing target as
  \<^verbatim>\<open>undefined\<close> (\<open>js_num_str\<close>). \<^verbatim>\<open>fmt\<close> of a missing duration divides
  \<^verbatim>\<open>undefined\<close>, so both fields print as \<^verbatim>\<open>NaN\<close> (\<open>fmt_target\<close>). The
  multiplication sign of the templates (U+00D7) is \<open>times_sign\<close> of theory
  \<open>Catalog\<close>, its UTF-8 bytes.
\<close>

definition js_num_str :: "nat option \<Rightarrow> string" where
  "js_num_str t = (case t of Some n \<Rightarrow> digits n | None \<Rightarrow> ''undefined'')"

definition fmt_target :: "nat option \<Rightarrow> string" where
  "fmt_target t = (case t of Some n \<Rightarrow> fmt (js_of_nat n) | None \<Rightarrow> ''NaN:NaN'')"

record target_lines =
  line_duration :: string
  line_reps :: string
  line_sets :: string

definition render_targets :: "exercise \<Rightarrow> target_lines" where
  "render_targets ex =
     (let t = targets ex; blank = \<lparr>line_duration = [], line_reps = [], line_sets = []\<rparr>
      in case mode ex of
           Timer \<Rightarrow> blank\<lparr>line_duration := ''Duration: '' @ fmt_target (durationSec t)\<rparr>
         | HoldReps \<Rightarrow>
             blank\<lparr>line_reps := ''Reps: '' @ js_num_str (reps t) @ '' (hold '' @ js_num_str (holdSec t) @ ''s each)''\<rparr>
         | HoldSets \<Rightarrow>
             blank\<lparr>line_sets := ''Sets: '' @ js_num_str (sets t) @ '' '' @ times_sign @ '' hold '' @
                               js_num_str (holdSec t) @ ''s''\<rparr>
         | RepsSets \<Rightarrow>
             blank\<lparr>line_sets := ''Sets '' @ times_sign @ '' Reps: '' @ js_num_str (sets t) @ '' '' @ times_sign @
                               '' '' @ js_num_str (reps t)\<rparr>)"

text \<open>
  The whole panel \<^verbatim>\<open>renderExercise\<close> writes (lines 270--297): category, title and
  note as \<^verbatim>\<open>textContent\<close>, one list item per instruction in order, the three
  target lines and the caution. \<^verbatim>\<open>x || ''\<close> of a string is \<open>js_or_empty\<close>: the
  empty string is falsy and gives \<^verbatim>\<open>''\<close>, any other string is kept.
\<close>

definition js_or_empty :: "string \<Rightarrow> string" where
  "js_or_empty x = (if x = [] then [] else x)"

record panel =
  panel_category :: string
  panel_title :: string
  panel_note :: string
  panel_instructions :: "string list"
  panel_targets :: target_lines
  panel_caution :: string

definition render_panel :: "exercise \<Rightarrow> panel" where
  "render_panel ex =
     \<lparr>panel_category = ex_category (ex_text ex), panel_title = ex_title (ex_text ex),
      panel_note = js_or_empty (ex_note (ex_text ex)),
      panel_instructions = ex_instructions (ex_text ex),
      panel_targets = render_targets ex, panel_caution = js_or_empty (ex_caution (ex_text ex))\<rparr>"

lemma no_undefined_NaN:
  "CHR ''f'' \<notin> set l \<Longrightarrow> CHR ''N'' \<notin> set l \<Longrightarrow> \<not> sublist ''undefined'' l \<and> \<not> sublist ''NaN'' l"
proof
  assume f: "CHR ''f'' \<notin> set l" and n: "CHR ''N'' \<notin> set l"
  show "\<not> sublist ''undefined'' l"
  proof
    assume "sublist ''undefined'' l"
    then have "set ''undefined'' \<subseteq> set l" by (rule set_mono_sublist)
    with f show False by simp
  qed
  show "\<not> sublist ''NaN'' l"
  proof
    assume "sublist ''NaN'' l"
    then have "set ''NaN'' \<subseteq> set l" by (rule set_mono_sublist)
    with n show False by simp
  qed
qed

lemma times_sign_chars: "CHR ''f'' \<notin> set times_sign" "CHR ''N'' \<notin> set times_sign"
  by (simp_all add: times_sign_def)

text \<open>
  C31. For every well-formed exercise (\<open>exercise_ok\<close>: the targets its mode reads are
  present), \<^verbatim>\<open>renderExercise\<close> fills exactly the target line of its mode and
  leaves the other two empty, and no line prints \<^verbatim>\<open>undefined\<close> or
  \<^verbatim>\<open>NaN\<close>: every number in a template is a present target, printed by
  \<^verbatim>\<open>String\<close> or by \<^verbatim>\<open>fmt\<close>.
\<close>

theorem targets_line_of_mode:
  assumes "exercise_ok ex"
  shows "(line_duration (render_targets ex) \<noteq> []) = (mode ex = Timer) \<and>
         (line_reps (render_targets ex) \<noteq> []) = (mode ex = HoldReps) \<and>
         (line_sets (render_targets ex) \<noteq> []) = (mode ex = HoldSets \<or> mode ex = RepsSets) \<and>
         list_all (\<lambda>l. \<not> sublist ''undefined'' l \<and> \<not> sublist ''NaN'' l)
           [line_duration (render_targets ex), line_reps (render_targets ex), line_sets (render_targets ex)]"
proof -
  from assms have fit: "targets_fit (mode ex) (targets ex)" by (simp add: exercise_ok_def)
  show ?thesis
  proof (cases "mode ex")
    case Timer
    with fit obtain d where "durationSec (targets ex) = Some d" by auto
    with Timer show ?thesis
      by (simp add: render_targets_def fmt_target_def no_undefined_NaN target_chars)
  next
    case HoldReps
    with fit obtain r h where "reps (targets ex) = Some r" "holdSec (targets ex) = Some h" by auto
    with HoldReps show ?thesis
      by (simp add: render_targets_def js_num_str_def no_undefined_NaN target_chars)
  next
    case HoldSets
    with fit obtain n h where "sets (targets ex) = Some n" "holdSec (targets ex) = Some h" by auto
    with HoldSets show ?thesis
      by (simp add: render_targets_def js_num_str_def no_undefined_NaN target_chars times_sign_chars)
  next
    case RepsSets
    with fit obtain n r where "sets (targets ex) = Some n" "reps (targets ex) = Some r" by auto
    with RepsSets show ?thesis
      by (simp add: render_targets_def js_num_str_def no_undefined_NaN target_chars times_sign_chars)
  qed
qed

theorem targets_line_of_mode_witness:
  "line_sets (render_targets (routine ! 2)) \<noteq> [] \<and> \<not> sublist ''undefined'' (line_sets (render_targets (routine ! 2)))"
proof -
  have "exercise_ok (routine ! 2)"
    by (simp add: routine_nth exercise_ok_def targets_positive_def no_targets_def)
  then show ?thesis using targets_line_of_mode [of "routine ! 2"] by (simp add: routine_nth)
qed

end
