(* ===== verification/Loop_Flag.thy ===== *)
theory Loop_Flag
  imports Timer_Ownership
begin

section \<open>The hold-loop flag belongs to a hold exercise\<close>

text \<open>
  \<^verbatim>\<open>state.holdLoopActive\<close> is set only by Start on a hold-reps or hold-sets exercise
  (lines 338 and 344). Every handler that changes the exercise clears it first, through
  \<^verbatim>\<open>cleanupTimers\<close> (line 260), with one exception. \<^verbatim>\<open>Reset all progress\<close> moves
  to the first exercise without clearing it; theory \<open>Defects\<close> shows the consequence.
  \<open>loop_flag_ok\<close> states the property: a set loop flag means a hold exercise.
\<close>

definition loop_flag_ok :: "session \<Rightarrow> bool" where
  "loop_flag_ok s = (holdLoopActive s \<longrightarrow> mode (cur_ex s) \<in> {HoldReps, HoldSets})"

lemma on_done_flag: "holdLoopActive (on_done e s) \<Longrightarrow> holdLoopActive s"
  by (auto simp: on_done_def Let_def beep_def split: if_splits)

lemma apply_outs_flag: "holdLoopActive (apply_outs e os s) \<Longrightarrow> holdLoopActive s"
  by (induction e os s rule: apply_outs.induct) (auto simp: update_timer_display_def dest: on_done_flag)

lemma timer_call_loop_flag: "loop_flag_ok s \<Longrightarrow> loop_flag_ok (timer_call i f s)"
  by (auto simp: loop_flag_ok_def cur_ex_def timer_call_def split_def Let_def set_clock_def
      dest: apply_outs_flag)

lemma loop_flag_fields [simp]:
  "loop_flag_ok (s\<lparr>holdLoopActive := False\<rparr>)"
  "loop_flag_ok (set_clock i c s) = loop_flag_ok s"
  "loop_flag_ok (s\<lparr>repsDone := n\<rparr>) = loop_flag_ok s" "loop_flag_ok (s\<lparr>setsDone := n\<rparr>) = loop_flag_ok s"
  "loop_flag_ok (beep d fr s) = loop_flag_ok s"
  "loop_flag_ok (s\<lparr>theme := th, saved_theme := st\<rparr>) = loop_flag_ok s"
  "loop_flag_ok (s\<lparr>rep_text := txt\<rparr>) = loop_flag_ok s" "loop_flag_ok (s\<lparr>set_text := txt\<rparr>) = loop_flag_ok s"
  "loop_flag_ok (render_list s) = loop_flag_ok s"
  by (simp_all add: loop_flag_ok_def cur_ex_def beep_def render_list_def)

lemma select_index_loop_flag: "loop_flag_ok (select_index i s)"
  by (simp add: loop_flag_ok_def select_index_def save_progress_def render_exercise_def cleanup_timers_def
      update_timer_display_def set_clock_def)

lemma start_click_loop_flag: "loop_flag_ok s \<Longrightarrow> loop_flag_ok (start_click s)"
  by (cases "mode (cur_ex s)")
     (auto simp: start_click_def Let_def timer_call_loop_flag loop_flag_ok_def cur_ex_def timer_call_def
        split_def set_clock_def beep_def dest: apply_outs_flag)

lemma step_loop_flag:
  assumes "step s e = Some s'" and "loop_flag_ok s" and "e \<noteq> ResetProgress True"
  shows "loop_flag_ok s'"
proof (cases e)
  case (Tick i)
  with assms show ?thesis by (auto simp: timer_call_loop_flag split: if_splits)
next
  case (Fire j)
  with assms show ?thesis by (auto simp: fire_pending_def Let_def loop_flag_ok_def cur_ex_def timer_call_def
      split_def set_clock_def dest: apply_outs_flag split: if_splits)
next
  case Complete
  let ?s1 = "save_progress (render_list (beep 100 900 (beep 100 1200 (s\<lparr>completed := js_set_add (completed s) (ex_id (cur_ex s))\<rparr>))))"
  have "loop_flag_ok ?s1" using assms(2) by (simp add: loop_flag_ok_def cur_ex_def save_progress_def beep_def)
  with Complete assms(1) show ?thesis by (auto simp: complete_click_def Let_def select_index_loop_flag)
next
  case (ResetProgress b)
  with assms show ?thesis by (simp add: reset_progress_click_def)
qed (use assms in \<open>auto simp: start_click_loop_flag pause_click_def reset_click_def timer_call_loop_flag
       rep_inc_def rep_dec_def set_inc_def set_dec_def prev_click_def next_click_def select_index_loop_flag
       toggle_theme_def Let_def split: if_splits\<close>)

lemma init_loop_flag: "loop_flag_ok (init p th)"
  by (simp add: loop_flag_ok_def init_def render_exercise_def update_timer_display_def empty_session_def
      load_progress_def Let_def split: option.splits)

text \<open>
  C32. In every state reached from start-up without a confirmed ``Reset all progress'',
  the hold-loop flag is set only while the current exercise is a hold-reps or hold-sets
  exercise, so a pending restart or a hold's \<^verbatim>\<open>onDone\<close> never counts on a timed or
  manual exercise.
\<close>

theorem loop_flag_on_hold_exercise:
  "run (init p th) es = Some s' \<Longrightarrow> ResetProgress True \<notin> set es \<Longrightarrow>
     holdLoopActive s' \<longrightarrow> mode (cur_ex s') \<in> {HoldReps, HoldSets}"
  using run_invariant [where P = loop_flag_ok, OF step_loop_flag] init_loop_flag
  by (auto simp: loop_flag_ok_def)

theorem loop_flag_on_hold_exercise_witness:
  "\<exists>s'. run (init (Some \<lparr>p_completed = None, p_index = Some 1\<rparr>) None) [Start] = Some s' \<and>
        holdLoopActive s' \<and> mode (cur_ex s') = HoldReps"
proof -
  let ?s = "init (Some \<lparr>p_completed = None, p_index = Some 1\<rparr>) None"
  have r: "run ?s [Start] = Some (start_click ?s)" by simp
  have "holdLoopActive (start_click ?s)" "currentIndex (start_click ?s) = 1"
    by (simp_all add: start_click_def Let_def init_def render_exercise_def load_progress_def empty_session_def
        update_timer_display_def cur_ex_def routine_def no_targets_def clamp_index_def timer_call_def
        set_clock_def split_def timer_start_def js_secs_def)
  moreover have "ResetProgress True \<notin> set [Start]" by simp
  ultimately show ?thesis using loop_flag_on_hold_exercise [OF r] by (auto simp: cur_ex_def routine_def)
qed

end
