(* ===== verification/Page.thy ===== *)
theory Page
  imports Step_List Exercise_Panel Display
begin

section \<open>The page the handlers write\<close>

text \<open>
  The page as the user sees it, read off the session: the step list that
  \<^verbatim>\<open>renderStepList\<close> last wrote (\<open>page_list\<close>), the exercise panel that
  \<^verbatim>\<open>renderExercise\<close> last wrote (\<open>page_panel\<close>), and the two counter spans.
  \<open>page_ok\<close> says that all of them show the current state; every handler keeps it,
  because each one that changes the index, the completed set or a counter rewrites the
  part of the page that shows it. \<open>progress_saved\<close> says that
  \<^verbatim>\<open>localStorage\<close> holds the current exercise and completed set, as
  \<^verbatim>\<open>loadProgress\<close> would read them back; every handler keeps it because each change
  of either is followed by \<^verbatim>\<open>saveProgress\<close>. Together they say that a reload at any
  moment shows the same step list and exercise.
\<close>

definition page_list :: "session \<Rightarrow> step_item list" where
  "page_list s = render_step_list (s\<lparr>currentIndex := list_cur s, completed := list_done s\<rparr>)"

definition page_panel :: "session \<Rightarrow> panel" where
  "page_panel s = render_panel (routine ! panel_at s)"

definition page_ok :: "session \<Rightarrow> bool" where
  "page_ok s =
     (list_cur s = currentIndex s \<and> list_done s = completed s \<and> panel_at s = currentIndex s \<and>
      rep_text s = digits (repsDone s) \<and> set_text s = digits (setsDone s))"

definition progress_saved :: "session \<Rightarrow> bool" where
  "progress_saved s =
     (currentIndex (load_progress (empty_session (saved s) None)) = currentIndex s \<and>
      completed (load_progress (empty_session (saved s) None)) = completed s)"

lemma page_ok_fields [simp]:
  "page_ok (s\<lparr>holdLoopActive := b\<rparr>) = page_ok s" "page_ok (s\<lparr>display := v\<rparr>) = page_ok s"
  "page_ok (s\<lparr>pending := ps\<rparr>) = page_ok s" "page_ok (set_clock i c s) = page_ok s"
  "page_ok (beep d fr s) = page_ok s" "page_ok (save_progress s) = page_ok s"
  "page_ok (update_timer_display v s) = page_ok s"
  "page_ok (s\<lparr>theme := th, saved_theme := st\<rparr>) = page_ok s"
  by (simp_all add: page_ok_def beep_def save_progress_def update_timer_display_def)

lemma on_done_page_ok: "page_ok s \<Longrightarrow> page_ok (on_done e s)"
  by (simp add: on_done_def Let_def page_ok_def beep_def)

lemma apply_outs_page_ok: "page_ok s \<Longrightarrow> page_ok (apply_outs e os s)"
  by (induction e os s rule: apply_outs.induct) (simp_all add: on_done_page_ok)

lemma timer_call_page_ok: "page_ok s \<Longrightarrow> page_ok (timer_call i f s)"
  by (simp add: timer_call_def split_def Let_def apply_outs_page_ok)

lemma render_page_ok: "page_ok (render_exercise (render_list s))" "page_ok (render_list (render_exercise s))"
  by (simp_all add: page_ok_def render_exercise_def render_list_def update_timer_display_def)

lemma render_step_list_cong:
  "currentIndex t = currentIndex s \<Longrightarrow> completed t = completed s \<Longrightarrow> render_step_list t = render_step_list s"
  by (simp add: render_step_list_def render_item_def)

lemma select_index_page_ok: "page_ok (select_index i s)"
  by (simp add: select_index_def render_page_ok)

lemma start_click_page_ok: "page_ok s \<Longrightarrow> page_ok (start_click s)"
  by (cases "mode (cur_ex s)")
     (auto simp: start_click_def Let_def intro!: timer_call_page_ok, auto simp: page_ok_def)

lemma counters_page_ok:
  "page_ok s \<Longrightarrow> page_ok (rep_inc s)" "page_ok s \<Longrightarrow> page_ok (rep_dec s)"
  "page_ok s \<Longrightarrow> page_ok (set_inc s)" "page_ok s \<Longrightarrow> page_ok (set_dec s)"
  by (simp_all add: page_ok_def rep_inc_def rep_dec_def set_inc_def set_dec_def)

lemma complete_click_page_ok: "page_ok s \<Longrightarrow> page_ok (complete_click s)"
  by (simp add: complete_click_def Let_def select_index_page_ok)
     (simp add: page_ok_def render_list_def beep_def save_progress_def)

lemma step_page_ok: "step s e = Some s' \<Longrightarrow> page_ok s \<Longrightarrow> page_ok s'"
  by (cases e)
     (auto simp: timer_call_page_ok fire_pending_def Let_def start_click_page_ok pause_click_def reset_click_def
        prev_click_def next_click_def select_index_page_ok
        complete_click_page_ok reset_progress_click_def render_page_ok toggle_theme_def counters_page_ok
        split: if_splits)

lemma init_page_ok: "page_ok (init p th)"
  by (simp add: init_def render_page_ok)

lemma reachable_page_ok: "reachable s \<Longrightarrow> page_ok s"
  by (induction rule: reachable.induct) (simp_all add: init_page_ok step_page_ok)

lemma progress_saved_cong:
  "currentIndex t = currentIndex s \<Longrightarrow> completed t = completed s \<Longrightarrow> saved t = saved s \<Longrightarrow>
   progress_saved t = progress_saved s"
  by (simp add: progress_saved_def)

lemma init_progress_fields:
  "currentIndex (init p th) = currentIndex (load_progress (empty_session p None))"
  "completed (init p th) = completed (load_progress (empty_session p None))"
  "saved (init p th) = p"
  by (simp_all add: init_def render_exercise_def update_timer_display_def load_progress_def empty_session_def
      Let_def split: option.splits)

lemma save_progress_saved:
  "distinct (completed s) \<Longrightarrow> currentIndex s < n_steps \<Longrightarrow> progress_saved (save_progress s)"
  by (simp add: progress_saved_def load_progress_def empty_session_def save_progress_def clamp_index_id)

lemma render_keeps_progress:
  "progress_saved (render_exercise s) = progress_saved s" "progress_saved (render_list s) = progress_saved s"
  by (simp_all add: progress_saved_def render_exercise_def render_list_def update_timer_display_def)

lemma select_index_saved_ok: "session_ok s \<Longrightarrow> i < n_steps \<Longrightarrow> progress_saved (select_index i s)"
  unfolding select_index_def
  by (rule save_progress_saved)
     (use cleanup_timers_ok [of s] in \<open>simp_all add: render_exercise_def update_timer_display_def session_ok_def\<close>)

lemma start_click_keeps_progress:
  "currentIndex (start_click s) = currentIndex s \<and> completed (start_click s) = completed s \<and> saved (start_click s) = saved s"
  by (cases "mode (cur_ex s)") (simp_all add: start_click_def Let_def beep_def)

lemma step_progress_saved:
  assumes "step s e = Some s'" and ok: "session_ok s" and p: "progress_saved s"
  shows "progress_saved s'"
proof (cases e)
  case Complete
  let ?s0 = "render_list (beep 100 900 (beep 100 1200 (s\<lparr>completed := js_set_add (completed s) (ex_id (cur_ex s))\<rparr>)))"
  have "session_ok (save_progress ?s0)"
    using ok by (intro session_ok_fields session_ok_completed) (simp_all add: session_ok_def)
  moreover have "progress_saved (save_progress ?s0)"
    using ok by (intro save_progress_saved) (simp_all add: session_ok_def beep_def)
  ultimately show ?thesis using Complete assms(1) select_index_saved_ok [of "save_progress ?s0"]
    by (auto simp: complete_click_def Let_def beep_def)
next
  case (ResetProgress b)
  with assms show ?thesis
    using save_progress_saved [of "s\<lparr>completed := [], currentIndex := 0\<rparr>"]
    by (auto simp: reset_progress_click_def render_keeps_progress)
next
  case Prev
  have "currentIndex s < n_steps" using ok by (simp add: session_ok_def)
  with Prev assms(1) p show ?thesis using select_index_saved_ok [OF ok] by (auto simp: prev_click_def)
next
  case Next
  with assms(1) p show ?thesis using select_index_saved_ok [OF ok] by (auto simp: next_click_def)
next
  case (SelectStep i)
  with assms(1) show ?thesis using select_index_saved_ok [OF ok] by (auto split: if_splits)
next
  case Start
  with assms show ?thesis using start_click_keeps_progress [of s] progress_saved_cong [of "start_click s" s] by simp
qed (use assms in \<open>auto simp: fire_pending_def
       Let_def pause_click_def reset_click_def rep_inc_def rep_dec_def set_inc_def set_dec_def toggle_theme_def
       progress_saved_def split: if_splits\<close>)

lemma init_progress_saved: "progress_saved (init p th)"
  by (simp add: progress_saved_def init_progress_fields)

lemma reachable_progress_saved: "reachable s \<Longrightarrow> progress_saved s"
proof (induction rule: reachable.induct)
  case (start p th)
  show ?case by (rule init_progress_saved)
next
  case (step s e s')
  then show ?case using step_progress_saved reachable_ok_values by blast
qed

lemma select_index_page:
  "page_panel (select_index i s) = render_panel (routine ! i)"
  "rep_text (select_index i s) = ''0''" "set_text (select_index i s) = ''0''"
  "display (select_index i s) = 0"
  "page_list (select_index i s) = render_step_list (s\<lparr>currentIndex := i\<rparr>)"
  by (simp_all add: page_panel_def page_list_def select_index_def render_exercise_def render_list_def
      update_timer_display_def save_progress_def cleanup_timers_def set_clock_def)
     (rule render_step_list_cong; simp)

text \<open>
  C34. In every state reachable from start-up by any clicks and timer callbacks, the
  page shows the state: the step list is the one \<^verbatim>\<open>renderStepList\<close> would draw
  now, the panel shows the current exercise, and the two counters show
  \<^verbatim>\<open>String(state.repsDone)\<close> and \<^verbatim>\<open>String(state.setsDone)\<close>.
\<close>

theorem page_shows_state:
  assumes "reachable s"
  shows "page_list s = render_step_list s \<and> page_panel s = render_panel (cur_ex s) \<and>
         rep_text s = digits (repsDone s) \<and> set_text s = digits (setsDone s)"
  using reachable_page_ok [OF assms] by (simp add: page_ok_def page_list_def page_panel_def cur_ex_def)


theorem page_shows_state_witness:
  "page_panel (init None None) = render_panel (routine ! 0) \<and> rep_text (init None None) = ''0'' \<and>
   set_text (init None None) = ''0''"
proof -
  have "repsDone (init None None) = 0" "setsDone (init None None) = 0" "currentIndex (init None None) = 0"
    by (simp_all add: init_def render_exercise_def update_timer_display_def render_list_def load_progress_def
        empty_session_def)
  then show ?thesis using page_shows_state [OF reachable.start [of None None]] by (simp add: cur_ex_def)
qed

text \<open>
  C35. A reload never loses progress: in every reachable state, start-up from what is in
  \<^verbatim>\<open>localStorage\<close> restores the current exercise and the completed set, and so
  shows the same step list and the same exercise panel.
\<close>

theorem reload_shows_same_page:
  assumes "reachable s"
  shows "currentIndex (init (saved s) th) = currentIndex s \<and> completed (init (saved s) th) = completed s \<and>
         page_list (init (saved s) th) = page_list s \<and> page_panel (init (saved s) th) = page_panel s"
proof -
  have p: "progress_saved s" using assms by (rule reachable_progress_saved)
  have ok: "page_ok s" "page_ok (init (saved s) th)"
    using assms by (simp_all add: reachable_page_ok init_page_ok)
  have i: "currentIndex (init (saved s) th) = currentIndex s" "completed (init (saved s) th) = completed s"
    using p by (simp_all add: progress_saved_def init_progress_fields)
  then show ?thesis using ok
    by (simp add: page_ok_def page_list_def page_panel_def cong: render_step_list_cong)
qed

theorem reload_shows_same_page_witness:
  "currentIndex (init (saved (complete_click (init None None))) None) = 1 \<and>
   completed (init (saved (complete_click (init None None))) None) = [''posture-breath'']"
proof -
  let ?s = "complete_click (init None None)"
  have r: "reachable ?s" by (rule reachable.step [OF reachable.start [of None None], where e = Complete]) simp
  have s: "currentIndex ?s = 1" "completed ?s = [''posture-breath'']"
    by (simp_all add: complete_click_def Let_def init_def render_exercise_def load_progress_def render_list_def
        empty_session_def update_timer_display_def cur_ex_def routine_def js_set_add_def save_progress_def
        beep_def select_index_def cleanup_timers_def set_clock_def)
  show ?thesis using reload_shows_same_page [OF r, of None] s by simp
qed

text \<open>
  C37. Selecting an exercise shows it: after \<^verbatim>\<open>selectIndex(i)\<close> the panel shows
  exercise \<open>i\<close>, both counters read \<^verbatim>\<open>0\<close>, the timer display reads
  \<^verbatim>\<open>00:00\<close>, item \<open>i\<close> is the only active item of the step list, and the
  completion marks are those of the completed set, which selection does not change.
\<close>

theorem select_shows_exercise:
  assumes "i < n_steps"
  shows "page_panel (select_index i s) = render_panel (routine ! i) \<and>
         rep_text (select_index i s) = ''0'' \<and> set_text (select_index i s) = ''0'' \<and>
         fmt (display (select_index i s)) = ''00:00'' \<and>
         filter item_active (page_list (select_index i s)) = [page_list (select_index i s) ! i] \<and>
         map item_complete (page_list (select_index i s)) = map (\<lambda>e. ex_id e \<in> set (completed s)) routine"
proof -
  let ?t = "s\<lparr>currentIndex := i\<rparr>"
  have "filter item_active (render_step_list ?t) = map (\<lambda>j. render_item ?t j (routine ! j)) (filter (\<lambda>j. j = i) [0..<n_steps])"
    by (simp add: render_step_list_upt filter_map comp_def render_item_flags)
  also have "\<dots> = [render_step_list ?t ! i]" using assms by (simp add: filter_upt_single render_step_list_nth)
  finally have a: "filter item_active (render_step_list ?t) = [render_step_list ?t ! i]" .
  have c: "map item_complete (render_step_list ?t) = map (\<lambda>e. ex_id e \<in> set (completed s)) routine"
    by (rule nth_equalityI) (simp_all add: render_step_list_nth render_item_flags)
  show ?thesis using a c by (simp add: select_index_page fmt_zero)
qed

theorem select_shows_exercise_witness:
  "filter item_active (page_list (select_index 2 (init None None))) = [page_list (select_index 2 (init None None)) ! 2] \<and>
   fmt (display (select_index 2 (init None None))) = ''00:00''"
  using select_shows_exercise [of 2 "init None None"] by simp

end
