(* ===== verification/Spec2Isabelle.thy ===== *)
theory Spec2Isabelle
  imports Defects Stored_Progress Hold_Sets Display Step_List Audio Exercise_Panel Loop_Flag Page
begin

text \<open>
  \<^bold>\<open>A verification model of the neck-care routine guide.\<close>

  The program is one browser script, \<^verbatim>\<open>src/neck-care/script.js\<close>. It shows an
  ordered routine of nine neck exercises, tracks which are done, counts repetitions and
  sets, and runs countdowns with audible cues. Its parts and how they interact:
  \<^item> \<^bold>\<open>Routine catalog\<close> (\<^verbatim>\<open>const routine\<close>, lines 2--123). Static data: each
    exercise's id, text, interaction mode and numeric targets.
    Theory \<open>Catalog\<close>: \<open>mode\<close>, \<open>targets\<close>, \<open>exercise\<close>, \<open>routine\<close>, and the
    well-formedness predicate \<open>catalog_ok\<close>. Each exercise's text (category, title,
    note, instructions, caution) is one \<open>exercise_text\<close> definition, such as
    \<open>text_chin_tucks\<close>. Page text is kept as UTF-8 bytes; \<open>nb_hyphen\<close>,
    \<open>em_dash\<close>, \<open>times_sign\<close> and the others are the non-ASCII characters.
  \<^item> \<^bold>\<open>JS numbers\<close>. The countdown's remaining time is an IEEE double that loses
    the double \<^verbatim>\<open>0.1\<close> on every tick. Theory \<open>Js_Number\<close> models the doubles that
    are multiples of \<open>2^-56\<close> as integers (\<open>js_num\<close>). Subtraction is the exact
    difference rounded to 53 significant bits, to nearest with ties to even
    (\<open>rne53\<close>, \<open>js_sub\<close>). Every value a countdown started from whole seconds
    reaches is on this lattice, so the model is exact IEEE arithmetic there. It proves
    the rounding-error bound that makes every countdown below \<open>2^49\<close> seconds end.
  \<^item> \<^bold>\<open>Countdown primitive\<close> (\<^verbatim>\<open>class CountdownTimer\<close>, lines 159--191).
    Theory \<open>Countdown\<close>: the record \<open>countdown\<close> (\<^verbatim>\<open>interval\<close> set or not,
    \<^verbatim>\<open>remaining\<close>) and one function per method (\<open>timer_start\<close>, \<open>timer_pause\<close>,
    \<open>timer_reset\<close>, and the interval callback \<open>timer_tick\<close>). Each returns the
    callbacks it invoked (\<open>tick_out\<close>: \<^verbatim>\<open>onTick(v)\<close>, \<^verbatim>\<open>onDone()\<close>) in the order
    it invoked them; this list is the interface to the session, which gives them their
    meaning. \<open>tick_run n\<close> fires the interval up to \<open>n\<close> times. \<open>countdown_len\<close>
    (a \<^theory_text>\<open>partial_function (option)\<close>, since a countdown may never end) counts
    the ticks to \<^verbatim>\<open>onDone\<close>.
  \<^item> \<^bold>\<open>Session state\<close> (\<^verbatim>\<open>const state\<close>, lines 126--134, with the parts of the
    page and of \<^verbatim>\<open>localStorage\<close> the handlers read back). Theory
    \<open>Session_State\<close>: record \<open>session\<close>. Timer objects live in a heap (\<open>timers\<close>)
    and \<open>timer\<close> is the address \<^verbatim>\<open>state.timer\<close> holds, because
    \<^verbatim>\<open>renderExercise\<close> allocates a new object each time and an old one that was never
    paused keeps ticking. Each object records the exercise its \<^verbatim>\<open>onDone\<close> closure
    captured (\<open>ex_at\<close>). The deferred hold-loop restarts wait in \<open>pending\<close>.
  \<^item> \<^bold>\<open>Persistence adapter\<close> (\<^verbatim>\<open>loadProgress\<close>, \<^verbatim>\<open>saveProgress\<close>, the theme
    key). There are two levels.
    \<^item> Theory \<open>Persistence\<close>, the abstract level. \<open>load_progress\<close> reads the record
      \<open>progress\<close>, that is, the fields of the right JS type. Also \<open>save_progress\<close>,
      \<open>clamp_index\<close> and \<open>initial_theme\<close>.
    \<^item> Theory \<open>Stored_Progress\<close>, the parsed JSON value (\<open>jsval\<close>). The property
      reads (\<open>js_get\<close>, which throws on \<^verbatim>\<open>null\<close>), \<open>load_json\<close> with its
      swallowed exceptions, and \<open>init_json\<close>, whose \<^verbatim>\<open>renderExercise\<close> throws on a
      non-integer index. \<open>abs_progress\<close> maps the concrete level to the abstract one.
  \<^item> \<^bold>\<open>Mode state machine and navigation\<close> (the \<^verbatim>\<open>onDone\<close> closure of
    \<^verbatim>\<open>renderExercise\<close>, \<^verbatim>\<open>cleanupTimers\<close>, \<^verbatim>\<open>selectIndex\<close>, the button handlers
    and \<^verbatim>\<open>init\<close>, lines 253--401). Theory \<open>Session\<close>: one definition per handler
    (\<open>start_click\<close>, \<open>pause_click\<close>, \<open>reset_click\<close>, \<open>rep_inc\<close>, \<open>rep_dec\<close>,
    \<open>set_inc\<close>, \<open>set_dec\<close>, \<open>prev_click\<close>, \<open>next_click\<close>, \<open>complete_click\<close>,
    \<open>reset_progress_click\<close>, \<open>toggle_theme\<close>), the timer callbacks (\<open>on_done\<close>,
    \<open>apply_outs\<close>, \<open>timer_call\<close>), the deferred restart (\<open>fire_pending\<close>), the
    event type \<open>event\<close> with the step function \<open>step\<close>, its runs \<open>run\<close>, start-up
    \<open>init\<close>, and the reachable states \<open>reachable\<close>.
  \<^item> \<^bold>\<open>Hold loops\<close> (theories \<open>Hold_Loops\<close>, \<open>Hold_Sets\<close>). The automatic loops of
    the mode state machine, run hold by hold through \<open>run\<close>. The lemmas are stated once
    for both loops, over \<open>loop_kind\<close>, which names each loop's counter, target and
    restart delay.
  \<^item> \<^bold>\<open>Timer ownership\<close> (theory \<open>Timer_Ownership\<close>). \<open>only_current_runs\<close>:
    only the timer object \<^verbatim>\<open>state.timer\<close> holds may have a live interval. It holds
    in every state reached without a confirmed \<^verbatim>\<open>Reset all progress\<close>, because
    \<^verbatim>\<open>selectIndex\<close> pauses the old object before \<^verbatim>\<open>renderExercise\<close> replaces it.
  \<^item> \<^bold>\<open>Loop flag\<close> (theory \<open>Loop_Flag\<close>). \<open>loop_flag_ok\<close>: a set
    \<^verbatim>\<open>holdLoopActive\<close> means a hold exercise. It is preserved by every event except a
    confirmed progress reset. \<open>run_invariant\<close> in theory \<open>Session\<close> is the induction
    over runs that this theory and \<open>Timer_Ownership\<close> share.
  \<^item> \<^bold>\<open>Defects\<close> (theory \<open>Defects\<close>). Concrete runs from the chin-tuck exercise.
    The progress reset leaves the old countdown running and its \<^verbatim>\<open>onDone\<close> acts on
    the new exercise. A pending hold restart survives Pause, Reset and a switch to
    another exercise.
  \<^item> \<^bold>\<open>Time display\<close> (\<^verbatim>\<open>fmt\<close>, lines 138--142). Theory \<open>Format\<close>.
    \<open>round_div\<close> and \<open>js_div60\<close> model the IEEE division \<^verbatim>\<open>secTotal / 60\<close>,
    \<open>js_mod60\<close> the exact \<^verbatim>\<open>%\<close>, \<open>digits\<close> and \<open>js_string_int\<close> model
    \<^verbatim>\<open>String\<close>, and \<open>pad_start2\<close> models \<^verbatim>\<open>padStart(2,'0')\<close>. The page shows
    \<open>fmt (display s)\<close>. Theory \<open>Display\<close> composes the session with this formatter.
  \<^item> \<^bold>\<open>Step list\<close> (\<^verbatim>\<open>renderStepList\<close>, lines 222--235). Theory \<open>Step_List\<close>:
    \<open>render_step_list\<close> gives each item's class string, its check mark or number,
    its title and category, and its click event. \<open>item_html\<close> is the
    \<^verbatim>\<open>innerHTML\<close> template. \<open>html_nodes\<close> reads a string the way the HTML
    tokenizer does, as text nodes and tags. It gives \<open>None\<close> on markup it does not
    follow: comments, character references and unterminated tags.
  \<^item> \<^bold>\<open>Exercise panel\<close> (\<^verbatim>\<open>renderExercise\<close>, lines 270--297). Theory
    \<open>Exercise_Panel\<close>: \<open>render_targets\<close> (the three target lines) and
    \<open>render_panel\<close> (the whole panel, with \<^verbatim>\<open>x || ''\<close> as \<open>js_or_empty\<close>).
  \<^item> \<^bold>\<open>Page\<close> (theory \<open>Page\<close>). The session records what each render read:
    \<open>panel_at\<close> for \<^verbatim>\<open>renderExercise\<close>, and \<open>list_cur\<close> and
    \<open>list_done\<close> for \<^verbatim>\<open>renderStepList\<close> (\<open>render_list\<close> in theory
    \<open>Session\<close>). It also holds the text of the two counter spans, \<open>rep_text\<close> and
    \<open>set_text\<close>. Each handler writes them where the code does. \<open>page_list\<close> and
    \<open>page_panel\<close> compute the page from them.
    \<^item> \<open>page_ok\<close> says the page shows the state.
    \<^item> \<open>progress_saved\<close> says that \<^verbatim>\<open>localStorage\<close> holds the current progress.
  \<^item> \<^bold>\<open>Audio cues\<close> (\<^verbatim>\<open>beep\<close>, lines 144--157). Theory \<open>Audio\<close>. The session logs each
    beep in \<open>tones\<close>. \<open>beep_calls\<close> gives the Web Audio calls a beep makes, with the
    swallowed \<^verbatim>\<open>TypeError\<close> where Web Audio is missing. \<open>beep_stop\<close> is the timeout
    that stops the oscillator and closes the context.
  \<^item> \<^bold>\<open>Not modelled.\<close>
    \<^item> \<^verbatim>\<open>byId\<close> and the \<^verbatim>\<open>els\<close> table (lines 137, 194--219) only look up DOM
      elements. Each field of the model that is written to the page stands for one of
      these elements.
    \<^item> The static HTML before start-up is not among the sources. Start-up overwrites
      every page field, so the placeholder values in \<open>empty_session\<close> are never
      shown.
    \<^item> \<^verbatim>\<open>applyTheme\<close>'s class toggle is modelled only as \<open>light_mode\<close>.
    \<^item> A counter printed by \<^verbatim>\<open>String\<close> is its decimal digits; this holds below
      \<open>10^21\<close>, far beyond any number of clicks.
    \<^item> A stored JSON number is a rational (\<open>JNum\<close>), so the model has no \<open>Infinity\<close>.
      \<^verbatim>\<open>JSON.parse\<close> gives one for a literal such as \<^verbatim>\<open>1e400\<close>. The code would
      clamp such an index to 8 (or to 0 for \<open>-Infinity\<close>), an integer, so start-up
      would succeed.
    \<^item> \<^verbatim>\<open>localStorage.setItem\<close> is assumed never to throw; a full quota is not
      modelled.
    \<^item> In \<open>audio_of_tones\<close> each oscillator's stop and close follow its own beep's
      calls immediately, not in real-time order. Only the counts of opened and closed
      contexts are claimed. A stored completed array may hold non-strings. The code keeps them
    in its \<^verbatim>\<open>Set\<close> and saves them back; the session keeps only the strings, the
    only members that can match an exercise id.
    Real time is not modelled (see \<^bold>\<open>Scheduling\<close>).

  \<^bold>\<open>Scheduling.\<close> The browser runs one callback at a time. The model lets any
  enabled event come next: a click, the interval callback of a timer object whose
  schedule is set, or a pending restart. It does not compare the 100 ms ticks with the
  400/600 ms restart delays. So it allows every interleaving the browser allows, and
  some more. Safety results hold for all of them. The traces that exhibit bugs only use
  orders a user can produce by clicking within the restart delay.
  A timed model would add the phase of each \<^verbatim>\<open>setInterval\<close> and the due time of
  each \<^verbatim>\<open>setTimeout\<close>. It would only remove interleavings, so every safety and
  invariant result here would carry over to it unchanged. It is not modelled.

  \<^bold>\<open>What is proved.\<close>
  \<^item> Countdown (theory \<open>Countdown\<close>):
    \<^item> every countdown below \<open>2^49\<close> seconds ends, with one \<^verbatim>\<open>onDone\<close>
      (\<open>countdown_finishes\<close>);
    \<^item> pause followed by start resumes the uninterrupted run;
    \<^item> two evaluated lemmas back the drift findings: a 5 s countdown takes 51 ticks,
      not 50, and 10 ticks from 10 s leave 9.000000000000004 s. The number of ticks is
      not \<open>10 n + 1\<close> for every whole number of seconds \<open>n\<close>: about a third of the
      starts up to 3000 s end on tick \<open>10 n\<close>. So there is no general tick-count
      theorem.
  \<^item> Catalog (theory \<open>Catalog\<close>): the lemma \<open>routine_ok\<close> checks the data: the
    catalog is well formed.
  \<^item> Session (theory \<open>Session\<close>): the session invariant \<open>session_ok\<close> holds in every
    reachable state. It bounds the index and the timer reference, keeps the completed
    set free of duplicates, and keeps every remaining time non-negative.
  \<^item> Hold loops (theories \<open>Hold_Loops\<close> and \<open>Hold_Sets\<close>): both automatic loops end
    with their counter at target. The hold-sets theorem takes the tick count \<open>N\<close> of a
    hold from \<open>countdown_len\<close>, which the countdown theory shows is defined.
  \<^item> Timer ownership (theory \<open>Timer_Ownership\<close>):
    \<^item> only the current timer ticks outside a progress reset;
    \<^item> Pause silences every timer callback when no restart is pending;
    \<^item> \<^verbatim>\<open>selectIndex\<close> resets the counters, the loop and the timers, and saves the
      new index.
  \<^item> Loop flag (theory \<open>Loop_Flag\<close>): outside a progress reset the loop flag is only
    set on a hold exercise.
  \<^item> Manual counters during a loop (theory \<open>Hold_Loops\<close>): a +1 clicked during the
    first hold makes the hold-reps loop stop one hold early.
  \<^item> Handler contracts (theory \<open>Navigation\<close>):
    \<^item> Mark complete adds the id once, moves on except from the last exercise, and saves;
      completing the same exercise again changes nothing; one Mark complete per remaining
      exercise completes the rest of the routine;
    \<^item> Start in timer mode resumes or starts from the duration; Start in hold-sets mode
      arms the loop and resets a counter at target;
    \<^item> Reset stops the countdown at 0;
    \<^item> a reload restores the saved progress, and the stored theme round-trips.
  \<^item> Defects (theory \<open>Defects\<close>): the four defect traces described above.
  \<^item> Stored progress (theory \<open>Stored_Progress\<close>):
    \<^item> the JSON start-up refines the abstract one, except for a stored index that is a
      non-integer strictly between 0 and 8;
    \<^item> such an index makes start-up throw a \<^verbatim>\<open>TypeError\<close>;
    \<^item> what \<^verbatim>\<open>saveProgress\<close> stores loads back without error.
  \<^item> Step list (theory \<open>Step_List\<close>):
    \<^item> exactly one item is active, the current exercise;
    \<^item> completed exercises show the check mark, the others their number;
    \<^item> each item shows its exercise's title and category, and item \<open>i\<close> selects
      exercise \<open>i\<close>;
    \<^item> the \<^verbatim>\<open>innerHTML\<close> of every item tokenizes as exactly its indentation,
      marker, title and category text nodes, in that order, for every session. So no
      catalog text becomes markup.
  \<^item> Page (theory \<open>Page\<close>):
    \<^item> in every reachable state the page shows the state: the step list, the current
      exercise's panel and the two counters;
    \<^item> a reload at any moment restores the exercise and the completed set, and shows
      the same page;
    \<^item> selecting an exercise shows its panel, zeroed counters and \<^verbatim>\<open>00:00\<close>.
  \<^item> Exercise panel (theory \<open>Exercise_Panel\<close>): for every exercise whose targets
    fit its mode, exactly the target line of that mode is filled, and no line prints
    \<^verbatim>\<open>undefined\<close> or \<^verbatim>\<open>NaN\<close>.
  \<^item> Audio (theory \<open>Audio\<close>): the end of a countdown sounds 1200 Hz then 900 Hz. Every
    audio context is closed again. Without Web Audio nothing plays and no exception
    escapes.
  \<^item> Time display (theory \<open>Format\<close>): \<^verbatim>\<open>fmt\<close> prints the floor of the seconds as
    minutes and seconds for every double up to \<open>2^49\<close> seconds. The rounding of the
    division never reaches the next minute. Whole seconds below 100 minutes print as
    \<^verbatim>\<open>MM:SS\<close>.
  \<^item> Display (theory \<open>Display\<close>): in every reachable state every countdown value,
    displayed value and restart argument is a double between 0 and 120 seconds. So the
    display always reads \<^verbatim>\<open>MM:SS\<close>. Every live countdown of a reachable state,
    left alone, ends within 1746 ticks. That is \<open>120 s\<close> divided by the least
    decrease per tick, \<open>tick_drop\<close>; the actual worst case is 1201 ticks.

  \<^bold>\<open>Bounds.\<close>
  \<^item> The countdown lemmas hold up to \<open>2^49\<close> seconds. Above that the per-tick rounding
    error could cancel the 0.1 decrement.
  \<^item> The display invariant uses the longest target of the catalog, 120 seconds. Every
    value a reachable state holds is below it.
  \<^item> The start-up, hold-loop and defect traces are evaluated on the concrete catalog.
    A 5 s hold is 51 ticks; the hold-sets theorem takes its tick count from
    \<open>countdown_len\<close> instead of evaluating 300 ticks.

  \<^bold>\<open>Status.\<close> Every function of the script is modelled, except the DOM lookups
  listed above. Two refinements could still be added, and neither would change a
  result here:
  \<^item> a timed event order;
  \<^item> the non-string members of a stored completed array.
\<close>

end
